theory Spec2Isabelle
  imports Complex_Main "HOL-Library.Sublist"
begin

section \<open>JSON values and the JavaScript runtime\<close>

text \<open>
  The wire format is JSON. A parsed JSON text is a value of \<open>json\<close>; an object keeps
  its members as an association list, each key once as in the object \<open>JSON.parse\<close>
  builds, looked up with \<open>map_of\<close> (a member that is absent reads as \<open>undefined\<close>
  in JavaScript, here \<open>None\<close>). A number is a real: \<open>NaN\<close> and the infinities
  cannot be written in JSON. (A text with a number beyond the range of a double, which
  \<open>JSON.parse\<close> reads as an infinity, denotes no value of \<open>json\<close>.)
\<close>

datatype json =
    JNull
  | JBool bool
  | JNum real
  | JStr string
  | JArr "json list"
  | JObj "(string \<times> json) list"

text \<open>
  The values of a JavaScript program are more than JSON can carry. A number may be
  infinite or \<open>NaN\<close>; a value of type \<open>unknown\<close> may be \<open>undefined\<close>, or an
  array or a plain object holding \<open>undefined\<close> or such numbers. (Functions, symbols,
  big integers and objects with a method \<open>toJSON\<close> are left out; a finite number
  is given by its value, so that \<open>0\<close> and \<open>-0\<close> are one number.)
\<close>

datatype js_number = Finite real | PlusInfinity | MinusInfinity | NotANumber

datatype js_value =
    V_undefined
  | V_null
  | V_bool bool
  | V_number js_number
  | V_string string
  | V_array "js_value list"
  | V_object "(string \<times> js_value) list"

text \<open>A JSON value, seen as a JavaScript value.\<close>

primrec json_value :: "json \<Rightarrow> js_value" where
  "json_value JNull = V_null"
| "json_value (JBool b) = V_bool b"
| "json_value (JNum r) = V_number (Finite r)"
| "json_value (JStr s) = V_string s"
| "json_value (JArr xs) = V_array (map json_value xs)"
| "json_value (JObj kvs) = V_object (map (map_prod id json_value) kvs)"

text \<open>
  \<open>JSON.stringify\<close>, given by the JSON value its text denotes: a number that is not
  finite is written \<open>null\<close>; \<open>undefined\<close> is written \<open>null\<close> inside an array,
  left out of an object, and gives no text at all on its own (\<open>None\<close>).
\<close>

definition number_json :: "js_number \<Rightarrow> json" where
  "number_json n = (case n of Finite r \<Rightarrow> JNum r | _ \<Rightarrow> JNull)"

definition json_or_null :: "json option \<Rightarrow> json" where
  "json_or_null r = (case r of None \<Rightarrow> JNull | Some j \<Rightarrow> j)"

definition json_member :: "string \<times> json option \<Rightarrow> (string \<times> json) list" where
  "json_member m = (case snd m of None \<Rightarrow> [] | Some j \<Rightarrow> [(fst m, j)])"

primrec stringified :: "js_value \<Rightarrow> json option" where
  "stringified V_undefined = None"
| "stringified V_null = Some JNull"
| "stringified (V_bool b) = Some (JBool b)"
| "stringified (V_number n) = Some (number_json n)"
| "stringified (V_string s) = Some (JStr s)"
| "stringified (V_array xs) = Some (JArr (map json_or_null (map stringified xs)))"
| "stringified (V_object kvs) =
     Some (JObj (concat (map json_member (map (map_prod id stringified) kvs))))"

definition element_json :: "js_value \<Rightarrow> json" where
  "element_json x = json_or_null (stringified x)"

text \<open>The type tags zod reports in an issue (\<open>getParsedType\<close>).\<close>

datatype zod_type =
  ZT_undefined | ZT_null | ZT_boolean | ZT_number | ZT_string | ZT_array | ZT_object

fun getParsedType :: "json option \<Rightarrow> zod_type" where
  "getParsedType None = ZT_undefined"
| "getParsedType (Some JNull) = ZT_null"
| "getParsedType (Some (JBool b)) = ZT_boolean"
| "getParsedType (Some (JNum n)) = ZT_number"
| "getParsedType (Some (JStr s)) = ZT_string"
| "getParsedType (Some (JArr xs)) = ZT_array"
| "getParsedType (Some (JObj kvs)) = ZT_object"

text \<open>
  A zod issue: the path of the offending value and what was violated. The wording of
  the message belongs to the zod library and is a parameter of the model
  (\<open>zod_message\<close> below).
\<close>

datatype issue_code =
    invalid_type string zod_type
  | invalid_literal string
  | invalid_enum_value "string list"
  | invalid_union
  | invalid_union_discriminator "string list"
  | too_small_string nat
  | too_small_number real bool
  | too_big_number real bool

datatype issue = Issue (issue_path: "string list") (issue_code: issue_code)

text \<open>
  What the code takes from its platform: \<open>JSON.parse\<close> (\<open>None\<close> when it throws),
  the rendering of a number as a string (\<open>String(n)\<close>, template literals), and the
  message zod attaches to an issue.
\<close>

record runtime =
  JSON_parse :: "string \<Rightarrow> json option"
  Number_toString :: "real \<Rightarrow> string"
  zod_message :: "issue_code \<Rightarrow> string"

fun join :: "string \<Rightarrow> string list \<Rightarrow> string" where
  "join sep [] = []"
| "join sep [x] = x"
| "join sep (x # y # ys) = x @ sep @ join sep (y # ys)"

text \<open>
  What a JavaScript operation throws when it cannot go on: a \<open>TypeError\<close>, or any
  other exception, given by a description.
\<close>

datatype js_exception = TypeError | Exception string

text \<open>The results of a list of evaluations, or the first exception among them.\<close>

fun collect :: "('e + 'a) list \<Rightarrow> 'e + 'a list" where
  "collect [] = Inr []"
| "collect (Inl e # rs) = Inl e"
| "collect (Inr x # rs) = (case collect rs of Inl e \<Rightarrow> Inl e | Inr xs \<Rightarrow> Inr (x # xs))"

text \<open>
  \<open>String(v)\<close> on a parsed JSON value. A string is itself. An array is its elements
  joined by commas, each converted as \<open>String\<close> does, but \<open>null\<close> elements print as
  nothing (\<open>Array.prototype.join\<close>). An object is converted by its \<open>toString\<close>: the
  inherited one answers \<open>[object Object]\<close>; an object with a member \<open>toString\<close> of
  its own hides the inherited one by a value that cannot be called, its \<open>valueOf\<close>
  gives no primitive either, and the conversion throws a \<open>TypeError\<close>.
\<close>

fun js_String :: "(real \<Rightarrow> string) \<Rightarrow> json \<Rightarrow> js_exception + string"
  and js_element :: "(real \<Rightarrow> string) \<Rightarrow> json \<Rightarrow> js_exception + string" where
  "js_String nts JNull = Inr ''null''"
| "js_String nts (JBool b) = Inr (if b then ''true'' else ''false'')"
| "js_String nts (JNum n) = Inr (nts n)"
| "js_String nts (JStr s) = Inr s"
| "js_String nts (JArr xs) = map_sum id (join '','') (collect (map (js_element nts) xs))"
| "js_String nts (JObj kvs) =
     (if map_of kvs ''toString'' = None then Inr ''[object Object]'' else Inl TypeError)"
| "js_element nts JNull = Inr []"
| "js_element nts (JBool b) = Inr (if b then ''true'' else ''false'')"
| "js_element nts (JNum n) = Inr (nts n)"
| "js_element nts (JStr s) = Inr s"
| "js_element nts (JArr xs) = map_sum id (join '','') (collect (map (js_element nts) xs))"
| "js_element nts (JObj kvs) =
     (if map_of kvs ''toString'' = None then Inr ''[object Object]'' else Inl TypeError)"

section \<open>The zod combinators used by protocol.ts\<close>

text \<open>
  A schema parses a value (or \<open>undefined\<close>) found at a path into typed data, or
  reports issues. An object schema parses all its members and reports the issues of all
  of them, in the order of its shape: \<open>and_field\<close> combines the members so.
\<close>

type_synonym 'a parsed = "issue list + 'a"

type_synonym 'a schema = "string list \<Rightarrow> json option \<Rightarrow> 'a parsed"

definition and_field :: "('a \<Rightarrow> 'b) parsed \<Rightarrow> 'a parsed \<Rightarrow> 'b parsed" where
  "and_field f x =
     (case f of
        Inl e1 \<Rightarrow> (case x of Inl e2 \<Rightarrow> Inl (e1 @ e2) | Inr _ \<Rightarrow> Inl e1)
      | Inr g \<Rightarrow> (case x of Inl e2 \<Rightarrow> Inl e2 | Inr v \<Rightarrow> Inr (g v)))"

definition issues_of :: "'a parsed \<Rightarrow> issue list" where
  "issues_of r = (case r of Inl e \<Rightarrow> e | Inr _ \<Rightarrow> [])"

datatype number_check = GreaterThan real | AtLeast real | AtMost real

fun check_number :: "string list \<Rightarrow> real \<Rightarrow> number_check \<Rightarrow> issue list" where
  "check_number p n (GreaterThan b) = (if n > b then [] else [Issue p (too_small_number b False)])"
| "check_number p n (AtLeast b) = (if n \<ge> b then [] else [Issue p (too_small_number b True)])"
| "check_number p n (AtMost b) = (if n \<le> b then [] else [Issue p (too_big_number b True)])"

definition z_string :: "nat \<Rightarrow> string schema" where
  "z_string minlen p v =
     (case v of
        Some (JStr s) \<Rightarrow> if length s < minlen then Inl [Issue p (too_small_string minlen)] else Inr s
      | _ \<Rightarrow> Inl [Issue p (invalid_type ''string'' (getParsedType v))])"

definition z_number :: "number_check list \<Rightarrow> real schema" where
  "z_number checks p v =
     (case v of
        Some (JNum n) \<Rightarrow>
          (let es = concat (map (check_number p n) checks) in if es = [] then Inr n else Inl es)
      | _ \<Rightarrow> Inl [Issue p (invalid_type ''number'' (getParsedType v))])"

definition z_boolean :: "bool schema" where
  "z_boolean p v =
     (case v of
        Some (JBool b) \<Rightarrow> Inr b
      | _ \<Rightarrow> Inl [Issue p (invalid_type ''boolean'' (getParsedType v))])"

definition joinValues :: "string list \<Rightarrow> string" where
  "joinValues vs = join '' | '' (map (\<lambda>v. [CHR 0x27] @ v @ [CHR 0x27]) vs)"

definition z_enum :: "(string \<times> 'a) list \<Rightarrow> 'a schema" where
  "z_enum options p v =
     (case v of
        Some (JStr s) \<Rightarrow>
          (case map_of options s of
             Some x \<Rightarrow> Inr x
           | None \<Rightarrow> Inl [Issue p (invalid_enum_value (map fst options))])
      | _ \<Rightarrow> Inl [Issue p (invalid_type (joinValues (map fst options)) (getParsedType v))])"

definition z_literal :: "string \<Rightarrow> unit schema" where
  "z_literal lit p v =
     (case v of
        Some (JStr s) \<Rightarrow> if s = lit then Inr () else Inl [Issue p (invalid_literal lit)]
      | _ \<Rightarrow> Inl [Issue p (invalid_literal lit)])"

definition z_optional :: "'a schema \<Rightarrow> 'a option schema" where
  "z_optional inner p v =
     (case v of
        None \<Rightarrow> Inr None
      | Some _ \<Rightarrow> (case inner p v of Inl e \<Rightarrow> Inl e | Inr x \<Rightarrow> Inr (Some x)))"

text \<open>\<open>z.array(z.unknown())\<close>: any array, its elements kept as they are.\<close>

definition z_array_unknown :: "json list schema" where
  "z_array_unknown p v =
     (case v of
        Some (JArr xs) \<Rightarrow> Inr xs
      | _ \<Rightarrow> Inl [Issue p (invalid_type ''array'' (getParsedType v))])"

definition digit_char :: "nat \<Rightarrow> char" where
  "digit_char d = ''0123456789'' ! d"

fun show_nat :: "nat \<Rightarrow> string" where
  "show_nat n =
     (if n < 10 then [digit_char n] else show_nat (n div 10) @ [digit_char (n mod 10)])"

declare show_nat.simps [simp del]

fun parse_elements :: "'a schema \<Rightarrow> string list \<Rightarrow> nat \<Rightarrow> json list \<Rightarrow> 'a list parsed" where
  "parse_elements elem p i [] = Inr []"
| "parse_elements elem p i (x # xs) =
     and_field
       (and_field (Inr (\<lambda>y ys. y # ys)) (elem (p @ [show_nat i]) (Some x)))
       (parse_elements elem p (Suc i) xs)"

definition z_array :: "'a schema \<Rightarrow> 'a list schema" where
  "z_array elem p v =
     (case v of
        Some (JArr xs) \<Rightarrow> parse_elements elem p 0 xs
      | _ \<Rightarrow> Inl [Issue p (invalid_type ''array'' (getParsedType v))])"

text \<open>
  \<open>z.union([a, b])\<close>: the first option that accepts the value wins; when none does,
  one issue \<open>invalid_union\<close> at the value's own path.
\<close>

definition z_union :: "'a schema \<Rightarrow> 'b schema \<Rightarrow> ('a + 'b) schema" where
  "z_union a b p v =
     (case a p v of
        Inr x \<Rightarrow> Inr (Inl x)
      | Inl _ \<Rightarrow> (case b p v of Inr y \<Rightarrow> Inr (Inr y) | Inl _ \<Rightarrow> Inl [Issue p invalid_union]))"

section \<open>Commands (types.ts)\<close>

datatype browser_name = Chromium | Firefox | Webkit
datatype wait_until = Load | DomContentLoaded | NetworkIdle
datatype mouse_button = ButtonLeft | ButtonRight | ButtonMiddle
datatype image_format = Png | Jpeg
datatype element_state = Attached | Detached | Visible | Hidden
datatype direction = Up | Down | DirLeft | DirRight

text \<open>
  One datatype per command interface, its fields in the order of the interface (after
  \<open>id\<close>; the \<open>action\<close> tag is the constructor of the union). An optional field is
  an \<open>option\<close>. The type of the \<open>number\<close> fields is the parameter \<open>'n\<close>, the type of
  the elements of \<open>args\<close> (\<open>unknown[]\<close>) the parameter \<open>'v\<close>: a command that
  \<open>parseCommand\<close> has read off the wire holds real numbers and JSON values
  (\<open>command\<close>); a command object in a JavaScript program holds any numbers and values
  (\<open>command_object\<close>).
\<close>

datatype 'n viewport_value = Viewport (width: 'n) (height: 'n)

datatype 'n launch_value =
  LaunchCommand string "bool option" "'n viewport_value option" "browser_name option"
datatype navigate_command =
  NavigateCommand string string "wait_until option"
datatype 'n click_value =
  ClickCommand string string "mouse_button option" "'n option" "'n option"
datatype 'n type_value =
  TypeCommand string string string "'n option" "bool option"
datatype press_command =
  PressCommand string string "string option"
datatype 'n screenshot_value =
  ScreenshotCommand string "string option" "bool option" "string option"
    "image_format option" "'n option"
datatype snapshot_command = SnapshotCommand string
datatype 'v evaluate_value =
  EvaluateCommand string string "'v list option"
datatype 'n wait_value =
  WaitCommand string "string option" "'n option" "element_state option"
datatype 'n scroll_value =
  ScrollCommand string "string option" "'n option" "'n option" "direction option"
    "'n option"
datatype select_command =
  SelectCommand string string "string + string list"
datatype hover_command = HoverCommand string string
datatype content_command = ContentCommand string "string option"
datatype close_command = CloseCommand string
datatype tab_new_command = TabNewCommand string
datatype tab_list_command = TabListCommand string
datatype 'n tab_switch_value = TabSwitchCommand string 'n
datatype 'n tab_close_value = TabCloseCommand string "'n option"
datatype 'n window_new_value = WindowNewCommand string "'n viewport_value option"

datatype ('n, 'v) command_value =
    Launch "'n launch_value"
  | Navigate navigate_command
  | Click "'n click_value"
  | Type "'n type_value"
  | Press press_command
  | Screenshot "'n screenshot_value"
  | Snapshot snapshot_command
  | Evaluate "'v evaluate_value"
  | Wait "'n wait_value"
  | Scroll "'n scroll_value"
  | Select select_command
  | Hover hover_command
  | Content content_command
  | Close close_command
  | TabNew tab_new_command
  | TabList tab_list_command
  | TabSwitch "'n tab_switch_value"
  | TabClose "'n tab_close_value"
  | WindowNew "'n window_new_value"

type_synonym viewport = "real viewport_value"
type_synonym launch_command = "real launch_value"
type_synonym click_command = "real click_value"
type_synonym type_command = "real type_value"
type_synonym screenshot_command = "real screenshot_value"
type_synonym evaluate_command = "json evaluate_value"
type_synonym wait_command = "real wait_value"
type_synonym scroll_command = "real scroll_value"
type_synonym tab_switch_command = "real tab_switch_value"
type_synonym tab_close_command = "real tab_close_value"
type_synonym window_new_command = "real window_new_value"
type_synonym command = "(real, json) command_value"
type_synonym command_object = "(js_number, js_value) command_value"

text \<open>A command read off the wire, seen as a command object.\<close>

definition sent :: "command \<Rightarrow> command_object" where
  "sent = map_command_value Finite json_value"

fun command_id :: "('n, 'v) command_value \<Rightarrow> string" where
  "command_id (Launch (LaunchCommand i _ _ _)) = i"
| "command_id (Navigate (NavigateCommand i _ _)) = i"
| "command_id (Click (ClickCommand i _ _ _ _)) = i"
| "command_id (Type (TypeCommand i _ _ _ _)) = i"
| "command_id (Press (PressCommand i _ _)) = i"
| "command_id (Screenshot (ScreenshotCommand i _ _ _ _ _)) = i"
| "command_id (Snapshot (SnapshotCommand i)) = i"
| "command_id (Evaluate (EvaluateCommand i _ _)) = i"
| "command_id (Wait (WaitCommand i _ _ _)) = i"
| "command_id (Scroll (ScrollCommand i _ _ _ _ _)) = i"
| "command_id (Select (SelectCommand i _ _)) = i"
| "command_id (Hover (HoverCommand i _)) = i"
| "command_id (Content (ContentCommand i _)) = i"
| "command_id (Close (CloseCommand i)) = i"
| "command_id (TabNew (TabNewCommand i)) = i"
| "command_id (TabList (TabListCommand i)) = i"
| "command_id (TabSwitch (TabSwitchCommand i _)) = i"
| "command_id (TabClose (TabCloseCommand i _)) = i"
| "command_id (WindowNew (WindowNewCommand i _)) = i"

section \<open>The command schemas (protocol.ts)\<close>

definition field :: "'a schema \<Rightarrow> string \<Rightarrow> string list \<Rightarrow> (string \<times> json) list \<Rightarrow> 'a parsed" where
  "field s key p kvs = s (p @ [key]) (map_of kvs key)"

text \<open>
  \<open>z.object({...})\<close>: the value must be an object; its members are parsed by
  \<open>members\<close>, each at the object's path extended by its key. Members the shape does
  not name are dropped.
\<close>

definition z_object :: "(string list \<Rightarrow> (string \<times> json) list \<Rightarrow> 'a parsed) \<Rightarrow> 'a schema" where
  "z_object members p v =
     (case v of
        Some (JObj kvs) \<Rightarrow> members p kvs
      | _ \<Rightarrow> Inl [Issue p (invalid_type ''object'' (getParsedType v))])"

text \<open>
  \<open>baseCommandSchema.extend({action: z.literal(lit), ...})\<close>: the members \<open>id\<close> (any
  string) and \<open>action\<close> (the literal) come first in the shape.
\<close>

definition baseCommandSchema_extend ::
  "string \<Rightarrow> (string \<Rightarrow> 'a) \<Rightarrow> string list \<Rightarrow> (string \<times> json) list \<Rightarrow> 'a parsed" where
  "baseCommandSchema_extend lit mk p kvs =
     and_field
       (and_field (Inr (\<lambda>i (u::unit). mk i)) (field (z_string 0) ''id'' p kvs))
       (field (z_literal lit) ''action'' p kvs)"

definition browser_values :: "(string \<times> browser_name) list" where
  "browser_values = [(''chromium'', Chromium), (''firefox'', Firefox), (''webkit'', Webkit)]"

definition waitUntil_values :: "(string \<times> wait_until) list" where
  "waitUntil_values =
     [(''load'', Load), (''domcontentloaded'', DomContentLoaded), (''networkidle'', NetworkIdle)]"

definition button_values :: "(string \<times> mouse_button) list" where
  "button_values = [(''left'', ButtonLeft), (''right'', ButtonRight), (''middle'', ButtonMiddle)]"

definition format_values :: "(string \<times> image_format) list" where
  "format_values = [(''png'', Png), (''jpeg'', Jpeg)]"

definition state_values :: "(string \<times> element_state) list" where
  "state_values =
     [(''attached'', Attached), (''detached'', Detached), (''visible'', Visible),
      (''hidden'', Hidden)]"

definition direction_values :: "(string \<times> direction) list" where
  "direction_values = [(''up'', Up), (''down'', Down), (''left'', DirLeft), (''right'', DirRight)]"

definition viewportSchema :: "viewport schema" where
  "viewportSchema =
     z_object (\<lambda>p kvs.
       and_field
         (and_field (Inr (\<lambda>w h. Viewport w h))
            (field (z_number [GreaterThan 0]) ''width'' p kvs))
         (field (z_number [GreaterThan 0]) ''height'' p kvs))"

definition launchSchema :: "launch_command schema" where
  "launchSchema =
     z_object (\<lambda>p kvs.
       and_field
         (and_field
            (and_field (baseCommandSchema_extend ''launch'' LaunchCommand p kvs)
               (field (z_optional z_boolean) ''headless'' p kvs))
            (field (z_optional viewportSchema) ''viewport'' p kvs))
         (field (z_optional (z_enum browser_values)) ''browser'' p kvs))"

definition navigateSchema :: "navigate_command schema" where
  "navigateSchema =
     z_object (\<lambda>p kvs.
       and_field
         (and_field (baseCommandSchema_extend ''navigate'' NavigateCommand p kvs)
            (field (z_string 1) ''url'' p kvs))
         (field (z_optional (z_enum waitUntil_values)) ''waitUntil'' p kvs))"

definition clickSchema :: "click_command schema" where
  "clickSchema =
     z_object (\<lambda>p kvs.
       and_field
         (and_field
            (and_field
               (and_field (baseCommandSchema_extend ''click'' ClickCommand p kvs)
                  (field (z_string 1) ''selector'' p kvs))
               (field (z_optional (z_enum button_values)) ''button'' p kvs))
            (field (z_optional (z_number [GreaterThan 0])) ''clickCount'' p kvs))
         (field (z_optional (z_number [AtLeast 0])) ''delay'' p kvs))"

definition typeSchema :: "type_command schema" where
  "typeSchema =
     z_object (\<lambda>p kvs.
       and_field
         (and_field
            (and_field
               (and_field (baseCommandSchema_extend ''type'' TypeCommand p kvs)
                  (field (z_string 1) ''selector'' p kvs))
               (field (z_string 0) ''text'' p kvs))
            (field (z_optional (z_number [AtLeast 0])) ''delay'' p kvs))
         (field (z_optional z_boolean) ''clear'' p kvs))"

definition pressSchema :: "press_command schema" where
  "pressSchema =
     z_object (\<lambda>p kvs.
       and_field
         (and_field (baseCommandSchema_extend ''press'' PressCommand p kvs)
            (field (z_string 1) ''key'' p kvs))
         (field (z_optional (z_string 1)) ''selector'' p kvs))"

definition screenshotSchema :: "screenshot_command schema" where
  "screenshotSchema =
     z_object (\<lambda>p kvs.
       and_field
         (and_field
            (and_field
               (and_field
                  (and_field (baseCommandSchema_extend ''screenshot'' ScreenshotCommand p kvs)
                     (field (z_optional (z_string 0)) ''path'' p kvs))
                  (field (z_optional z_boolean) ''fullPage'' p kvs))
               (field (z_optional (z_string 1)) ''selector'' p kvs))
            (field (z_optional (z_enum format_values)) ''format'' p kvs))
         (field (z_optional (z_number [AtLeast 0, AtMost 100])) ''quality'' p kvs))"

definition snapshotSchema :: "snapshot_command schema" where
  "snapshotSchema = z_object (baseCommandSchema_extend ''snapshot'' SnapshotCommand)"

definition evaluateSchema :: "evaluate_command schema" where
  "evaluateSchema =
     z_object (\<lambda>p kvs.
       and_field
         (and_field (baseCommandSchema_extend ''evaluate'' EvaluateCommand p kvs)
            (field (z_string 1) ''script'' p kvs))
         (field (z_optional z_array_unknown) ''args'' p kvs))"

definition waitSchema :: "wait_command schema" where
  "waitSchema =
     z_object (\<lambda>p kvs.
       and_field
         (and_field
            (and_field (baseCommandSchema_extend ''wait'' WaitCommand p kvs)
               (field (z_optional (z_string 1)) ''selector'' p kvs))
            (field (z_optional (z_number [GreaterThan 0])) ''timeout'' p kvs))
         (field (z_optional (z_enum state_values)) ''state'' p kvs))"

definition scrollSchema :: "scroll_command schema" where
  "scrollSchema =
     z_object (\<lambda>p kvs.
       and_field
         (and_field
            (and_field
               (and_field
                  (and_field (baseCommandSchema_extend ''scroll'' ScrollCommand p kvs)
                     (field (z_optional (z_string 1)) ''selector'' p kvs))
                  (field (z_optional (z_number [])) ''x'' p kvs))
               (field (z_optional (z_number [])) ''y'' p kvs))
            (field (z_optional (z_enum direction_values)) ''direction'' p kvs))
         (field (z_optional (z_number [GreaterThan 0])) ''amount'' p kvs))"

definition selectSchema :: "select_command schema" where
  "selectSchema =
     z_object (\<lambda>p kvs.
       and_field
         (and_field (baseCommandSchema_extend ''select'' SelectCommand p kvs)
            (field (z_string 1) ''selector'' p kvs))
         (field (z_union (z_string 0) (z_array (z_string 0))) ''values'' p kvs))"

definition hoverSchema :: "hover_command schema" where
  "hoverSchema =
     z_object (\<lambda>p kvs.
       and_field (baseCommandSchema_extend ''hover'' HoverCommand p kvs)
         (field (z_string 1) ''selector'' p kvs))"

definition contentSchema :: "content_command schema" where
  "contentSchema =
     z_object (\<lambda>p kvs.
       and_field (baseCommandSchema_extend ''content'' ContentCommand p kvs)
         (field (z_optional (z_string 1)) ''selector'' p kvs))"

definition closeSchema :: "close_command schema" where
  "closeSchema = z_object (baseCommandSchema_extend ''close'' CloseCommand)"

definition tabNewSchema :: "tab_new_command schema" where
  "tabNewSchema = z_object (baseCommandSchema_extend ''tab_new'' TabNewCommand)"

definition tabListSchema :: "tab_list_command schema" where
  "tabListSchema = z_object (baseCommandSchema_extend ''tab_list'' TabListCommand)"

definition tabSwitchSchema :: "tab_switch_command schema" where
  "tabSwitchSchema =
     z_object (\<lambda>p kvs.
       and_field (baseCommandSchema_extend ''tab_switch'' TabSwitchCommand p kvs)
         (field (z_number [AtLeast 0]) ''index'' p kvs))"

definition tabCloseSchema :: "tab_close_command schema" where
  "tabCloseSchema =
     z_object (\<lambda>p kvs.
       and_field (baseCommandSchema_extend ''tab_close'' TabCloseCommand p kvs)
         (field (z_optional (z_number [AtLeast 0])) ''index'' p kvs))"

definition windowNewSchema :: "window_new_command schema" where
  "windowNewSchema =
     z_object (\<lambda>p kvs.
       and_field (baseCommandSchema_extend ''window_new'' WindowNewCommand p kvs)
         (field (z_optional viewportSchema) ''viewport'' p kvs))"

text \<open>A member schema of the union, its data seen as a \<open>command\<close>.\<close>

definition as_command :: "('a \<Rightarrow> command) \<Rightarrow> 'a schema \<Rightarrow> command schema" where
  "as_command tag s p v = (case s p v of Inl e \<Rightarrow> Inl e | Inr x \<Rightarrow> Inr (tag x))"

definition command_options :: "(string \<times> command schema) list" where
  "command_options =
     [(''launch'', as_command Launch launchSchema),
      (''navigate'', as_command Navigate navigateSchema),
      (''click'', as_command Click clickSchema),
      (''type'', as_command Type typeSchema),
      (''press'', as_command Press pressSchema),
      (''screenshot'', as_command Screenshot screenshotSchema),
      (''snapshot'', as_command Snapshot snapshotSchema),
      (''evaluate'', as_command Evaluate evaluateSchema),
      (''wait'', as_command Wait waitSchema),
      (''scroll'', as_command Scroll scrollSchema),
      (''select'', as_command Select selectSchema),
      (''hover'', as_command Hover hoverSchema),
      (''content'', as_command Content contentSchema),
      (''close'', as_command Close closeSchema),
      (''tab_new'', as_command TabNew tabNewSchema),
      (''tab_list'', as_command TabList tabListSchema),
      (''tab_switch'', as_command TabSwitch tabSwitchSchema),
      (''tab_close'', as_command TabClose tabCloseSchema),
      (''window_new'', as_command WindowNew windowNewSchema)]"

text \<open>
  \<open>z.discriminatedUnion('action', [...])\<close>: the value must be an object; the member
  schema is chosen by the value of \<open>action\<close>; a value of \<open>action\<close> that is no
  member's literal is one issue at the path \<open>action\<close>.
\<close>

definition discriminator :: "(string \<times> json) list \<Rightarrow> string option" where
  "discriminator kvs = (case map_of kvs ''action'' of Some (JStr a) \<Rightarrow> Some a | _ \<Rightarrow> None)"

definition commandSchema :: "command schema" where
  "commandSchema p v =
     (case v of
        Some (JObj kvs) \<Rightarrow>
          (case Option.bind (discriminator kvs) (map_of command_options) of
             Some s \<Rightarrow> s p v
           | None \<Rightarrow>
               Inl [Issue (p @ [''action'']) (invalid_union_discriminator (map fst command_options))])
      | _ \<Rightarrow> Inl [Issue p (invalid_type ''object'' (getParsedType v))])"

section \<open>parseCommand (protocol.ts)\<close>

datatype parse_result =
    ParseSuccess command
  | ParseFailure string "string option"

text \<open>
  The id kept for an error response: \<open>String(json.id)\<close> when \<open>json\<close> is an object
  that has a member \<open>id\<close> (an array has none), \<open>undefined\<close> otherwise. The
  conversion is not guarded: when it throws, so does \<open>parseCommand\<close>.
\<close>

definition extract_id :: "runtime \<Rightarrow> json \<Rightarrow> js_exception + string option" where
  "extract_id rt j =
     (case j of
        JObj kvs \<Rightarrow>
          (case map_of kvs ''id'' of
             Some v \<Rightarrow> map_sum id Some (js_String (Number_toString rt) v)
           | None \<Rightarrow> Inr None)
      | _ \<Rightarrow> Inr None)"

definition render_issue :: "runtime \<Rightarrow> issue \<Rightarrow> string" where
  "render_issue rt e = join ''.'' (issue_path e) @ '': '' @ zod_message rt (issue_code e)"

definition validation_error :: "runtime \<Rightarrow> issue list \<Rightarrow> string" where
  "validation_error rt es = ''Validation error: '' @ join '', '' (map (render_issue rt) es)"

text \<open>
  \<open>parseCommand\<close>: only \<open>JSON.parse\<close> is inside the \<open>try\<close>. The id is extracted
  next, before the schema is consulted, and outside any \<open>try\<close>: \<open>Inl\<close> is the
  exception that then leaves \<open>parseCommand\<close>, \<open>Inr\<close> the result it returns.
\<close>

definition parseCommand :: "runtime \<Rightarrow> string \<Rightarrow> js_exception + parse_result" where
  "parseCommand rt input =
     (case JSON_parse rt input of
        None \<Rightarrow> Inr (ParseFailure ''Invalid JSON'' None)
      | Some j \<Rightarrow>
          (case extract_id rt j of
             Inl e \<Rightarrow> Inl e
           | Inr i \<Rightarrow>
               (case commandSchema [] (Some j) of
                  Inl es \<Rightarrow> Inr (ParseFailure (validation_error rt es) i)
                | Inr c \<Rightarrow> Inr (ParseSuccess c))))"

section \<open>Commands as JSON values\<close>

text \<open>
  The JSON value of the text \<open>JSON.stringify\<close> writes for a command object: the
  members of the interface in their order, an optional member present exactly when the
  field is set, a number that is not finite written as \<open>null\<close>, the elements of
  \<open>args\<close> as \<open>JSON.stringify\<close> writes the elements of an array.
\<close>

definition optional_member :: "string \<Rightarrow> ('a \<Rightarrow> json) \<Rightarrow> 'a option \<Rightarrow> (string \<times> json) list" where
  "optional_member k f v = (case v of None \<Rightarrow> [] | Some x \<Rightarrow> [(k, f x)])"

fun browser_literal :: "browser_name \<Rightarrow> string" where
  "browser_literal Chromium = ''chromium''"
| "browser_literal Firefox = ''firefox''"
| "browser_literal Webkit = ''webkit''"

fun waitUntil_literal :: "wait_until \<Rightarrow> string" where
  "waitUntil_literal Load = ''load''"
| "waitUntil_literal DomContentLoaded = ''domcontentloaded''"
| "waitUntil_literal NetworkIdle = ''networkidle''"

fun button_literal :: "mouse_button \<Rightarrow> string" where
  "button_literal ButtonLeft = ''left''"
| "button_literal ButtonRight = ''right''"
| "button_literal ButtonMiddle = ''middle''"

fun format_literal :: "image_format \<Rightarrow> string" where
  "format_literal Png = ''png''"
| "format_literal Jpeg = ''jpeg''"

fun state_literal :: "element_state \<Rightarrow> string" where
  "state_literal Attached = ''attached''"
| "state_literal Detached = ''detached''"
| "state_literal Visible = ''visible''"
| "state_literal Hidden = ''hidden''"

fun direction_literal :: "direction \<Rightarrow> string" where
  "direction_literal Up = ''up''"
| "direction_literal Down = ''down''"
| "direction_literal DirLeft = ''left''"
| "direction_literal DirRight = ''right''"

definition viewport_json :: "js_number viewport_value \<Rightarrow> json" where
  "viewport_json v =
     JObj [(''width'', number_json (width v)), (''height'', number_json (height v))]"

fun values_json :: "string + string list \<Rightarrow> json" where
  "values_json (Inl s) = JStr s"
| "values_json (Inr xs) = JArr (map JStr xs)"

definition envelope :: "string \<Rightarrow> string \<Rightarrow> (string \<times> json) list" where
  "envelope i a = [(''id'', JStr i), (''action'', JStr a)]"

fun toJSON :: "command_object \<Rightarrow> json" where
  "toJSON (Launch (LaunchCommand i h vp b)) =
     JObj (envelope i ''launch'' @ optional_member ''headless'' JBool h
           @ optional_member ''viewport'' viewport_json vp
           @ optional_member ''browser'' (\<lambda>x. JStr (browser_literal x)) b)"
| "toJSON (Navigate (NavigateCommand i u w)) =
     JObj (envelope i ''navigate'' @ [(''url'', JStr u)]
           @ optional_member ''waitUntil'' (\<lambda>x. JStr (waitUntil_literal x)) w)"
| "toJSON (Click (ClickCommand i sel b n d)) =
     JObj (envelope i ''click'' @ [(''selector'', JStr sel)]
           @ optional_member ''button'' (\<lambda>x. JStr (button_literal x)) b
           @ optional_member ''clickCount'' number_json n
           @ optional_member ''delay'' number_json d)"
| "toJSON (Type (TypeCommand i sel t d c)) =
     JObj (envelope i ''type'' @ [(''selector'', JStr sel), (''text'', JStr t)]
           @ optional_member ''delay'' number_json d
           @ optional_member ''clear'' JBool c)"
| "toJSON (Press (PressCommand i k sel)) =
     JObj (envelope i ''press'' @ [(''key'', JStr k)] @ optional_member ''selector'' JStr sel)"
| "toJSON (Screenshot (ScreenshotCommand i pth full sel fmt q)) =
     JObj (envelope i ''screenshot'' @ optional_member ''path'' JStr pth
           @ optional_member ''fullPage'' JBool full
           @ optional_member ''selector'' JStr sel
           @ optional_member ''format'' (\<lambda>x. JStr (format_literal x)) fmt
           @ optional_member ''quality'' number_json q)"
| "toJSON (Snapshot (SnapshotCommand i)) = JObj (envelope i ''snapshot'')"
| "toJSON (Evaluate (EvaluateCommand i scr args)) =
     JObj (envelope i ''evaluate'' @ [(''script'', JStr scr)] @ optional_member ''args'' (\<lambda>xs. JArr (map element_json xs)) args)"
| "toJSON (Wait (WaitCommand i sel t st)) =
     JObj (envelope i ''wait'' @ optional_member ''selector'' JStr sel
           @ optional_member ''timeout'' number_json t
           @ optional_member ''state'' (\<lambda>x. JStr (state_literal x)) st)"
| "toJSON (Scroll (ScrollCommand i sel x y dir amt)) =
     JObj (envelope i ''scroll'' @ optional_member ''selector'' JStr sel
           @ optional_member ''x'' number_json x
           @ optional_member ''y'' number_json y
           @ optional_member ''direction'' (\<lambda>d. JStr (direction_literal d)) dir
           @ optional_member ''amount'' number_json amt)"
| "toJSON (Select (SelectCommand i sel vs)) =
     JObj (envelope i ''select'' @ [(''selector'', JStr sel), (''values'', values_json vs)])"
| "toJSON (Hover (HoverCommand i sel)) = JObj (envelope i ''hover'' @ [(''selector'', JStr sel)])"
| "toJSON (Content (ContentCommand i sel)) =
     JObj (envelope i ''content'' @ optional_member ''selector'' JStr sel)"
| "toJSON (Close (CloseCommand i)) = JObj (envelope i ''close'')"
| "toJSON (TabNew (TabNewCommand i)) = JObj (envelope i ''tab_new'')"
| "toJSON (TabList (TabListCommand i)) = JObj (envelope i ''tab_list'')"
| "toJSON (TabSwitch (TabSwitchCommand i n)) =
     JObj (envelope i ''tab_switch'' @ [(''index'', number_json n)])"
| "toJSON (TabClose (TabCloseCommand i n)) =
     JObj (envelope i ''tab_close'' @ optional_member ''index'' number_json n)"
| "toJSON (WindowNew (WindowNewCommand i vp)) =
     JObj (envelope i ''window_new'' @ optional_member ''viewport'' viewport_json vp)"

text \<open>
  A valid command: one whose fields meet the constraints its schema puts on them
  (non-empty strings, signs and ranges of numbers). The closed enumerations and the
  field types are already in the types.
\<close>

definition holds_if_set :: "('a \<Rightarrow> bool) \<Rightarrow> 'a option \<Rightarrow> bool" where
  "holds_if_set P v = (case v of None \<Rightarrow> True | Some x \<Rightarrow> P x)"

definition valid_viewport :: "viewport \<Rightarrow> bool" where
  "valid_viewport v = (width v > 0 \<and> height v > 0)"

fun valid_command :: "command \<Rightarrow> bool" where
  "valid_command (Launch (LaunchCommand i h vp b)) = holds_if_set valid_viewport vp"
| "valid_command (Navigate (NavigateCommand i u w)) = (u \<noteq> [])"
| "valid_command (Click (ClickCommand i sel b n d)) =
     (sel \<noteq> [] \<and> holds_if_set (\<lambda>x. x > 0) n \<and> holds_if_set (\<lambda>x. x \<ge> 0) d)"
| "valid_command (Type (TypeCommand i sel t d c)) = (sel \<noteq> [] \<and> holds_if_set (\<lambda>x. x \<ge> 0) d)"
| "valid_command (Press (PressCommand i k sel)) = (k \<noteq> [] \<and> holds_if_set (\<lambda>s. s \<noteq> []) sel)"
| "valid_command (Screenshot (ScreenshotCommand i pth full sel fmt q)) =
     (holds_if_set (\<lambda>s. s \<noteq> []) sel \<and> holds_if_set (\<lambda>x. 0 \<le> x \<and> x \<le> 100) q)"
| "valid_command (Snapshot (SnapshotCommand i)) = True"
| "valid_command (Evaluate (EvaluateCommand i scr args)) = (scr \<noteq> [])"
| "valid_command (Wait (WaitCommand i sel t st)) =
     (holds_if_set (\<lambda>s. s \<noteq> []) sel \<and> holds_if_set (\<lambda>x. x > 0) t)"
| "valid_command (Scroll (ScrollCommand i sel x y dir amt)) =
     (holds_if_set (\<lambda>s. s \<noteq> []) sel \<and> holds_if_set (\<lambda>x. x > 0) amt)"
| "valid_command (Select (SelectCommand i sel vs)) = (sel \<noteq> [])"
| "valid_command (Hover (HoverCommand i sel)) = (sel \<noteq> [])"
| "valid_command (Content (ContentCommand i sel)) = holds_if_set (\<lambda>s. s \<noteq> []) sel"
| "valid_command (Close (CloseCommand i)) = True"
| "valid_command (TabNew (TabNewCommand i)) = True"
| "valid_command (TabList (TabListCommand i)) = True"
| "valid_command (TabSwitch (TabSwitchCommand i n)) = (n \<ge> 0)"
| "valid_command (TabClose (TabCloseCommand i n)) = holds_if_set (\<lambda>x. x \<ge> 0) n"
| "valid_command (WindowNew (WindowNewCommand i vp)) = holds_if_set valid_viewport vp"

text \<open>
  A valid command object: one that the schema accepts as a JavaScript value. zod's
  \<open>z.number()\<close> accepts every number but \<open>NaN\<close>, the infinities included, and
  compares as JavaScript does; \<open>z.unknown()\<close> accepts every value.
\<close>

fun js_greater :: "js_number \<Rightarrow> real \<Rightarrow> bool" where
  "js_greater (Finite r) b = (r > b)"
| "js_greater PlusInfinity b = True"
| "js_greater MinusInfinity b = False"
| "js_greater NotANumber b = False"

fun js_at_least :: "js_number \<Rightarrow> real \<Rightarrow> bool" where
  "js_at_least (Finite r) b = (r \<ge> b)"
| "js_at_least PlusInfinity b = True"
| "js_at_least MinusInfinity b = False"
| "js_at_least NotANumber b = False"

fun js_at_most :: "js_number \<Rightarrow> real \<Rightarrow> bool" where
  "js_at_most (Finite r) b = (r \<le> b)"
| "js_at_most PlusInfinity b = False"
| "js_at_most MinusInfinity b = True"
| "js_at_most NotANumber b = False"

definition valid_viewport_value :: "js_number viewport_value \<Rightarrow> bool" where
  "valid_viewport_value v = (js_greater (width v) 0 \<and> js_greater (height v) 0)"

fun valid_value :: "command_object \<Rightarrow> bool" where
  "valid_value (Launch (LaunchCommand i h vp b)) = holds_if_set valid_viewport_value vp"
| "valid_value (Navigate (NavigateCommand i u w)) = (u \<noteq> [])"
| "valid_value (Click (ClickCommand i sel b n d)) =
     (sel \<noteq> [] \<and> holds_if_set (\<lambda>x. js_greater x 0) n \<and> holds_if_set (\<lambda>x. js_at_least x 0) d)"
| "valid_value (Type (TypeCommand i sel t d c)) =
     (sel \<noteq> [] \<and> holds_if_set (\<lambda>x. js_at_least x 0) d)"
| "valid_value (Press (PressCommand i k sel)) = (k \<noteq> [] \<and> holds_if_set (\<lambda>s. s \<noteq> []) sel)"
| "valid_value (Screenshot (ScreenshotCommand i pth full sel fmt q)) =
     (holds_if_set (\<lambda>s. s \<noteq> []) sel \<and>
      holds_if_set (\<lambda>x. js_at_least x 0 \<and> js_at_most x 100) q)"
| "valid_value (Snapshot (SnapshotCommand i)) = True"
| "valid_value (Evaluate (EvaluateCommand i scr args)) = (scr \<noteq> [])"
| "valid_value (Wait (WaitCommand i sel t st)) =
     (holds_if_set (\<lambda>s. s \<noteq> []) sel \<and> holds_if_set (\<lambda>x. js_greater x 0) t)"
| "valid_value (Scroll (ScrollCommand i sel x y dir amt)) =
     (holds_if_set (\<lambda>s. s \<noteq> []) sel \<and> holds_if_set (\<lambda>n. n \<noteq> NotANumber) x \<and>
      holds_if_set (\<lambda>n. n \<noteq> NotANumber) y \<and> holds_if_set (\<lambda>x. js_greater x 0) amt)"
| "valid_value (Select (SelectCommand i sel vs)) = (sel \<noteq> [])"
| "valid_value (Hover (HoverCommand i sel)) = (sel \<noteq> [])"
| "valid_value (Content (ContentCommand i sel)) = holds_if_set (\<lambda>s. s \<noteq> []) sel"
| "valid_value (Close (CloseCommand i)) = True"
| "valid_value (TabNew (TabNewCommand i)) = True"
| "valid_value (TabList (TabListCommand i)) = True"
| "valid_value (TabSwitch (TabSwitchCommand i n)) = js_at_least n 0"
| "valid_value (TabClose (TabCloseCommand i n)) = holds_if_set (\<lambda>x. js_at_least x 0) n"
| "valid_value (WindowNew (WindowNewCommand i vp)) = holds_if_set valid_viewport_value vp"

text \<open>The \<open>action\<close> tag of a command.\<close>

fun action_of :: "('n, 'v) command_value \<Rightarrow> string" where
  "action_of (Launch _) = ''launch''"
| "action_of (Navigate _) = ''navigate''"
| "action_of (Click _) = ''click''"
| "action_of (Type _) = ''type''"
| "action_of (Press _) = ''press''"
| "action_of (Screenshot _) = ''screenshot''"
| "action_of (Snapshot _) = ''snapshot''"
| "action_of (Evaluate _) = ''evaluate''"
| "action_of (Wait _) = ''wait''"
| "action_of (Scroll _) = ''scroll''"
| "action_of (Select _) = ''select''"
| "action_of (Hover _) = ''hover''"
| "action_of (Content _) = ''content''"
| "action_of (Close _) = ''close''"
| "action_of (TabNew _) = ''tab_new''"
| "action_of (TabList _) = ''tab_list''"
| "action_of (TabSwitch _) = ''tab_switch''"
| "action_of (TabClose _) = ''tab_close''"
| "action_of (WindowNew _) = ''window_new''"

section \<open>Responses (types.ts, protocol.ts)\<close>

record tab_info =
  tab_index :: nat
  tab_url :: string
  tab_title :: string
  tab_active :: bool

text \<open>The payloads of the success responses, one constructor per shape the handlers build.\<close>

datatype response_data =
    LaunchedData
  | NavigateData string string
  | ClickedData
  | TypedData
  | PressedData
  | ScreenshotPath string
  | ScreenshotBase64 string
  | SnapshotData string
  | EvaluateData json
  | WaitedData
  | ScrolledData
  | SelectedData "string list"
  | HoveredData
  | ContentData string
  | ClosedData
  | TabNewData nat nat
  | TabListData "tab_info list" nat
  | TabSwitchData nat string string
  | TabCloseData nat nat

datatype response =
    SuccessResponse string response_data
  | ErrorResponse string string

definition successResponse :: "string \<Rightarrow> response_data \<Rightarrow> response" where
  "successResponse i d = SuccessResponse i d"

definition errorResponse :: "string \<Rightarrow> string \<Rightarrow> response" where
  "errorResponse i e = ErrorResponse i e"

fun response_id :: "response \<Rightarrow> string" where
  "response_id (SuccessResponse i d) = i"
| "response_id (ErrorResponse i e) = i"

fun response_success :: "response \<Rightarrow> bool" where
  "response_success (SuccessResponse i d) = True"
| "response_success (ErrorResponse i e) = False"

section \<open>The automation capability\<close>

text \<open>
  What a capability operation throws: an \<open>Error\<close> object with its message, or any
  other value, given by what \<open>String(...)\<close> does on it: the string it returns, or the
  exception it throws (a \<open>TypeError\<close> on an object without a prototype, whatever the
  \<open>toString\<close> method of the value throws otherwise).
\<close>

datatype fault = ErrorObject string | Thrown "js_exception + string"

text \<open>
  The message of the catch clause of \<open>executeCommand\<close>:
  \<open>error instanceof Error ? error.message : String(error)\<close>. The conversion is
  inside the clause, where nothing catches what it throws.
\<close>

fun fault_message :: "fault \<Rightarrow> js_exception + string" where
  "fault_message (ErrorObject m) = Inr m"
| "fault_message (Thrown v) = v"

text \<open>
  An operation runs on the state \<open>'s\<close> of the engine: it returns a value or throws,
  and leaves a new state either way. \<open>and_then\<close> is sequencing (\<open>await\<close>): a
  throw skips the rest.
\<close>

type_synonym ('s, 'a) io = "'s \<Rightarrow> (fault + 'a) \<times> 's"

definition returns :: "'a \<Rightarrow> ('s, 'a) io" where
  "returns x s = (Inr x, s)"

definition and_then :: "('s, 'a) io \<Rightarrow> ('a \<Rightarrow> ('s, 'b) io) \<Rightarrow> ('s, 'b) io" where
  "and_then m f s = (case m s of (Inl e, s') \<Rightarrow> (Inl e, s') | (Inr x, s') \<Rightarrow> f x s')"

type_synonym buffer = "nat list"

record screenshot_options =
  opt_fullPage :: "bool option"
  opt_type :: image_format
  opt_quality :: "real option"
  opt_path :: "string option"

text \<open>
  The operations of a Playwright page that the handlers call; \<open>'p\<close> is the page
  object \<open>getPage\<close> returns. An operation on \<open>page.locator(sel)\<close> takes the page and
  the selector. \<open>locator_scrollBy\<close> is \<open>locator.evaluate\<close> of the closure that calls
  \<open>el.scrollBy\<close> with the two amounts.
\<close>

record ('s, 'p) page_api =
  page_goto :: "'p \<Rightarrow> string \<Rightarrow> wait_until \<Rightarrow> ('s, unit) io"
  page_url :: "'p \<Rightarrow> ('s, string) io"
  page_title :: "'p \<Rightarrow> ('s, string) io"
  page_click :: "'p \<Rightarrow> string \<Rightarrow> mouse_button option \<Rightarrow> real option \<Rightarrow> real option \<Rightarrow> ('s, unit) io"
  page_fill :: "'p \<Rightarrow> string \<Rightarrow> string \<Rightarrow> ('s, unit) io"
  page_type :: "'p \<Rightarrow> string \<Rightarrow> string \<Rightarrow> real option \<Rightarrow> ('s, unit) io"
  page_press :: "'p \<Rightarrow> string \<Rightarrow> string \<Rightarrow> ('s, unit) io"
  keyboard_press :: "'p \<Rightarrow> string \<Rightarrow> ('s, unit) io"
  page_screenshot :: "'p \<Rightarrow> screenshot_options \<Rightarrow> ('s, buffer) io"
  locator_screenshot :: "'p \<Rightarrow> string \<Rightarrow> screenshot_options \<Rightarrow> ('s, buffer) io"
  locator_ariaSnapshot :: "'p \<Rightarrow> string \<Rightarrow> ('s, string option) io"
  page_evaluate :: "'p \<Rightarrow> string \<Rightarrow> ('s, json) io"
  page_waitForSelector :: "'p \<Rightarrow> string \<Rightarrow> element_state \<Rightarrow> real option \<Rightarrow> ('s, unit) io"
  page_waitForTimeout :: "'p \<Rightarrow> real \<Rightarrow> ('s, unit) io"
  page_waitForLoadState :: "'p \<Rightarrow> wait_until \<Rightarrow> ('s, unit) io"
  locator_scrollIntoViewIfNeeded :: "'p \<Rightarrow> string \<Rightarrow> ('s, unit) io"
  locator_scrollBy :: "'p \<Rightarrow> string \<Rightarrow> real \<Rightarrow> real \<Rightarrow> ('s, unit) io"
  page_selectOption :: "'p \<Rightarrow> string \<Rightarrow> string list \<Rightarrow> ('s, unit) io"
  page_hover :: "'p \<Rightarrow> string \<Rightarrow> ('s, unit) io"
  locator_innerHTML :: "'p \<Rightarrow> string \<Rightarrow> ('s, string) io"
  page_content :: "'p \<Rightarrow> ('s, string) io"

text \<open>
  The methods of \<open>BrowserManager\<close> (browser.ts) that the handlers call. The handlers
  are modelled over any value of this record: they hold for every implementation of
  the class.
\<close>

record ('s, 'p) browser_manager =
  launch :: "launch_command \<Rightarrow> ('s, unit) io"
  getPage :: "('s, 'p) io"
  close :: "('s, unit) io"
  newTab :: "('s, nat \<times> nat) io"
  listTabs :: "('s, tab_info list) io"
  getActiveIndex :: "('s, nat) io"
  switchTo :: "real \<Rightarrow> ('s, nat \<times> string) io"
  closeTab :: "real option \<Rightarrow> ('s, nat \<times> nat) io"
  newWindow :: "viewport option \<Rightarrow> ('s, nat \<times> nat) io"

text \<open>
  The platform of the dispatcher: the page operations, the rendering of a number
  inside a template literal and \<open>buffer.toString('base64')\<close>.
\<close>

record ('s, 'p) platform =
  page :: "('s, 'p) page_api"
  number_text :: "real \<Rightarrow> string"
  base64 :: "buffer \<Rightarrow> string"

section \<open>The handlers and executeCommand\<close>

text \<open>JavaScript truthiness of an optional string, number and boolean.\<close>

fun truthy_string :: "string option \<Rightarrow> bool" where
  "truthy_string None = False"
| "truthy_string (Some s) = (s \<noteq> [])"

fun truthy_number :: "real option \<Rightarrow> bool" where
  "truthy_number None = False"
| "truthy_number (Some n) = (n \<noteq> 0)"

fun truthy_bool :: "bool option \<Rightarrow> bool" where
  "truthy_bool None = False"
| "truthy_bool (Some b) = b"

text \<open>\<open>a ?? b\<close>\<close>

fun or_else :: "'a option \<Rightarrow> 'a \<Rightarrow> 'a" where
  "or_else None d = d"
| "or_else (Some x) d = x"

fun handleLaunch :: "launch_command \<Rightarrow> ('s, 'p) browser_manager \<Rightarrow> ('s, response) io" where
  "handleLaunch (LaunchCommand i h vp b) browser =
     and_then (launch browser (LaunchCommand i h vp b)) (\<lambda>_.
     returns (successResponse i LaunchedData))"

fun handleNavigate ::
  "('s, 'p) platform \<Rightarrow> navigate_command \<Rightarrow> ('s, 'p) browser_manager \<Rightarrow> ('s, response) io" where
  "handleNavigate pf (NavigateCommand i u w) browser =
     and_then (getPage browser) (\<lambda>pg.
     and_then (page_goto (page pf) pg u (or_else w Load)) (\<lambda>_.
     and_then (page_url (page pf) pg) (\<lambda>current.
     and_then (page_title (page pf) pg) (\<lambda>title.
     returns (successResponse i (NavigateData current title))))))"

fun handleClick ::
  "('s, 'p) platform \<Rightarrow> click_command \<Rightarrow> ('s, 'p) browser_manager \<Rightarrow> ('s, response) io" where
  "handleClick pf (ClickCommand i sel b n d) browser =
     and_then (getPage browser) (\<lambda>pg.
     and_then (page_click (page pf) pg sel b n d) (\<lambda>_.
     returns (successResponse i ClickedData)))"

fun handleType ::
  "('s, 'p) platform \<Rightarrow> type_command \<Rightarrow> ('s, 'p) browser_manager \<Rightarrow> ('s, response) io" where
  "handleType pf (TypeCommand i sel t d c) browser =
     and_then (getPage browser) (\<lambda>pg.
     and_then (if truthy_bool c then page_fill (page pf) pg sel [] else returns ()) (\<lambda>_.
     and_then (page_type (page pf) pg sel t d) (\<lambda>_.
     returns (successResponse i TypedData))))"

fun handlePress ::
  "('s, 'p) platform \<Rightarrow> press_command \<Rightarrow> ('s, 'p) browser_manager \<Rightarrow> ('s, response) io" where
  "handlePress pf (PressCommand i k sel) browser =
     and_then (getPage browser) (\<lambda>pg.
     and_then
       (if truthy_string sel then page_press (page pf) pg (or_else sel []) k
        else keyboard_press (page pf) pg k) (\<lambda>_.
     returns (successResponse i PressedData)))"

text \<open>\<open>target.screenshot(options)\<close>, the target being the page or a locator on it.\<close>

datatype 'p screenshot_target = PageTarget 'p | LocatorTarget 'p string

fun target_screenshot ::
  "('s, 'p) page_api \<Rightarrow> 'p screenshot_target \<Rightarrow> screenshot_options \<Rightarrow> ('s, buffer) io" where
  "target_screenshot api (PageTarget pg) opts = page_screenshot api pg opts"
| "target_screenshot api (LocatorTarget pg sel) opts = locator_screenshot api pg sel opts"

fun handleScreenshot ::
  "('s, 'p) platform \<Rightarrow> screenshot_command \<Rightarrow> ('s, 'p) browser_manager \<Rightarrow> ('s, response) io" where
  "handleScreenshot pf (ScreenshotCommand i pth full sel fmt q) browser =
     and_then (getPage browser) (\<lambda>pg.
       let options =
             \<lparr>opt_fullPage = full, opt_type = or_else fmt Png,
              opt_quality = (if fmt = Some Jpeg \<and> q \<noteq> None then q else None),
              opt_path = None\<rparr>;
           target = (if truthy_string sel then LocatorTarget pg (or_else sel []) else PageTarget pg)
       in if truthy_string pth
          then and_then (target_screenshot (page pf) target (options\<lparr>opt_path := pth\<rparr>)) (\<lambda>_.
               returns (successResponse i (ScreenshotPath (or_else pth []))))
          else and_then (target_screenshot (page pf) target options) (\<lambda>buffer.
               returns (successResponse i (ScreenshotBase64 (base64 pf buffer)))))"

fun handleSnapshot ::
  "('s, 'p) platform \<Rightarrow> snapshot_command \<Rightarrow> ('s, 'p) browser_manager \<Rightarrow> ('s, response) io" where
  "handleSnapshot pf (SnapshotCommand i) browser =
     and_then (getPage browser) (\<lambda>pg.
     and_then (locator_ariaSnapshot (page pf) pg '':root'') (\<lambda>snapshot.
     returns (successResponse i (SnapshotData (or_else snapshot ''Empty page'')))))"

fun handleEvaluate ::
  "('s, 'p) platform \<Rightarrow> evaluate_command \<Rightarrow> ('s, 'p) browser_manager \<Rightarrow> ('s, response) io" where
  "handleEvaluate pf (EvaluateCommand i scr args) browser =
     and_then (getPage browser) (\<lambda>pg.
     and_then (page_evaluate (page pf) pg scr) (\<lambda>result.
     returns (successResponse i (EvaluateData result))))"

fun handleWait ::
  "('s, 'p) platform \<Rightarrow> wait_command \<Rightarrow> ('s, 'p) browser_manager \<Rightarrow> ('s, response) io" where
  "handleWait pf (WaitCommand i sel t st) browser =
     and_then (getPage browser) (\<lambda>pg.
     and_then
       (if truthy_string sel
        then page_waitForSelector (page pf) pg (or_else sel []) (or_else st Visible) t
        else if truthy_number t then page_waitForTimeout (page pf) pg (or_else t 0)
        else page_waitForLoadState (page pf) pg Load) (\<lambda>_.
     returns (successResponse i WaitedData)))"

text \<open>The deltas of a whole-page scroll: \<open>x ?? 0\<close> and \<open>y ?? 0\<close>, one of them
  replaced by the signed amount when a direction is given.\<close>

fun scroll_deltas ::
  "real option \<Rightarrow> real option \<Rightarrow> direction option \<Rightarrow> real option \<Rightarrow> real \<times> real" where
  "scroll_deltas x y None amt = (or_else x 0, or_else y 0)"
| "scroll_deltas x y (Some Up) amt = (or_else x 0, - or_else amt 100)"
| "scroll_deltas x y (Some Down) amt = (or_else x 0, or_else amt 100)"
| "scroll_deltas x y (Some DirLeft) amt = (- or_else amt 100, or_else y 0)"
| "scroll_deltas x y (Some DirRight) amt = (or_else amt 100, or_else y 0)"

definition scrollBy_script :: "(real \<Rightarrow> string) \<Rightarrow> real \<times> real \<Rightarrow> string" where
  "scrollBy_script nts d = ''window.scrollBy('' @ nts (fst d) @ '', '' @ nts (snd d) @ '')''"

fun handleScroll ::
  "('s, 'p) platform \<Rightarrow> scroll_command \<Rightarrow> ('s, 'p) browser_manager \<Rightarrow> ('s, response) io" where
  "handleScroll pf (ScrollCommand i sel x y dir amt) browser =
     and_then (getPage browser) (\<lambda>pg.
     and_then
       (if truthy_string sel
        then and_then (locator_scrollIntoViewIfNeeded (page pf) pg (or_else sel [])) (\<lambda>_.
             if x \<noteq> None \<or> y \<noteq> None
             then locator_scrollBy (page pf) pg (or_else sel []) (or_else x 0) (or_else y 0)
             else returns ())
        else and_then
               (page_evaluate (page pf) pg
                  (scrollBy_script (number_text pf) (scroll_deltas x y dir amt)))
               (\<lambda>_. returns ())) (\<lambda>_.
     returns (successResponse i ScrolledData)))"

text \<open>\<open>Array.isArray(values) ? values : [values]\<close>\<close>

fun values_array :: "string + string list \<Rightarrow> string list" where
  "values_array (Inl v) = [v]"
| "values_array (Inr vs) = vs"

fun handleSelect ::
  "('s, 'p) platform \<Rightarrow> select_command \<Rightarrow> ('s, 'p) browser_manager \<Rightarrow> ('s, response) io" where
  "handleSelect pf (SelectCommand i sel vs) browser =
     and_then (getPage browser) (\<lambda>pg.
       let values = values_array vs
       in and_then (page_selectOption (page pf) pg sel values) (\<lambda>_.
          returns (successResponse i (SelectedData values))))"

fun handleHover ::
  "('s, 'p) platform \<Rightarrow> hover_command \<Rightarrow> ('s, 'p) browser_manager \<Rightarrow> ('s, response) io" where
  "handleHover pf (HoverCommand i sel) browser =
     and_then (getPage browser) (\<lambda>pg.
     and_then (page_hover (page pf) pg sel) (\<lambda>_.
     returns (successResponse i HoveredData)))"

fun handleContent ::
  "('s, 'p) platform \<Rightarrow> content_command \<Rightarrow> ('s, 'p) browser_manager \<Rightarrow> ('s, response) io" where
  "handleContent pf (ContentCommand i sel) browser =
     and_then (getPage browser) (\<lambda>pg.
     and_then
       (if truthy_string sel then locator_innerHTML (page pf) pg (or_else sel [])
        else page_content (page pf) pg) (\<lambda>html.
     returns (successResponse i (ContentData html))))"

fun handleClose :: "close_command \<Rightarrow> ('s, 'p) browser_manager \<Rightarrow> ('s, response) io" where
  "handleClose (CloseCommand i) browser =
     and_then (close browser) (\<lambda>_.
     returns (successResponse i ClosedData))"

fun handleTabNew :: "tab_new_command \<Rightarrow> ('s, 'p) browser_manager \<Rightarrow> ('s, response) io" where
  "handleTabNew (TabNewCommand i) browser =
     and_then (newTab browser) (\<lambda>result.
     returns (successResponse i (TabNewData (fst result) (snd result))))"

fun handleTabList :: "tab_list_command \<Rightarrow> ('s, 'p) browser_manager \<Rightarrow> ('s, response) io" where
  "handleTabList (TabListCommand i) browser =
     and_then (listTabs browser) (\<lambda>tabs.
     and_then (getActiveIndex browser) (\<lambda>active.
     returns (successResponse i (TabListData tabs active))))"

fun handleTabSwitch ::
  "('s, 'p) platform \<Rightarrow> tab_switch_command \<Rightarrow> ('s, 'p) browser_manager \<Rightarrow> ('s, response) io" where
  "handleTabSwitch pf (TabSwitchCommand i n) browser =
     and_then (switchTo browser n) (\<lambda>result.
     and_then (getPage browser) (\<lambda>pg.
     and_then (page_title (page pf) pg) (\<lambda>title.
     returns (successResponse i (TabSwitchData (fst result) (snd result) title)))))"

fun handleTabClose :: "tab_close_command \<Rightarrow> ('s, 'p) browser_manager \<Rightarrow> ('s, response) io" where
  "handleTabClose (TabCloseCommand i n) browser =
     and_then (closeTab browser n) (\<lambda>result.
     returns (successResponse i (TabCloseData (fst result) (snd result))))"

fun handleWindowNew ::
  "window_new_command \<Rightarrow> ('s, 'p) browser_manager \<Rightarrow> ('s, response) io" where
  "handleWindowNew (WindowNewCommand i vp) browser =
     and_then (newWindow browser vp) (\<lambda>result.
     returns (successResponse i (TabNewData (fst result) (snd result))))"

text \<open>The \<open>switch\<close> of \<open>executeCommand\<close>: the handler of the command's action.\<close>

fun dispatch ::
  "('s, 'p) platform \<Rightarrow> command \<Rightarrow> ('s, 'p) browser_manager \<Rightarrow> ('s, response) io" where
  "dispatch pf (Launch c) browser = handleLaunch c browser"
| "dispatch pf (Navigate c) browser = handleNavigate pf c browser"
| "dispatch pf (Click c) browser = handleClick pf c browser"
| "dispatch pf (Type c) browser = handleType pf c browser"
| "dispatch pf (Press c) browser = handlePress pf c browser"
| "dispatch pf (Screenshot c) browser = handleScreenshot pf c browser"
| "dispatch pf (Snapshot c) browser = handleSnapshot pf c browser"
| "dispatch pf (Evaluate c) browser = handleEvaluate pf c browser"
| "dispatch pf (Wait c) browser = handleWait pf c browser"
| "dispatch pf (Scroll c) browser = handleScroll pf c browser"
| "dispatch pf (Select c) browser = handleSelect pf c browser"
| "dispatch pf (Hover c) browser = handleHover pf c browser"
| "dispatch pf (Content c) browser = handleContent pf c browser"
| "dispatch pf (Close c) browser = handleClose c browser"
| "dispatch pf (TabNew c) browser = handleTabNew c browser"
| "dispatch pf (TabList c) browser = handleTabList c browser"
| "dispatch pf (TabSwitch c) browser = handleTabSwitch pf c browser"
| "dispatch pf (TabClose c) browser = handleTabClose c browser"
| "dispatch pf (WindowNew c) browser = handleWindowNew c browser"

text \<open>
  \<open>executeCommand\<close>: the switch inside \<open>try\<close>; the \<open>catch\<close> clause computes the
  message and answers with \<open>errorResponse(command.id, message)\<close>. \<open>Inr\<close> is the
  response the promise resolves to, \<open>Inl\<close> the exception it rejects with, when the
  catch clause itself throws. The \<open>default\<close> branch of the switch cannot be reached
  by a value of the type \<open>Command\<close>.
\<close>

definition executeCommand ::
  "('s, 'p) platform \<Rightarrow> command \<Rightarrow> ('s, 'p) browser_manager \<Rightarrow> 's \<Rightarrow>
   (js_exception + response) \<times> 's" where
  "executeCommand pf command browser s =
     (case dispatch pf command browser s of
        (Inr r, s') \<Rightarrow> (Inr r, s')
      | (Inl error, s') \<Rightarrow>
          (case fault_message error of
             Inl e \<Rightarrow> (Inl e, s')
           | Inr message \<Rightarrow> (Inr (errorResponse (command_id command) message), s')))"

section \<open>The command line: case 'open' of main (the CLI entry point)\<close>

definition startsWith :: "string \<Rightarrow> string \<Rightarrow> bool" where
  "startsWith s pre = (take (length pre) s = pre)"

text \<open>\<open>cleanArgs[k]\<close>: \<open>undefined\<close> beyond the end of the array.\<close>

definition arg_at :: "string list \<Rightarrow> nat \<Rightarrow> string option" where
  "arg_at args k = (if k < length args then Some (args ! k) else None)"

text \<open>
  The branch \<open>case 'open': case 'goto': case 'navigate':\<close> of \<open>main\<close>, given the
  generated id and \<open>cleanArgs\<close>: the error it prints before \<open>process.exit(1)\<close>, or the
  command object it hands to \<open>send\<close>.
\<close>

definition main_open :: "string \<Rightarrow> string list \<Rightarrow> string + json" where
  "main_open i cleanArgs =
     (let u = arg_at cleanArgs 1 in
      if \<not> truthy_string u then Inl ''URL required''
      else
        let fullUrl = (if startsWith (or_else u []) ''http'' then or_else u []
                       else ''https://'' @ or_else u [])
        in Inr (JObj [(''id'', JStr i), (''action'', JStr ''navigate''), (''url'', JStr fullUrl)]))"

text \<open>
  The words of the specification, "a URL lacking a scheme": a URL has a scheme when
  it begins with a non-empty run of characters other than the colon, followed by
  \<open>://\<close>.
\<close>

definition scheme_of :: "string \<Rightarrow> string option" where
  "scheme_of u =
     (let s = takeWhile (\<lambda>c. c \<noteq> CHR '':'') u
      in if s \<noteq> [] \<and> take 3 (drop (length s) u) = ''://'' then Some s else None)"

section \<open>The members of the schemas, and where an object offends\<close>

text \<open>
  What a schema of protocol.ts asks of a member: a string of a least length
  (\<open>z.string()\<close>, \<open>.min(1)\<close>), a number within bounds (\<open>.positive()\<close>,
  \<open>.nonnegative()\<close>, \<open>.min(0).max(100)\<close>), a boolean, one of the strings of an enum,
  an array of anything (\<open>z.array(z.unknown())\<close>), a string or an array of strings
  (\<open>z.union([z.string(), z.array(z.string())])\<close>), an object (the viewport, whose own
  members stand in the table at their paths).
\<close>

datatype kind =
    K_string nat
  | K_number "number_check list"
  | K_boolean
  | K_enum "string list"
  | K_unknowns
  | K_values
  | K_object

fun in_bound :: "real \<Rightarrow> number_check \<Rightarrow> bool" where
  "in_bound n (GreaterThan b) = (b < n)"
| "in_bound n (AtLeast b) = (b \<le> n)"
| "in_bound n (AtMost b) = (n \<le> b)"

fun is_string :: "json \<Rightarrow> bool" where
  "is_string (JStr s) = True"
| "is_string j = False"

fun conforms :: "kind \<Rightarrow> json \<Rightarrow> bool" where
  "conforms (K_string k) (JStr s) = (k \<le> length s)"
| "conforms (K_number cs) (JNum n) = list_all (in_bound n) cs"
| "conforms K_boolean (JBool b) = True"
| "conforms (K_enum vs) (JStr s) = (s \<in> set vs)"
| "conforms K_unknowns (JArr xs) = True"
| "conforms K_values (JStr s) = True"
| "conforms K_values (JArr xs) = list_all is_string xs"
| "conforms K_object (JObj kvs) = True"
| "conforms k j = False"

text \<open>
  The members each schema declares besides the \<open>action\<close> tag that selects it: the
  path of the member, what is asked of it, and whether it is required (declared
  without \<open>.optional()\<close>). The members of a viewport are required within the viewport.
\<close>

type_synonym member = "string list \<times> kind \<times> bool"

definition viewport_members :: "member list" where
  "viewport_members =
     [([''viewport''], K_object, False),
      ([''viewport'', ''width''], K_number [GreaterThan 0], True),
      ([''viewport'', ''height''], K_number [GreaterThan 0], True)]"

definition member_table :: "(string \<times> member list) list" where
  "member_table =
     [(''launch'',
        [([''id''], K_string 0, True), ([''headless''], K_boolean, False)] @ viewport_members @
        [([''browser''], K_enum (map fst browser_values), False)]),
      (''navigate'',
        [([''id''], K_string 0, True), ([''url''], K_string 1, True),
         ([''waitUntil''], K_enum (map fst waitUntil_values), False)]),
      (''click'',
        [([''id''], K_string 0, True), ([''selector''], K_string 1, True),
         ([''button''], K_enum (map fst button_values), False),
         ([''clickCount''], K_number [GreaterThan 0], False),
         ([''delay''], K_number [AtLeast 0], False)]),
      (''type'',
        [([''id''], K_string 0, True), ([''selector''], K_string 1, True),
         ([''text''], K_string 0, True), ([''delay''], K_number [AtLeast 0], False),
         ([''clear''], K_boolean, False)]),
      (''press'',
        [([''id''], K_string 0, True), ([''key''], K_string 1, True),
         ([''selector''], K_string 1, False)]),
      (''screenshot'',
        [([''id''], K_string 0, True), ([''path''], K_string 0, False),
         ([''fullPage''], K_boolean, False), ([''selector''], K_string 1, False),
         ([''format''], K_enum (map fst format_values), False),
         ([''quality''], K_number [AtLeast 0, AtMost 100], False)]),
      (''snapshot'', [([''id''], K_string 0, True)]),
      (''evaluate'',
        [([''id''], K_string 0, True), ([''script''], K_string 1, True),
         ([''args''], K_unknowns, False)]),
      (''wait'',
        [([''id''], K_string 0, True), ([''selector''], K_string 1, False),
         ([''timeout''], K_number [GreaterThan 0], False),
         ([''state''], K_enum (map fst state_values), False)]),
      (''scroll'',
        [([''id''], K_string 0, True), ([''selector''], K_string 1, False),
         ([''x''], K_number [], False), ([''y''], K_number [], False),
         ([''direction''], K_enum (map fst direction_values), False),
         ([''amount''], K_number [GreaterThan 0], False)]),
      (''select'',
        [([''id''], K_string 0, True), ([''selector''], K_string 1, True),
         ([''values''], K_values, True)]),
      (''hover'', [([''id''], K_string 0, True), ([''selector''], K_string 1, True)]),
      (''content'', [([''id''], K_string 0, True), ([''selector''], K_string 1, False)]),
      (''close'', [([''id''], K_string 0, True)]),
      (''tab_new'', [([''id''], K_string 0, True)]),
      (''tab_list'', [([''id''], K_string 0, True)]),
      (''tab_switch'', [([''id''], K_string 0, True), ([''index''], K_number [AtLeast 0], True)]),
      (''tab_close'', [([''id''], K_string 0, True), ([''index''], K_number [AtLeast 0], False)]),
      (''window_new'', [([''id''], K_string 0, True)] @ viewport_members)]"

definition members_of :: "string \<Rightarrow> member list" where
  "members_of tag = (case map_of member_table tag of Some ms \<Rightarrow> ms | None \<Rightarrow> [])"

text \<open>The value found in a JSON value by following a path of member names.\<close>

fun json_at :: "string list \<Rightarrow> json \<Rightarrow> json option" where
  "json_at [] j = Some j"
| "json_at (k # ks) (JObj kvs) = (case map_of kvs k of Some v \<Rightarrow> json_at ks v | None \<Rightarrow> None)"
| "json_at (k # ks) j = None"

text \<open>
  An object offends at a member when the object that should hold the member is there
  and either omits the member although it is required, or gives it a value that is not
  what is asked of it. An object with the action \<open>tag\<close> offends at \<open>path\<close> when
  \<open>path\<close> is the path of a member of the schema of \<open>tag\<close> and the object offends at
  that member.
\<close>

definition offends_at :: "(string \<times> json) list \<Rightarrow> member \<Rightarrow> bool" where
  "offends_at kvs m =
     (case json_at (butlast (fst m)) (JObj kvs) of
        Some (JObj holder) \<Rightarrow>
          (case map_of holder (last (fst m)) of
             None \<Rightarrow> snd (snd m)
           | Some v \<Rightarrow> \<not> conforms (fst (snd m)) v)
      | _ \<Rightarrow> False)"

definition offends :: "string \<Rightarrow> (string \<times> json) list \<Rightarrow> string list \<Rightarrow> bool" where
  "offends tag kvs path = list_ex (\<lambda>m. fst m = path \<and> offends_at kvs m) (members_of tag)"

section \<open>The page set of a daemon, and closing a page\<close>

record page_set =
  pages :: "(string \<times> string) list"
  activeIndex :: nat

datatype last_page_policy = RejectLast | CloseDaemon

definition page_index :: "real \<Rightarrow> nat \<Rightarrow> nat option" where
  "page_index n len =
     (if 0 \<le> n \<and> n = real (nat \<lfloor>n\<rfloor>) \<and> nat \<lfloor>n\<rfloor> < len then Some (nat \<lfloor>n\<rfloor>) else None)"

definition remove_at :: "nat \<Rightarrow> 'a list \<Rightarrow> 'a list" where
  "remove_at k xs = take k xs @ drop (Suc k) xs"

text \<open>
  Modelled from the spec: \<open>BrowserManager.closeTab\<close> of browser.ts, whose source is
  missing. The specification (4.3, 6, 8): tab-close targets the currently
  active tab when no index is given; a referenced tab index must exist; after the
  removal the new active index is the lowest remaining index; the result is the closed
  index and the remaining count. Closing the last page either is rejected or closes
  the daemon (section 3 leaves the policy open).
\<close>

definition closePage ::
  "last_page_policy \<Rightarrow> real option \<Rightarrow> ('a page_set_scheme, nat \<times> nat) io" where
  "closePage policy index s =
     (case (case index of
              None \<Rightarrow> if activeIndex s < length (pages s) then Some (activeIndex s) else None
            | Some n \<Rightarrow> page_index n (length (pages s))) of
        None \<Rightarrow> (Inl (ErrorObject ''Invalid tab index''), s)
      | Some target \<Rightarrow>
          if length (pages s) = 1 \<and> policy = RejectLast
          then (Inl (ErrorObject ''Cannot close the last tab''), s)
          else (Inr (target, length (pages s) - 1),
                s\<lparr>pages := remove_at target (pages s), activeIndex := 0\<rparr>))"

section \<open>A scripted engine\<close>

text \<open>
  An engine to run the handlers on concrete inputs: it keeps a page set, throws from
  \<open>getPage\<close> before \<open>launch\<close>, and records every page operation it is asked for.
\<close>

datatype engine_call =
    Goto string wait_until
  | ClickOn string "mouse_button option" "real option" "real option"
  | Fill string string
  | TypeInto string string "real option"
  | PressOn string string
  | KeyboardPress string
  | PageScreenshot screenshot_options
  | LocatorScreenshot string screenshot_options
  | AriaSnapshot string
  | EvaluateScript string
  | WaitForSelector string element_state "real option"
  | WaitForTimeout real
  | WaitForLoadState wait_until
  | ScrollIntoViewIfNeeded string
  | LocatorScrollBy string real real
  | SelectOption string "string list"
  | HoverOn string
  | InnerHTML string
  | PageContent

record engine = page_set +
  launched :: bool
  calls :: "engine_call list"

definition recorded :: "engine_call \<Rightarrow> 'a \<Rightarrow> (engine, 'a) io" where
  "recorded c result s = (Inr result, s\<lparr>calls := calls s @ [c]\<rparr>)"

definition page_of :: "engine \<Rightarrow> nat \<Rightarrow> string \<times> string" where
  "page_of s k = (if k < length (pages s) then pages s ! k else ([], []))"

definition engine_page :: "(engine, nat) page_api" where
  "engine_page =
     \<lparr>page_goto = (\<lambda>pg u w. recorded (Goto u w) ()),
      page_url = (\<lambda>pg s. (Inr (fst (page_of s pg)), s)),
      page_title = (\<lambda>pg s. (Inr (snd (page_of s pg)), s)),
      page_click = (\<lambda>pg sel b n d. recorded (ClickOn sel b n d) ()),
      page_fill = (\<lambda>pg sel t. recorded (Fill sel t) ()),
      page_type = (\<lambda>pg sel t d. recorded (TypeInto sel t d) ()),
      page_press = (\<lambda>pg sel k. recorded (PressOn sel k) ()),
      keyboard_press = (\<lambda>pg k. recorded (KeyboardPress k) ()),
      page_screenshot = (\<lambda>pg opts. recorded (PageScreenshot opts) [77, 97, 110]),
      locator_screenshot = (\<lambda>pg sel opts. recorded (LocatorScreenshot sel opts) [77, 97]),
      locator_ariaSnapshot = (\<lambda>pg sel. recorded (AriaSnapshot sel) (Some ''- document'')),
      page_evaluate = (\<lambda>pg scr. recorded (EvaluateScript scr) JNull),
      page_waitForSelector = (\<lambda>pg sel st t. recorded (WaitForSelector sel st t) ()),
      page_waitForTimeout = (\<lambda>pg t. recorded (WaitForTimeout t) ()),
      page_waitForLoadState = (\<lambda>pg st. recorded (WaitForLoadState st) ()),
      locator_scrollIntoViewIfNeeded = (\<lambda>pg sel. recorded (ScrollIntoViewIfNeeded sel) ()),
      locator_scrollBy = (\<lambda>pg sel x y. recorded (LocatorScrollBy sel x y) ()),
      page_selectOption = (\<lambda>pg sel vs. recorded (SelectOption sel vs) ()),
      page_hover = (\<lambda>pg sel. recorded (HoverOn sel) ()),
      locator_innerHTML = (\<lambda>pg sel. recorded (InnerHTML sel) ''<p></p>''),
      page_content = (\<lambda>pg. recorded PageContent ''<html></html>'')\<rparr>"

definition engine_manager :: "last_page_policy \<Rightarrow> (engine, nat) browser_manager" where
  "engine_manager policy =
     \<lparr>launch = (\<lambda>c s. (Inr (), s\<lparr>pages := [(''about:blank'', [])], activeIndex := 0,
                                   launched := True\<rparr>)),
      getPage = (\<lambda>s. if launched s \<and> activeIndex s < length (pages s)
                      then (Inr (activeIndex s), s)
                      else (Inl (ErrorObject ''Browser not launched. Call launch first.''), s)),
      close = (\<lambda>s. (Inr (), s\<lparr>pages := [], launched := False\<rparr>)),
      newTab = (\<lambda>s. (Inr (length (pages s), Suc (length (pages s))),
                      s\<lparr>pages := pages s @ [(''about:blank'', [])],
                        activeIndex := length (pages s)\<rparr>)),
      listTabs = (\<lambda>s. (Inr (map (\<lambda>k. \<lparr>tab_index = k, tab_url = fst (pages s ! k),
                                         tab_title = snd (pages s ! k),
                                         tab_active = (k = activeIndex s)\<rparr>)
                                [0..<length (pages s)]), s)),
      getActiveIndex = (\<lambda>s. (Inr (activeIndex s), s)),
      switchTo = (\<lambda>n s. case page_index n (length (pages s)) of
                           None \<Rightarrow> (Inl (ErrorObject ''Invalid tab index''), s)
                         | Some k \<Rightarrow> (Inr (k, fst (pages s ! k)), s\<lparr>activeIndex := k\<rparr>)),
      closeTab = closePage policy,
      newWindow = (\<lambda>vp s. (Inr (length (pages s), Suc (length (pages s))),
                           s\<lparr>pages := pages s @ [(''about:blank'', [])],
                             activeIndex := length (pages s)\<rparr>))\<rparr>"

text \<open>
  A browser manager whose \<open>getPage\<close> throws the given value, whatever the state of
  the engine.
\<close>

definition throwing_manager :: "fault \<Rightarrow> (engine, nat) browser_manager" where
  "throwing_manager f = (engine_manager RejectLast)\<lparr>getPage := (\<lambda>s. (Inl f, s))\<rparr>"

text \<open>Base64 in the standard alphabet, with padding, as \<open>Buffer\<close> writes it.\<close>

definition base64_digit :: "nat \<Rightarrow> char" where
  "base64_digit k =
     ''ABCDEFGHIJKLMNOPQRSTUVWXYZabcdefghijklmnopqrstuvwxyz0123456789+/'' ! k"

fun base64_encode :: "nat list \<Rightarrow> string" where
  "base64_encode [] = []"
| "base64_encode [a] =
     [base64_digit (a div 4), base64_digit ((a mod 4) * 16), CHR ''='', CHR ''='']"
| "base64_encode [a, b] =
     [base64_digit (a div 4), base64_digit ((a mod 4) * 16 + b div 16),
      base64_digit ((b mod 16) * 4), CHR ''='']"
| "base64_encode (a # b # c # rest) =
     [base64_digit (a div 4), base64_digit ((a mod 4) * 16 + b div 16),
      base64_digit ((b mod 16) * 4 + c div 64), base64_digit (c mod 64)]
     @ base64_encode rest"

text \<open>The text of an integral number; the scripted runs use no other numbers.\<close>

definition integer_text :: "real \<Rightarrow> string" where
  "integer_text r = (if r < 0 then ''-'' else []) @ show_nat (nat \<lfloor>\<bar>r\<bar>\<rfloor>)"

definition engine_platform :: "(engine, nat) platform" where
  "engine_platform = \<lparr>page = engine_page, number_text = integer_text, base64 = base64_encode\<rparr>"

definition engine_start :: engine where
  "engine_start = \<lparr>pages = [], activeIndex = 0, launched = False, calls = []\<rparr>"

definition engine_running :: "(string \<times> string) list \<Rightarrow> nat \<Rightarrow> engine" where
  "engine_running ps k = \<lparr>pages = ps, activeIndex = k, launched = True, calls = []\<rparr>"

text \<open>
  A runtime for concrete runs of \<open>parseCommand\<close>: \<open>JSON.parse\<close> is given by the texts
  it is asked about, each with the value it denotes (any other text is taken as not
  JSON); the messages are zod's default English ones (that of an enum value without
  the value received).
\<close>

fun type_name :: "zod_type \<Rightarrow> string" where
  "type_name ZT_undefined = ''undefined''"
| "type_name ZT_null = ''null''"
| "type_name ZT_boolean = ''boolean''"
| "type_name ZT_number = ''number''"
| "type_name ZT_string = ''string''"
| "type_name ZT_array = ''array''"
| "type_name ZT_object = ''object''"

definition bound_text :: "bool \<Rightarrow> real \<Rightarrow> string" where
  "bound_text inclusive b = (if inclusive then ''or equal to '' else []) @ integer_text b"

fun default_message :: "issue_code \<Rightarrow> string" where
  "default_message (invalid_type e ZT_undefined) = ''Required''"
| "default_message (invalid_type e r) = ''Expected '' @ e @ '', received '' @ type_name r"
| "default_message (invalid_literal l) = ''Invalid literal value, expected '' @ [CHR 0x22] @ l @ [CHR 0x22]"
| "default_message (invalid_enum_value vs) = ''Invalid enum value. Expected '' @ joinValues vs"
| "default_message invalid_union = ''Invalid input''"
| "default_message (invalid_union_discriminator vs) =
     ''Invalid discriminator value. Expected '' @ joinValues vs"
| "default_message (too_small_string k) =
     ''String must contain at least '' @ show_nat k @ '' character(s)''"
| "default_message (too_small_number b inc) =
     ''Number must be greater than '' @ bound_text inc b"
| "default_message (too_big_number b inc) =
     ''Number must be less than '' @ bound_text inc b"

definition scripted_runtime :: "(string \<times> json) list \<Rightarrow> runtime" where
  "scripted_runtime texts =
     \<lparr>JSON_parse = map_of texts, Number_toString = integer_text, zod_message = default_message\<rparr>"

section \<open>Notions used in the proofs\<close>

text \<open>A handler answers \<open>i\<close> when every response it returns carries the id \<open>i\<close>.\<close>

definition answers :: "string \<Rightarrow> ('s, response) io \<Rightarrow> bool" where
  "answers i m = (\<forall>s r s'. m s = (Inr r, s') \<longrightarrow> response_id r = i)"

text \<open>
  A parse result is placed below a path when, if it is a failure, it reports at least
  one issue and every issue lies strictly below the path; it is placed at a path when
  the issues lie at or below it.
\<close>

definition placed_at :: "string list \<Rightarrow> 'a parsed \<Rightarrow> bool" where
  "placed_at p r =
     (case r of Inl es \<Rightarrow> es \<noteq> [] \<and> (\<forall>e \<in> set es. prefix p (issue_path e)) | Inr _ \<Rightarrow> True)"

definition placed_below :: "string list \<Rightarrow> 'a parsed \<Rightarrow> bool" where
  "placed_below p r =
     (case r of
        Inl es \<Rightarrow> es \<noteq> [] \<and> (\<forall>e \<in> set es. strict_prefix p (issue_path e))
      | Inr _ \<Rightarrow> True)"

section \<open>executeCommand answers with the id of the command, unless its catch clause throws\<close>

lemma answers_returns: "answers i (returns (successResponse i d))"
  by (simp add: answers_def returns_def successResponse_def)

lemma answers_and_then: "(\<And>x. answers i (f x)) \<Longrightarrow> answers i (and_then m f)"
  by (auto simp: answers_def and_then_def split: prod.splits sum.splits)

lemma answers_if: "answers i a \<Longrightarrow> answers i b \<Longrightarrow> answers i (if c then a else b)"
  by simp

lemmas answers_rules = answers_and_then answers_returns answers_if

lemma dispatch_answers: "answers (command_id command) (dispatch pf command browser)"
proof (cases command)
  case (Launch c) then show ?thesis by (cases c) (simp add: answers_rules)
next
  case (Navigate c) then show ?thesis by (cases c) (simp add: answers_rules)
next
  case (Click c) then show ?thesis by (cases c) (simp add: answers_rules)
next
  case (Type c) then show ?thesis by (cases c) (simp add: answers_rules)
next
  case (Press c) then show ?thesis by (cases c) (simp add: answers_rules)
next
  case (Screenshot c) then show ?thesis by (cases c) (simp add: answers_rules Let_def)
next
  case (Snapshot c) then show ?thesis by (cases c) (simp add: answers_rules)
next
  case (Evaluate c) then show ?thesis by (cases c) (simp add: answers_rules)
next
  case (Wait c) then show ?thesis by (cases c) (simp add: answers_rules)
next
  case (Scroll c) then show ?thesis by (cases c) (simp add: answers_rules)
next
  case (Select c) then show ?thesis by (cases c) (simp add: answers_rules Let_def)
next
  case (Hover c) then show ?thesis by (cases c) (simp add: answers_rules)
next
  case (Content c) then show ?thesis by (cases c) (simp add: answers_rules)
next
  case (Close c) then show ?thesis by (cases c) (simp add: answers_rules)
next
  case (TabNew c) then show ?thesis by (cases c) (simp add: answers_rules)
next
  case (TabList c) then show ?thesis by (cases c) (simp add: answers_rules)
next
  case (TabSwitch c) then show ?thesis by (cases c) (simp add: answers_rules)
next
  case (TabClose c) then show ?thesis by (cases c) (simp add: answers_rules)
next
  case (WindowNew c) then show ?thesis by (cases c) (simp add: answers_rules)
qed

text \<open>
  C1. What \<open>executeCommand\<close> does, for every command, capability and state. A response
  the handler returns is passed on, and it carries the id of the command. A thrown
  \<open>Error\<close> becomes the error response with the id of the command and the message of
  the error. A thrown value that is no \<open>Error\<close> and that \<open>String\<close> converts becomes
  the error response with the id of the command and the converted text. A thrown value
  on which \<open>String\<close> itself throws (an object without a prototype, say) is not
  converted: the exception leaves the catch clause, and \<open>executeCommand\<close> returns no
  response.
\<close>

theorem executeCommand_answers_unless_String_throws:
  "(\<forall>r s'. dispatch pf command browser s = (Inr r, s') \<longrightarrow>
      executeCommand pf command browser s = (Inr r, s') \<and> response_id r = command_id command) \<and>
   (\<forall>m s'. dispatch pf command browser s = (Inl (ErrorObject m), s') \<longrightarrow>
      executeCommand pf command browser s = (Inr (ErrorResponse (command_id command) m), s')) \<and>
   (\<forall>t s'. dispatch pf command browser s = (Inl (Thrown (Inr t)), s') \<longrightarrow>
      executeCommand pf command browser s = (Inr (ErrorResponse (command_id command) t), s')) \<and>
   (\<forall>e s'. dispatch pf command browser s = (Inl (Thrown (Inl e)), s') \<longrightarrow>
      executeCommand pf command browser s = (Inl e, s'))"
  using dispatch_answers [of command pf browser]
  by (auto simp: executeCommand_def answers_def errorResponse_def)

lemma throwing_manager_getPage: "getPage (throwing_manager f) s = (Inl f, s)"
  by (simp add: throwing_manager_def)

lemma dispatch_navigate_throws:
  "dispatch pf (Navigate (NavigateCommand i u w)) (throwing_manager f) s = (Inl f, s)"
  by (simp add: and_then_def throwing_manager_getPage)

theorem executeCommand_answers_unless_String_throws_witness:
  "dispatch engine_platform (Navigate (NavigateCommand ''r1'' ''https://example.com'' None))
     (throwing_manager (Thrown (Inl TypeError))) engine_start
   = (Inl (Thrown (Inl TypeError)), engine_start) \<and>
   executeCommand engine_platform (Navigate (NavigateCommand ''r1'' ''https://example.com'' None))
     (throwing_manager (Thrown (Inl TypeError))) engine_start
   = (Inl TypeError, engine_start) \<and>
   executeCommand engine_platform (Navigate (NavigateCommand ''r1'' ''https://example.com'' None))
     (throwing_manager (Thrown (Inr ''timeout''))) engine_start
   = (Inr (ErrorResponse ''r1'' ''timeout''), engine_start) \<and>
   executeCommand engine_platform (Navigate (NavigateCommand ''r1'' ''https://example.com'' None))
     (throwing_manager (ErrorObject ''Browser not launched. Call launch first.'')) engine_start
   = (Inr (ErrorResponse ''r1'' ''Browser not launched. Call launch first.''), engine_start) \<and>
   executeCommand engine_platform (TabNew (TabNewCommand ''r2''))
     (engine_manager RejectLast) (engine_running [(''https://example.com/'', ''Example'')] 0)
   = (Inr (SuccessResponse ''r2'' (TabNewData 1 2)),
      engine_running [(''https://example.com/'', ''Example''), (''about:blank'', [])] 1)"
proof -
  let ?c = "Navigate (NavigateCommand ''r1'' ''https://example.com'' None)"
  let ?s = "engine_running [(''https://example.com/'', ''Example'')] 0"
  have d: "dispatch engine_platform ?c (throwing_manager f) engine_start = (Inl f, engine_start)"
    for f by (rule dispatch_navigate_throws)
  have n: "dispatch engine_platform (TabNew (TabNewCommand ''r2'')) (engine_manager RejectLast) ?s
     = (Inr (SuccessResponse ''r2'' (TabNewData 1 2)),
        engine_running [(''https://example.com/'', ''Example''), (''about:blank'', [])] 1)"
    by (simp add: and_then_def returns_def engine_manager_def engine_running_def
        successResponse_def)
  from executeCommand_answers_unless_String_throws
    [of engine_platform ?c "throwing_manager (Thrown (Inl TypeError))" engine_start]
    executeCommand_answers_unless_String_throws
    [of engine_platform ?c "throwing_manager (Thrown (Inr ''timeout''))" engine_start]
    executeCommand_answers_unless_String_throws
    [of engine_platform ?c
      "throwing_manager (ErrorObject ''Browser not launched. Call launch first.'')" engine_start]
    executeCommand_answers_unless_String_throws
    [of engine_platform "TabNew (TabNewCommand ''r2'')" "engine_manager RejectLast" ?s]
    d n
  show ?thesis by simp
qed

section \<open>Round trip of the command schemas\<close>

lemma map_of_optional_member:
  "map_of (optional_member k f v) k' = (if k' = k then map_option f v else None)"
  by (cases v) (simp_all add: optional_member_def)

lemma and_field_Inr: "and_field (Inr g) (Inr v) = Inr (g v)"
  by (simp add: and_field_def)

lemma base_ok:
  "map_of kvs ''id'' = Some (JStr i) \<Longrightarrow> map_of kvs ''action'' = Some (JStr lit) \<Longrightarrow>
   baseCommandSchema_extend lit mk p kvs = Inr (mk i)"
  by (simp add: baseCommandSchema_extend_def field_def z_string_def z_literal_def and_field_Inr)

lemma z_string_ok: "minlen \<le> length s \<Longrightarrow> z_string minlen p (Some (JStr s)) = Inr s"
  by (simp add: z_string_def)

lemma z_boolean_ok: "z_boolean p (Some (JBool b)) = Inr b"
  by (simp add: z_boolean_def)

lemma browser_ok: "z_enum browser_values p (Some (JStr (browser_literal x))) = Inr x"
  by (cases x) (simp_all add: z_enum_def browser_values_def)
lemma waitUntil_ok: "z_enum waitUntil_values p (Some (JStr (waitUntil_literal x))) = Inr x"
  by (cases x) (simp_all add: z_enum_def waitUntil_values_def)
lemma button_ok: "z_enum button_values p (Some (JStr (button_literal x))) = Inr x"
  by (cases x) (simp_all add: z_enum_def button_values_def)
lemma format_ok: "z_enum format_values p (Some (JStr (format_literal x))) = Inr x"
  by (cases x) (simp_all add: z_enum_def format_values_def)
lemma state_ok: "z_enum state_values p (Some (JStr (state_literal x))) = Inr x"
  by (cases x) (simp_all add: z_enum_def state_values_def)
lemma direction_ok: "z_enum direction_values p (Some (JStr (direction_literal x))) = Inr x"
  by (cases x) (simp_all add: z_enum_def direction_values_def)

lemma viewport_ok:
  "valid_viewport v \<Longrightarrow>
   viewportSchema p (Some (viewport_json (map_viewport_value Finite v))) = Inr v"
  by (cases v)
    (simp add: viewportSchema_def viewport_json_def z_object_def field_def z_number_def
      valid_viewport_def and_field_Inr number_json_def)

lemma concat_map_singleton: "(\<And>x. x \<in> set xs \<Longrightarrow> f x = [x]) \<Longrightarrow> concat (map f xs) = xs"
  by (induction xs) simp_all

lemma stringified_json_value: "stringified (json_value j) = Some j"
proof (induction j)
  case (JArr xs)
  then have "map (json_or_null \<circ> (stringified \<circ> json_value)) xs = xs"
    by (intro map_idI) (simp add: json_or_null_def)
  then show ?case by simp
next
  case (JObj kvs)
  have "(json_member \<circ> map_prod id stringified \<circ> map_prod id json_value) kv = [kv]"
    if "kv \<in> set kvs" for kv
  proof -
    obtain k v where kv: "kv = (k, v)" by (cases kv)
    have "stringified (json_value v) = Some v"
      using JObj [of kv v] that by (simp add: kv)
    then show ?thesis by (simp add: kv json_member_def)
  qed
  then have
    "concat (map (json_member \<circ> map_prod id stringified \<circ> map_prod id json_value) kvs) = kvs"
    by (rule concat_map_singleton)
  then have
    "concat (map json_member (map (map_prod id stringified) (map (map_prod id json_value) kvs)))
       = kvs"
    by (simp only: map_map comp_assoc)
  then show ?case by (simp only: json_value.simps stringified.simps)
qed (simp_all add: number_json_def)

lemma element_json_value: "map (element_json \<circ> json_value) xs = xs"
  by (induction xs) (simp_all add: element_json_def stringified_json_value json_or_null_def)

lemmas rt_simps = sent_def z_object_def field_def optional_member_def envelope_def map_add_def
  base_ok and_field_Inr z_string_ok z_boolean_ok z_optional_def holds_if_set_def Suc_le_eq
  z_number_def number_json_def element_json_value

lemma parse_elements_strings:
  "parse_elements (z_string 0) p i (map JStr xs) = Inr xs"
  by (induction xs arbitrary: i) (simp_all add: z_string_def and_field_Inr)

lemma values_ok:
  "z_union (z_string 0) (z_array (z_string 0)) p (Some (values_json vs)) = Inr vs"
  by (cases vs) (simp_all add: z_union_def z_string_def z_array_def parse_elements_strings)

lemma launchSchema_toJSON:
  "valid_command (Launch c) \<Longrightarrow> launchSchema p (Some (toJSON (sent (Launch c)))) = Inr c"
  by (cases c) (simp add: launchSchema_def rt_simps browser_ok viewport_ok split: option.splits)

lemma navigateSchema_toJSON:
  "valid_command (Navigate c) \<Longrightarrow> navigateSchema p (Some (toJSON (sent (Navigate c)))) = Inr c"
  by (cases c) (simp add: navigateSchema_def rt_simps waitUntil_ok split: option.splits)

lemma clickSchema_toJSON:
  "valid_command (Click c) \<Longrightarrow> clickSchema p (Some (toJSON (sent (Click c)))) = Inr c"
  by (cases c) (simp add: clickSchema_def rt_simps button_ok split: option.splits)

lemma typeSchema_toJSON:
  "valid_command (Type c) \<Longrightarrow> typeSchema p (Some (toJSON (sent (Type c)))) = Inr c"
  by (cases c) (simp add: typeSchema_def rt_simps  split: option.splits)

lemma pressSchema_toJSON:
  "valid_command (Press c) \<Longrightarrow> pressSchema p (Some (toJSON (sent (Press c)))) = Inr c"
  by (cases c) (simp add: pressSchema_def rt_simps  split: option.splits)

lemma screenshotSchema_toJSON:
  "valid_command (Screenshot c) \<Longrightarrow> screenshotSchema p (Some (toJSON (sent (Screenshot c)))) = Inr c"
  by (cases c) (simp add: screenshotSchema_def rt_simps format_ok split: option.splits)

lemma snapshotSchema_toJSON:
  "valid_command (Snapshot c) \<Longrightarrow> snapshotSchema p (Some (toJSON (sent (Snapshot c)))) = Inr c"
  by (cases c) (simp add: snapshotSchema_def rt_simps  split: option.splits)

lemma evaluateSchema_toJSON:
  "valid_command (Evaluate c) \<Longrightarrow> evaluateSchema p (Some (toJSON (sent (Evaluate c)))) = Inr c"
  by (cases c) (simp add: evaluateSchema_def rt_simps z_array_unknown_def split: option.splits)

lemma waitSchema_toJSON:
  "valid_command (Wait c) \<Longrightarrow> waitSchema p (Some (toJSON (sent (Wait c)))) = Inr c"
  by (cases c) (simp add: waitSchema_def rt_simps state_ok split: option.splits)

lemma scrollSchema_toJSON:
  "valid_command (Scroll c) \<Longrightarrow> scrollSchema p (Some (toJSON (sent (Scroll c)))) = Inr c"
  by (cases c) (simp add: scrollSchema_def rt_simps direction_ok split: option.splits)

lemma selectSchema_toJSON:
  "valid_command (Select c) \<Longrightarrow> selectSchema p (Some (toJSON (sent (Select c)))) = Inr c"
  by (cases c) (simp add: selectSchema_def rt_simps values_ok split: option.splits)

lemma hoverSchema_toJSON:
  "valid_command (Hover c) \<Longrightarrow> hoverSchema p (Some (toJSON (sent (Hover c)))) = Inr c"
  by (cases c) (simp add: hoverSchema_def rt_simps  split: option.splits)

lemma contentSchema_toJSON:
  "valid_command (Content c) \<Longrightarrow> contentSchema p (Some (toJSON (sent (Content c)))) = Inr c"
  by (cases c) (simp add: contentSchema_def rt_simps  split: option.splits)

lemma closeSchema_toJSON:
  "valid_command (Close c) \<Longrightarrow> closeSchema p (Some (toJSON (sent (Close c)))) = Inr c"
  by (cases c) (simp add: closeSchema_def rt_simps  split: option.splits)

lemma tabNewSchema_toJSON:
  "valid_command (TabNew c) \<Longrightarrow> tabNewSchema p (Some (toJSON (sent (TabNew c)))) = Inr c"
  by (cases c) (simp add: tabNewSchema_def rt_simps  split: option.splits)

lemma tabListSchema_toJSON:
  "valid_command (TabList c) \<Longrightarrow> tabListSchema p (Some (toJSON (sent (TabList c)))) = Inr c"
  by (cases c) (simp add: tabListSchema_def rt_simps  split: option.splits)

lemma tabSwitchSchema_toJSON:
  "valid_command (TabSwitch c) \<Longrightarrow> tabSwitchSchema p (Some (toJSON (sent (TabSwitch c)))) = Inr c"
  by (cases c) (simp add: tabSwitchSchema_def rt_simps  split: option.splits)

lemma tabCloseSchema_toJSON:
  "valid_command (TabClose c) \<Longrightarrow> tabCloseSchema p (Some (toJSON (sent (TabClose c)))) = Inr c"
  by (cases c) (simp add: tabCloseSchema_def rt_simps  split: option.splits)

lemma windowNewSchema_toJSON:
  "valid_command (WindowNew c) \<Longrightarrow> windowNewSchema p (Some (toJSON (sent (WindowNew c)))) = Inr c"
  by (cases c) (simp add: windowNewSchema_def rt_simps viewport_ok split: option.splits)

lemma toJSON_discriminator:
  "\<exists>kvs. toJSON c = JObj kvs \<and> map_of kvs ''action'' = Some (JStr (action_of c))"
proof (cases c)
  case (Launch x)
  then show ?thesis by (cases x) (simp add: envelope_def)
next
  case (Navigate x)
  then show ?thesis by (cases x) (simp add: envelope_def)
next
  case (Click x)
  then show ?thesis by (cases x) (simp add: envelope_def)
next
  case (Type x)
  then show ?thesis by (cases x) (simp add: envelope_def)
next
  case (Press x)
  then show ?thesis by (cases x) (simp add: envelope_def)
next
  case (Screenshot x)
  then show ?thesis by (cases x) (simp add: envelope_def)
next
  case (Snapshot x)
  then show ?thesis by (cases x) (simp add: envelope_def)
next
  case (Evaluate x)
  then show ?thesis by (cases x) (simp add: envelope_def)
next
  case (Wait x)
  then show ?thesis by (cases x) (simp add: envelope_def)
next
  case (Scroll x)
  then show ?thesis by (cases x) (simp add: envelope_def)
next
  case (Select x)
  then show ?thesis by (cases x) (simp add: envelope_def)
next
  case (Hover x)
  then show ?thesis by (cases x) (simp add: envelope_def)
next
  case (Content x)
  then show ?thesis by (cases x) (simp add: envelope_def)
next
  case (Close x)
  then show ?thesis by (cases x) (simp add: envelope_def)
next
  case (TabNew x)
  then show ?thesis by (cases x) (simp add: envelope_def)
next
  case (TabList x)
  then show ?thesis by (cases x) (simp add: envelope_def)
next
  case (TabSwitch x)
  then show ?thesis by (cases x) (simp add: envelope_def)
next
  case (TabClose x)
  then show ?thesis by (cases x) (simp add: envelope_def)
next
  case (WindowNew x)
  then show ?thesis by (cases x) (simp add: envelope_def)
qed

lemma commandSchema_toJSON:
  "valid_command c \<Longrightarrow> commandSchema [] (Some (toJSON (sent c))) = Inr c"
proof -
  assume v: "valid_command c"
  have a: "action_of (sent c) = action_of c"
    by (cases c) (simp_all add: sent_def)
  obtain kvs where k: "toJSON (sent c) = JObj kvs"
    "map_of kvs ''action'' = Some (JStr (action_of c))"
    using toJSON_discriminator [of "sent c"] by (auto simp: a)
  have d: "discriminator kvs = Some (action_of c)"
    by (simp add: discriminator_def k)
  have "commandSchema [] (Some (toJSON (sent c))) =
      (case map_of command_options (action_of c) of
         Some s \<Rightarrow> s [] (Some (toJSON (sent c)))
       | None \<Rightarrow> Inl [Issue [''action''] (invalid_union_discriminator (map fst command_options))])"
    by (simp add: commandSchema_def k d split: option.splits)
  then show ?thesis
    using v
    by (cases c)
      (simp_all add: command_options_def as_command_def
        launchSchema_toJSON navigateSchema_toJSON clickSchema_toJSON typeSchema_toJSON pressSchema_toJSON screenshotSchema_toJSON snapshotSchema_toJSON evaluateSchema_toJSON waitSchema_toJSON scrollSchema_toJSON selectSchema_toJSON hoverSchema_toJSON contentSchema_toJSON closeSchema_toJSON tabNewSchema_toJSON tabListSchema_toJSON tabSwitchSchema_toJSON tabCloseSchema_toJSON windowNewSchema_toJSON)
qed

lemma toJSON_id:
  "\<exists>kvs. toJSON c = JObj kvs \<and> map_of kvs ''id'' = Some (JStr (command_id c))"
proof (cases c)
  case (Launch x)
  then show ?thesis by (cases x) (simp add: envelope_def)
next
  case (Navigate x)
  then show ?thesis by (cases x) (simp add: envelope_def)
next
  case (Click x)
  then show ?thesis by (cases x) (simp add: envelope_def)
next
  case (Type x)
  then show ?thesis by (cases x) (simp add: envelope_def)
next
  case (Press x)
  then show ?thesis by (cases x) (simp add: envelope_def)
next
  case (Screenshot x)
  then show ?thesis by (cases x) (simp add: envelope_def)
next
  case (Snapshot x)
  then show ?thesis by (cases x) (simp add: envelope_def)
next
  case (Evaluate x)
  then show ?thesis by (cases x) (simp add: envelope_def)
next
  case (Wait x)
  then show ?thesis by (cases x) (simp add: envelope_def)
next
  case (Scroll x)
  then show ?thesis by (cases x) (simp add: envelope_def)
next
  case (Select x)
  then show ?thesis by (cases x) (simp add: envelope_def)
next
  case (Hover x)
  then show ?thesis by (cases x) (simp add: envelope_def)
next
  case (Content x)
  then show ?thesis by (cases x) (simp add: envelope_def)
next
  case (Close x)
  then show ?thesis by (cases x) (simp add: envelope_def)
next
  case (TabNew x)
  then show ?thesis by (cases x) (simp add: envelope_def)
next
  case (TabList x)
  then show ?thesis by (cases x) (simp add: envelope_def)
next
  case (TabSwitch x)
  then show ?thesis by (cases x) (simp add: envelope_def)
next
  case (TabClose x)
  then show ?thesis by (cases x) (simp add: envelope_def)
next
  case (WindowNew x)
  then show ?thesis by (cases x) (simp add: envelope_def)
qed

lemma command_id_sent: "command_id (sent c) = command_id c"
proof (cases c)
  case (Launch x)
  then show ?thesis by (cases x) (simp add: sent_def)
next
  case (Navigate x)
  then show ?thesis by (cases x) (simp add: sent_def)
next
  case (Click x)
  then show ?thesis by (cases x) (simp add: sent_def)
next
  case (Type x)
  then show ?thesis by (cases x) (simp add: sent_def)
next
  case (Press x)
  then show ?thesis by (cases x) (simp add: sent_def)
next
  case (Screenshot x)
  then show ?thesis by (cases x) (simp add: sent_def)
next
  case (Snapshot x)
  then show ?thesis by (cases x) (simp add: sent_def)
next
  case (Evaluate x)
  then show ?thesis by (cases x) (simp add: sent_def)
next
  case (Wait x)
  then show ?thesis by (cases x) (simp add: sent_def)
next
  case (Scroll x)
  then show ?thesis by (cases x) (simp add: sent_def)
next
  case (Select x)
  then show ?thesis by (cases x) (simp add: sent_def)
next
  case (Hover x)
  then show ?thesis by (cases x) (simp add: sent_def)
next
  case (Content x)
  then show ?thesis by (cases x) (simp add: sent_def)
next
  case (Close x)
  then show ?thesis by (cases x) (simp add: sent_def)
next
  case (TabNew x)
  then show ?thesis by (cases x) (simp add: sent_def)
next
  case (TabList x)
  then show ?thesis by (cases x) (simp add: sent_def)
next
  case (TabSwitch x)
  then show ?thesis by (cases x) (simp add: sent_def)
next
  case (TabClose x)
  then show ?thesis by (cases x) (simp add: sent_def)
next
  case (WindowNew x)
  then show ?thesis by (cases x) (simp add: sent_def)
qed

lemmas schema_defs = launchSchema_def navigateSchema_def clickSchema_def typeSchema_def
  pressSchema_def screenshotSchema_def snapshotSchema_def evaluateSchema_def waitSchema_def
  scrollSchema_def selectSchema_def hoverSchema_def contentSchema_def closeSchema_def
  tabNewSchema_def tabListSchema_def tabSwitchSchema_def tabCloseSchema_def windowNewSchema_def

lemma valid_viewport_sent:
  "valid_viewport_value (map_viewport_value Finite v) = valid_viewport v"
  by (cases v) (simp add: valid_viewport_value_def valid_viewport_def)

lemma holds_if_set_map:
  "holds_if_set P (map_option f v) = holds_if_set (\<lambda>x. P (f x)) v"
  by (cases v) (simp_all add: holds_if_set_def)

lemma valid_value_sent: "valid_value (sent c) = valid_command c"
proof (cases c)
  case (Launch x)
  then show ?thesis
    by (cases x) (simp add: sent_def holds_if_set_map valid_viewport_sent)
next
  case (Navigate x)
  then show ?thesis by (cases x) (simp add: sent_def)
next
  case (Click x)
  then show ?thesis by (cases x) (simp add: sent_def holds_if_set_map)
next
  case (Type x)
  then show ?thesis by (cases x) (simp add: sent_def holds_if_set_map)
next
  case (Press x)
  then show ?thesis by (cases x) (simp add: sent_def)
next
  case (Screenshot x)
  then show ?thesis by (cases x) (simp add: sent_def holds_if_set_map)
next
  case (Snapshot x)
  then show ?thesis by (cases x) (simp add: sent_def)
next
  case (Evaluate x)
  then show ?thesis by (cases x) (simp add: sent_def)
next
  case (Wait x)
  then show ?thesis by (cases x) (simp add: sent_def holds_if_set_map)
next
  case (Scroll x)
  then show ?thesis by (cases x) (simp add: sent_def holds_if_set_map holds_if_set_def
        split: option.splits)
next
  case (Select x)
  then show ?thesis by (cases x) (simp add: sent_def)
next
  case (Hover x)
  then show ?thesis by (cases x) (simp add: sent_def)
next
  case (Content x)
  then show ?thesis by (cases x) (simp add: sent_def)
next
  case (Close x)
  then show ?thesis by (cases x) (simp add: sent_def)
next
  case (TabNew x)
  then show ?thesis by (cases x) (simp add: sent_def)
next
  case (TabList x)
  then show ?thesis by (cases x) (simp add: sent_def)
next
  case (TabSwitch x)
  then show ?thesis by (cases x) (simp add: sent_def)
next
  case (TabClose x)
  then show ?thesis by (cases x) (simp add: sent_def holds_if_set_map)
next
  case (WindowNew x)
  then show ?thesis
    by (cases x) (simp add: sent_def holds_if_set_map valid_viewport_sent)
qed

lemmas run_parse = parseCommand_def scripted_runtime_def commandSchema_def discriminator_def
  command_options_def as_command_def schema_defs z_object_def baseCommandSchema_extend_def
  field_def and_field_def z_string_def z_literal_def z_optional_def z_enum_def z_number_def
  z_boolean_def z_array_unknown_def validation_error_def render_issue_def extract_id_def

text \<open>
  C2 as stated fails. The scroll command with \<open>x: Infinity\<close> is a valid command
  object (\<open>z.number()\<close> accepts the infinities), but \<open>JSON.stringify\<close> writes its
  \<open>x\<close> as \<open>null\<close>, and \<open>parseCommand\<close> rejects the text: decoding the serialization
  does not give the command back.
\<close>

theorem parseCommand_roundtrip_counterexample:
  \<open>valid_value (Scroll (ScrollCommand ''a'' None (Some PlusInfinity) None None None)) \<and>
   toJSON (Scroll (ScrollCommand ''a'' None (Some PlusInfinity) None None None))
     = JObj [(''id'', JStr ''a''), (''action'', JStr ''scroll''), (''x'', JNull)] \<and>
   parseCommand
     (scripted_runtime
        [(''{"id":"a","action":"scroll","x":null}'',
          toJSON (Scroll (ScrollCommand ''a'' None (Some PlusInfinity) None None None)))])
     ''{"id":"a","action":"scroll","x":null}''
     = Inr (ParseFailure ''Validation error: x: Expected number, received null'' (Some ''a''))\<close>
  by (simp add: run_parse holds_if_set_def envelope_def optional_member_def number_json_def)

text \<open>
  Nor does a value that JSON cannot carry survive among the \<open>args\<close> of an evaluate
  command: \<open>undefined\<close> comes back as \<open>null\<close>. Here \<open>parseCommand\<close> succeeds, with
  another command than the one serialized.
\<close>

lemma parseCommand_roundtrip_changes_args:
  \<open>valid_value (Evaluate (EvaluateCommand ''b'' ''f()'' (Some [V_undefined]))) \<and>
   parseCommand
     (scripted_runtime
        [(''{"id":"b","action":"evaluate","script":"f()","args":[null]}'',
          toJSON (Evaluate (EvaluateCommand ''b'' ''f()'' (Some [V_undefined]))))])
     ''{"id":"b","action":"evaluate","script":"f()","args":[null]}''
     = Inr (ParseSuccess (Evaluate (EvaluateCommand ''b'' ''f()'' (Some [JNull])))) \<and>
   sent (Evaluate (EvaluateCommand ''b'' ''f()'' (Some [JNull])))
     \<noteq> Evaluate (EvaluateCommand ''b'' ''f()'' (Some [V_undefined]))\<close>
  by (simp add: run_parse envelope_def optional_member_def element_json_def json_or_null_def
      sent_def)

text \<open>
  C2, amended. For every valid command object whose numbers are finite and whose
  \<open>args\<close> are JSON values (the command objects \<open>sent c\<close>), decoding its JSON
  serialization gives the command back: whenever the input text is one that
  \<open>JSON.parse\<close> reads as the JSON value of the command object (as the text
  \<open>JSON.stringify\<close> writes is), \<open>parseCommand\<close> succeeds with \<open>c\<close>. The valid
  commands are exactly those the schema lets through (\<open>parseCommand_success_valid\<close>
  below is the converse).
\<close>

theorem parseCommand_roundtrip:
  "valid_value (sent c) \<Longrightarrow> JSON_parse rt input = Some (toJSON (sent c)) \<Longrightarrow>
   parseCommand rt input = Inr (ParseSuccess c)"
proof -
  assume v: "valid_value (sent c)" and p: "JSON_parse rt input = Some (toJSON (sent c))"
  from v have "commandSchema [] (Some (toJSON (sent c))) = Inr c"
    by (simp add: valid_value_sent commandSchema_toJSON)
  moreover obtain kvs where k: "toJSON (sent c) = JObj kvs"
    using toJSON_discriminator [of "sent c"] by blast
  moreover have "map_of kvs ''id'' = Some (JStr (command_id c))"
    using k toJSON_id [of "sent c"] by (simp add: command_id_sent)
  ultimately show ?thesis
    using p by (simp add: parseCommand_def extract_id_def)
qed

theorem parseCommand_roundtrip_witness:
  \<open>valid_value (sent (Click (ClickCommand ''r1'' ''#submit'' (Some ButtonLeft) None (Some 50)))) \<and>
   toJSON (sent (Click (ClickCommand ''r1'' ''#submit'' (Some ButtonLeft) None (Some 50))))
     = JObj [(''id'', JStr ''r1''), (''action'', JStr ''click''), (''selector'', JStr ''#submit''),
             (''button'', JStr ''left''), (''delay'', JNum 50)] \<and>
   JSON_parse
     (scripted_runtime
        [(''{"id":"r1","action":"click","selector":"#submit","button":"left","delay":50}'',
          toJSON (sent (Click (ClickCommand ''r1'' ''#submit'' (Some ButtonLeft) None (Some 50)))))])
     ''{"id":"r1","action":"click","selector":"#submit","button":"left","delay":50}''
     = Some (toJSON (sent (Click (ClickCommand ''r1'' ''#submit'' (Some ButtonLeft) None (Some 50))))) \<and>
   parseCommand
     (scripted_runtime
        [(''{"id":"r1","action":"click","selector":"#submit","button":"left","delay":50}'',
          toJSON (sent (Click (ClickCommand ''r1'' ''#submit'' (Some ButtonLeft) None (Some 50)))))])
     ''{"id":"r1","action":"click","selector":"#submit","button":"left","delay":50}''
     = Inr (ParseSuccess (Click (ClickCommand ''r1'' ''#submit'' (Some ButtonLeft) None (Some 50))))\<close>
proof -
  let ?c = "Click (ClickCommand ''r1'' ''#submit'' (Some ButtonLeft) None (Some 50))"
  have v: "valid_value (sent ?c)"
    by (simp add: sent_def holds_if_set_def)
  have j: "toJSON (sent ?c)
     = JObj [(''id'', JStr ''r1''), (''action'', JStr ''click''), (''selector'', JStr ''#submit''),
             (''button'', JStr ''left''), (''delay'', JNum 50)]"
    by (simp add: sent_def envelope_def optional_member_def number_json_def)
  have p: \<open>JSON_parse
     (scripted_runtime
        [(''{"id":"r1","action":"click","selector":"#submit","button":"left","delay":50}'',
          toJSON (sent ?c))])
     ''{"id":"r1","action":"click","selector":"#submit","button":"left","delay":50}''
     = Some (toJSON (sent ?c))\<close>
    by (simp add: scripted_runtime_def)
  show ?thesis
    using v j p parseCommand_roundtrip [OF v p] by simp
qed

section \<open>The schema accepts valid commands only\<close>

text \<open>
  The converse of the round trip: whatever \<open>parseCommand\<close> accepts is a valid
  command. So \<open>valid_command\<close> describes exactly the commands the schema lets
  through.
\<close>

lemma and_field_Inr_iff:
  "and_field f x = Inr y \<longleftrightarrow> (\<exists>g v. f = Inr g \<and> x = Inr v \<and> y = g v)"
  by (cases f; cases x) (auto simp: and_field_def)

lemma z_string_Inr: "z_string k p v = Inr s \<Longrightarrow> k \<le> length s"
  by (auto simp: z_string_def split: option.splits json.splits if_splits)

lemma z_number_Inr: "z_number cs p v = Inr n \<Longrightarrow> \<forall>c \<in> set cs. check_number p n c = []"
  by (auto simp: z_number_def Let_def split: option.splits json.splits if_splits)

lemma z_optional_Inr:
  "z_optional s p v = Inr r \<Longrightarrow> holds_if_set (\<lambda>x. s p v = Inr x) r"
  by (auto simp: z_optional_def holds_if_set_def split: option.splits sum.splits)

lemma viewportSchema_Inr: "viewportSchema p v = Inr vp \<Longrightarrow> valid_viewport vp"
  by (cases vp) (auto simp: viewportSchema_def z_object_def and_field_Inr_iff field_def valid_viewport_def
      dest!: z_number_Inr split: option.splits json.splits if_splits)

lemma baseCommandSchema_extend_Inr:
  "baseCommandSchema_extend lit mk p kvs = Inr c \<Longrightarrow> \<exists>i. c = mk i"
  by (auto simp: baseCommandSchema_extend_def and_field_Inr_iff)

lemma launchSchema_valid: "launchSchema p v = Inr c \<Longrightarrow> valid_command (Launch c)"
  by (auto simp: launchSchema_def z_object_def and_field_Inr_iff field_def holds_if_set_def
      dest!: baseCommandSchema_extend_Inr z_string_Inr z_optional_Inr z_number_Inr
        viewportSchema_Inr
      split: option.splits json.splits if_splits)

lemma navigateSchema_valid: "navigateSchema p v = Inr c \<Longrightarrow> valid_command (Navigate c)"
  by (auto simp: navigateSchema_def z_object_def and_field_Inr_iff field_def holds_if_set_def
      dest!: baseCommandSchema_extend_Inr z_string_Inr z_optional_Inr z_number_Inr
        viewportSchema_Inr
      split: option.splits json.splits if_splits)

lemma clickSchema_valid: "clickSchema p v = Inr c \<Longrightarrow> valid_command (Click c)"
  by (auto simp: clickSchema_def z_object_def and_field_Inr_iff field_def holds_if_set_def
      dest!: baseCommandSchema_extend_Inr z_string_Inr z_optional_Inr z_number_Inr
        viewportSchema_Inr
      split: option.splits json.splits if_splits)

lemma typeSchema_valid: "typeSchema p v = Inr c \<Longrightarrow> valid_command (Type c)"
  by (auto simp: typeSchema_def z_object_def and_field_Inr_iff field_def holds_if_set_def
      dest!: baseCommandSchema_extend_Inr z_string_Inr z_optional_Inr z_number_Inr
        viewportSchema_Inr
      split: option.splits json.splits if_splits)

lemma pressSchema_valid: "pressSchema p v = Inr c \<Longrightarrow> valid_command (Press c)"
  by (auto simp: pressSchema_def z_object_def and_field_Inr_iff field_def holds_if_set_def
      dest!: baseCommandSchema_extend_Inr z_string_Inr z_optional_Inr z_number_Inr
        viewportSchema_Inr
      split: option.splits json.splits if_splits)

lemma screenshotSchema_valid: "screenshotSchema p v = Inr c \<Longrightarrow> valid_command (Screenshot c)"
  by (auto simp: screenshotSchema_def z_object_def and_field_Inr_iff field_def holds_if_set_def
      dest!: baseCommandSchema_extend_Inr z_string_Inr z_optional_Inr z_number_Inr
        viewportSchema_Inr
      split: option.splits json.splits if_splits)

lemma snapshotSchema_valid: "snapshotSchema p v = Inr c \<Longrightarrow> valid_command (Snapshot c)"
  by (auto simp: snapshotSchema_def z_object_def and_field_Inr_iff field_def holds_if_set_def
      dest!: baseCommandSchema_extend_Inr z_string_Inr z_optional_Inr z_number_Inr
        viewportSchema_Inr
      split: option.splits json.splits if_splits)

lemma evaluateSchema_valid: "evaluateSchema p v = Inr c \<Longrightarrow> valid_command (Evaluate c)"
  by (auto simp: evaluateSchema_def z_object_def and_field_Inr_iff field_def holds_if_set_def
      dest!: baseCommandSchema_extend_Inr z_string_Inr z_optional_Inr z_number_Inr
        viewportSchema_Inr
      split: option.splits json.splits if_splits)

lemma waitSchema_valid: "waitSchema p v = Inr c \<Longrightarrow> valid_command (Wait c)"
  by (auto simp: waitSchema_def z_object_def and_field_Inr_iff field_def holds_if_set_def
      dest!: baseCommandSchema_extend_Inr z_string_Inr z_optional_Inr z_number_Inr
        viewportSchema_Inr
      split: option.splits json.splits if_splits)

lemma scrollSchema_valid: "scrollSchema p v = Inr c \<Longrightarrow> valid_command (Scroll c)"
  by (auto simp: scrollSchema_def z_object_def and_field_Inr_iff field_def holds_if_set_def
      dest!: baseCommandSchema_extend_Inr z_string_Inr z_optional_Inr z_number_Inr
        viewportSchema_Inr
      split: option.splits json.splits if_splits)

lemma selectSchema_valid: "selectSchema p v = Inr c \<Longrightarrow> valid_command (Select c)"
  by (auto simp: selectSchema_def z_object_def and_field_Inr_iff field_def holds_if_set_def
      dest!: baseCommandSchema_extend_Inr z_string_Inr z_optional_Inr z_number_Inr
        viewportSchema_Inr
      split: option.splits json.splits if_splits)

lemma hoverSchema_valid: "hoverSchema p v = Inr c \<Longrightarrow> valid_command (Hover c)"
  by (auto simp: hoverSchema_def z_object_def and_field_Inr_iff field_def holds_if_set_def
      dest!: baseCommandSchema_extend_Inr z_string_Inr z_optional_Inr z_number_Inr
        viewportSchema_Inr
      split: option.splits json.splits if_splits)

lemma contentSchema_valid: "contentSchema p v = Inr c \<Longrightarrow> valid_command (Content c)"
  by (auto simp: contentSchema_def z_object_def and_field_Inr_iff field_def holds_if_set_def
      dest!: baseCommandSchema_extend_Inr z_string_Inr z_optional_Inr z_number_Inr
        viewportSchema_Inr
      split: option.splits json.splits if_splits)

lemma closeSchema_valid: "closeSchema p v = Inr c \<Longrightarrow> valid_command (Close c)"
  by (auto simp: closeSchema_def z_object_def and_field_Inr_iff field_def holds_if_set_def
      dest!: baseCommandSchema_extend_Inr z_string_Inr z_optional_Inr z_number_Inr
        viewportSchema_Inr
      split: option.splits json.splits if_splits)

lemma tabNewSchema_valid: "tabNewSchema p v = Inr c \<Longrightarrow> valid_command (TabNew c)"
  by (auto simp: tabNewSchema_def z_object_def and_field_Inr_iff field_def holds_if_set_def
      dest!: baseCommandSchema_extend_Inr z_string_Inr z_optional_Inr z_number_Inr
        viewportSchema_Inr
      split: option.splits json.splits if_splits)

lemma tabListSchema_valid: "tabListSchema p v = Inr c \<Longrightarrow> valid_command (TabList c)"
  by (auto simp: tabListSchema_def z_object_def and_field_Inr_iff field_def holds_if_set_def
      dest!: baseCommandSchema_extend_Inr z_string_Inr z_optional_Inr z_number_Inr
        viewportSchema_Inr
      split: option.splits json.splits if_splits)

lemma tabSwitchSchema_valid: "tabSwitchSchema p v = Inr c \<Longrightarrow> valid_command (TabSwitch c)"
  by (auto simp: tabSwitchSchema_def z_object_def and_field_Inr_iff field_def holds_if_set_def
      dest!: baseCommandSchema_extend_Inr z_string_Inr z_optional_Inr z_number_Inr
        viewportSchema_Inr
      split: option.splits json.splits if_splits)

lemma tabCloseSchema_valid: "tabCloseSchema p v = Inr c \<Longrightarrow> valid_command (TabClose c)"
  by (auto simp: tabCloseSchema_def z_object_def and_field_Inr_iff field_def holds_if_set_def
      dest!: baseCommandSchema_extend_Inr z_string_Inr z_optional_Inr z_number_Inr
        viewportSchema_Inr
      split: option.splits json.splits if_splits)

lemma windowNewSchema_valid: "windowNewSchema p v = Inr c \<Longrightarrow> valid_command (WindowNew c)"
  by (auto simp: windowNewSchema_def z_object_def and_field_Inr_iff field_def holds_if_set_def
      dest!: baseCommandSchema_extend_Inr z_string_Inr z_optional_Inr z_number_Inr
        viewportSchema_Inr
      split: option.splits json.splits if_splits)

lemma as_command_Inr: "as_command tag s p v = Inr c \<Longrightarrow> \<exists>x. s p v = Inr x \<and> c = tag x"
  by (auto simp: as_command_def split: sum.splits)

lemma command_options_valid:
  "(tag, s) \<in> set command_options \<Longrightarrow> s p v = Inr c \<Longrightarrow> valid_command c"
  unfolding command_options_def
  apply (simp only: list.set insert_iff empty_iff prod.inject)
  apply (elim disjE conjE)
  apply (simp_all only:)
  apply (drule as_command_Inr, clarify, simp only: launchSchema_valid navigateSchema_valid clickSchema_valid typeSchema_valid pressSchema_valid screenshotSchema_valid snapshotSchema_valid evaluateSchema_valid waitSchema_valid scrollSchema_valid selectSchema_valid hoverSchema_valid contentSchema_valid closeSchema_valid tabNewSchema_valid tabListSchema_valid tabSwitchSchema_valid tabCloseSchema_valid windowNewSchema_valid)+
  done

lemma commandSchema_valid:
  assumes "commandSchema p v = Inr c"
  shows "valid_command c"
proof (cases v)
  case None
  with assms show ?thesis by (simp add: commandSchema_def)
next
  case (Some j)
  show ?thesis
  proof (cases j)
    case (JObj kvs)
    show ?thesis
    proof (cases "Option.bind (discriminator kvs) (map_of command_options)")
      case None
      with assms Some JObj show ?thesis by (simp add: commandSchema_def)
    next
      case (Some s)
      then obtain tag where "map_of command_options tag = Some s"
        by (auto simp: bind_eq_Some_conv)
      then have m: "(tag, s) \<in> set command_options"
        by (rule map_of_SomeD)
      from assms \<open>v = Some j\<close> JObj Some have "s p v = Inr c"
        by (simp add: commandSchema_def)
      with m show ?thesis by (rule command_options_valid)
    qed
  qed (use assms Some in \<open>simp_all add: commandSchema_def\<close>)
qed

lemma parseCommand_success_valid:
  "parseCommand rt input = Inr (ParseSuccess c) \<Longrightarrow> valid_command c"
  by (auto simp: parseCommand_def split: option.splits sum.splits
      dest: commandSchema_valid)

section \<open>The issues of a schema stand at the members where the object offends\<close>

lemma issues_of_simps [simp]: "issues_of (Inl e) = e" "issues_of (Inr x) = []"
  by (simp_all add: issues_of_def)

lemma issues_of_and_field: "issues_of (and_field f x) = issues_of f @ issues_of x"
  by (cases f; cases x) (simp_all add: and_field_def)

lemma failure_of_issues: "issues_of r \<noteq> [] \<Longrightarrow> r = Inl (issues_of r)"
  by (cases r) simp_all

lemma issues_of_as_command: "issues_of (as_command tag s p v) = issues_of (s p v)"
  by (cases "s p v") (simp_all add: as_command_def)

lemma issues_of_commandSchema:
  "map_of kvs ''action'' = Some (JStr tag) \<Longrightarrow>
   issues_of (commandSchema p (Some (JObj kvs))) =
     (case map_of command_options tag of
        Some s \<Rightarrow> issues_of (s p (Some (JObj kvs)))
      | None \<Rightarrow> [Issue (p @ [''action''])
                  (invalid_union_discriminator (map fst command_options))])"
  by (simp add: commandSchema_def discriminator_def split: option.splits)

lemma offends_at_top:
  "offends_at kvs ([n], k, r) = (case map_of kvs n of None \<Rightarrow> r | Some v \<Rightarrow> \<not> conforms k v)"
  by (simp add: offends_at_def split: option.splits)

lemma offends_at_nested:
  "offends_at kvs ([n, m], k, r) =
     (case map_of kvs n of
        Some (JObj holder) \<Rightarrow>
          (case map_of holder m of None \<Rightarrow> r | Some v \<Rightarrow> \<not> conforms k v)
      | _ \<Rightarrow> False)"
  by (simp add: offends_at_def split: option.splits json.splits)

lemma offends_set:
  "{q. offends tag kvs q} = (\<Union>m \<in> set (members_of tag). if offends_at kvs m then {fst m} else {})"
  by (auto simp: offends_def list_ex_iff split: if_splits)

lemma paths_string:
  "issue_path ` set (issues_of (z_string k q v)) =
     (if (case v of None \<Rightarrow> True | Some j \<Rightarrow> \<not> conforms (K_string k) j) then {q} else {})"
  by (cases v; cases "the v") (auto simp: z_string_def)

lemma paths_checks:
  "issue_path ` set (concat (map (check_number q n) cs)) =
     (if list_all (in_bound n) cs then {} else {q})"
proof (induction cs)
  case Nil
  then show ?case by simp
next
  case (Cons c cs)
  then show ?case by (cases c) (auto simp: image_Un)
qed

lemma paths_number:
  "issue_path ` set (issues_of (z_number cs q v)) =
     (if (case v of None \<Rightarrow> True | Some j \<Rightarrow> \<not> conforms (K_number cs) j) then {q} else {})"
proof (cases v)
  case None
  then show ?thesis by (simp add: z_number_def)
next
  case (Some j)
  show ?thesis
  proof (cases j)
    case (JNum n)
    show ?thesis
      using paths_checks [of q n cs]
      by (cases "concat (map (check_number q n) cs) = []")
        (auto simp: Some JNum z_number_def Let_def simp del: check_number.simps
          split: if_splits)
  qed (simp_all add: Some z_number_def)
qed

lemma paths_boolean:
  "issue_path ` set (issues_of (z_boolean q v)) =
     (if (case v of None \<Rightarrow> True | Some j \<Rightarrow> \<not> conforms K_boolean j) then {q} else {})"
  by (cases v; cases "the v") (auto simp: z_boolean_def)

lemma paths_enum:
  "issue_path ` set (issues_of (z_enum options q v)) =
     (if (case v of None \<Rightarrow> True | Some j \<Rightarrow> \<not> conforms (K_enum (map fst options)) j)
      then {q} else {})"
proof (cases v)
  case None
  then show ?thesis by (simp add: z_enum_def)
next
  case (Some j)
  show ?thesis
  proof (cases j)
    case (JStr s)
    show ?thesis
    proof (cases "map_of options s")
      case None
      then have "s \<notin> set (map fst options)"
        by (simp add: map_of_eq_None_iff)
      with None show ?thesis
        by (simp add: \<open>v = Some j\<close> JStr z_enum_def)
    next
      case (Some x)
      then have "s \<in> set (map fst options)"
        by (auto dest!: map_of_SomeD intro: rev_image_eqI)
      with Some show ?thesis
        by (simp add: \<open>v = Some j\<close> JStr z_enum_def)
    qed
  qed (simp_all add: Some z_enum_def)
qed

lemma paths_unknowns:
  "issue_path ` set (issues_of (z_array_unknown q v)) =
     (if (case v of None \<Rightarrow> True | Some j \<Rightarrow> \<not> conforms K_unknowns j) then {q} else {})"
  by (cases v; cases "the v") (auto simp: z_array_unknown_def)

lemma parse_elements_strings_iff:
  "(\<exists>r. parse_elements (z_string 0) q i xs = Inr r) \<longleftrightarrow> list_all is_string xs"
proof (induction xs arbitrary: i)
  case Nil
  then show ?case by simp
next
  case (Cons x xs)
  show ?case
  proof (cases "is_string x")
    case True
    then obtain s where x: "x = JStr s" by (cases x) simp_all
    have "z_string 0 (q @ [show_nat i]) (Some x) = Inr s"
      by (simp add: x z_string_def)
    then show ?thesis
      using Cons [of "Suc i"]
      by (cases "parse_elements (z_string 0) q (Suc i) xs") (auto simp: and_field_def x)
  next
    case False
    then obtain e where "z_string 0 (q @ [show_nat i]) (Some x) = Inl e"
      by (cases x) (simp_all add: z_string_def)
    with False show ?thesis
      by (cases "parse_elements (z_string 0) q (Suc i) xs") (simp_all add: and_field_def)
  qed
qed

lemma paths_values:
  "issue_path ` set (issues_of (z_union (z_string 0) (z_array (z_string 0)) q v)) =
     (if (case v of None \<Rightarrow> True | Some j \<Rightarrow> \<not> conforms K_values j) then {q} else {})"
proof (cases v)
  case None
  then show ?thesis by (simp add: z_union_def z_string_def z_array_def)
next
  case (Some j)
  show ?thesis
  proof (cases j)
    case (JArr xs)
    show ?thesis
      using parse_elements_strings_iff [of q 0 xs]
      by (cases "parse_elements (z_string 0) q 0 xs")
        (auto simp: Some JArr z_union_def z_string_def z_array_def)
  qed (simp_all add: Some z_union_def z_string_def z_array_def)
qed

lemma paths_optional:
  "issue_path ` set (issues_of (z_optional s q v)) =
     (case v of None \<Rightarrow> {} | Some j \<Rightarrow> issue_path ` set (issues_of (s q v)))"
  by (cases v; cases "s q v") (simp_all add: z_optional_def)

lemma member_string:
  "issue_path ` set (issues_of (field (z_string k) n [] kvs)) =
     (if offends_at kvs ([n], K_string k, True) then {[n]} else {})"
  "issue_path ` set (issues_of (field (z_optional (z_string k)) n [] kvs)) =
     (if offends_at kvs ([n], K_string k, False) then {[n]} else {})"
  by (simp_all add: field_def paths_optional paths_string offends_at_top split: option.splits)

lemma member_number:
  "issue_path ` set (issues_of (field (z_number cs) n [] kvs)) =
     (if offends_at kvs ([n], K_number cs, True) then {[n]} else {})"
  "issue_path ` set (issues_of (field (z_optional (z_number cs)) n [] kvs)) =
     (if offends_at kvs ([n], K_number cs, False) then {[n]} else {})"
  by (simp_all add: field_def paths_optional paths_number offends_at_top split: option.splits)

lemma member_boolean:
  "issue_path ` set (issues_of (field (z_optional z_boolean) n [] kvs)) =
     (if offends_at kvs ([n], K_boolean, False) then {[n]} else {})"
  by (simp_all add: field_def paths_optional paths_boolean offends_at_top split: option.splits)

lemma member_enum:
  "issue_path ` set (issues_of (field (z_optional (z_enum options)) n [] kvs)) =
     (if offends_at kvs ([n], K_enum (map fst options), False) then {[n]} else {})"
  by (simp_all add: field_def paths_optional paths_enum offends_at_top split: option.splits)

lemma member_unknowns:
  "issue_path ` set (issues_of (field (z_optional z_array_unknown) n [] kvs)) =
     (if offends_at kvs ([n], K_unknowns, False) then {[n]} else {})"
  by (simp_all add: field_def paths_optional paths_unknowns offends_at_top split: option.splits)

lemma member_values:
  "issue_path ` set (issues_of (field (z_union (z_string 0) (z_array (z_string 0))) n [] kvs)) =
     (if offends_at kvs ([n], K_values, True) then {[n]} else {})"
  by (simp_all add: field_def paths_values offends_at_top split: option.splits)

lemma paths_viewport:
  "issue_path ` set (issues_of (viewportSchema q (Some (JObj holder)))) =
     (if (case map_of holder ''width'' of
            None \<Rightarrow> True | Some j \<Rightarrow> \<not> conforms (K_number [GreaterThan 0]) j)
      then {q @ [''width'']} else {}) \<union>
     (if (case map_of holder ''height'' of
            None \<Rightarrow> True | Some j \<Rightarrow> \<not> conforms (K_number [GreaterThan 0]) j)
      then {q @ [''height'']} else {})"
  by (simp add: viewportSchema_def z_object_def issues_of_and_field field_def image_Un
      paths_number)

lemma member_viewport:
  "issue_path ` set (issues_of (field (z_optional viewportSchema) ''viewport'' [] kvs)) =
     (\<Union>m \<in> set viewport_members. if offends_at kvs m then {fst m} else {})"
proof (cases "map_of kvs ''viewport''")
  case None
  then show ?thesis
    by (simp add: field_def paths_optional viewport_members_def offends_at_top offends_at_nested)
next
  case (Some j)
  show ?thesis
  proof (cases j)
    case (JObj holder)
    show ?thesis
      by (simp add: field_def paths_optional viewport_members_def offends_at_top offends_at_nested
          Some JObj paths_viewport Un_assoc)
  qed (simp_all add: field_def paths_optional viewport_members_def offends_at_top offends_at_nested
      Some viewportSchema_def z_object_def)
qed

lemma member_base:
  "map_of kvs ''action'' = Some (JStr lit) \<Longrightarrow>
   issue_path ` set (issues_of (baseCommandSchema_extend lit mk [] kvs)) =
     (if offends_at kvs ([''id''], K_string 0, True) then {[''id'']} else {})"
  by (simp add: baseCommandSchema_extend_def issues_of_and_field image_Un member_string
      field_def [of "z_literal lit"] z_literal_def)

lemmas member_paths = z_object_def issues_of_and_field image_Un member_base member_string
  member_number member_boolean member_enum member_unknowns member_values member_viewport
  offends_set members_of_def member_table_def Un_assoc

lemma launch_paths:
  "map_of kvs ''action'' = Some (JStr ''launch'') \<Longrightarrow>
   issue_path ` set (issues_of (launchSchema [] (Some (JObj kvs)))) = {q. offends ''launch'' kvs q}"
  by (simp add: launchSchema_def member_paths)

lemma navigate_paths:
  "map_of kvs ''action'' = Some (JStr ''navigate'') \<Longrightarrow>
   issue_path ` set (issues_of (navigateSchema [] (Some (JObj kvs)))) = {q. offends ''navigate'' kvs q}"
  by (simp add: navigateSchema_def member_paths)

lemma click_paths:
  "map_of kvs ''action'' = Some (JStr ''click'') \<Longrightarrow>
   issue_path ` set (issues_of (clickSchema [] (Some (JObj kvs)))) = {q. offends ''click'' kvs q}"
  by (simp add: clickSchema_def member_paths)

lemma type_paths:
  "map_of kvs ''action'' = Some (JStr ''type'') \<Longrightarrow>
   issue_path ` set (issues_of (typeSchema [] (Some (JObj kvs)))) = {q. offends ''type'' kvs q}"
  by (simp add: typeSchema_def member_paths)

lemma press_paths:
  "map_of kvs ''action'' = Some (JStr ''press'') \<Longrightarrow>
   issue_path ` set (issues_of (pressSchema [] (Some (JObj kvs)))) = {q. offends ''press'' kvs q}"
  by (simp add: pressSchema_def member_paths)

lemma screenshot_paths:
  "map_of kvs ''action'' = Some (JStr ''screenshot'') \<Longrightarrow>
   issue_path ` set (issues_of (screenshotSchema [] (Some (JObj kvs)))) = {q. offends ''screenshot'' kvs q}"
  by (simp add: screenshotSchema_def member_paths)

lemma snapshot_paths:
  "map_of kvs ''action'' = Some (JStr ''snapshot'') \<Longrightarrow>
   issue_path ` set (issues_of (snapshotSchema [] (Some (JObj kvs)))) = {q. offends ''snapshot'' kvs q}"
  by (simp add: snapshotSchema_def member_paths)

lemma evaluate_paths:
  "map_of kvs ''action'' = Some (JStr ''evaluate'') \<Longrightarrow>
   issue_path ` set (issues_of (evaluateSchema [] (Some (JObj kvs)))) = {q. offends ''evaluate'' kvs q}"
  by (simp add: evaluateSchema_def member_paths)

lemma wait_paths:
  "map_of kvs ''action'' = Some (JStr ''wait'') \<Longrightarrow>
   issue_path ` set (issues_of (waitSchema [] (Some (JObj kvs)))) = {q. offends ''wait'' kvs q}"
  by (simp add: waitSchema_def member_paths)

lemma scroll_paths:
  "map_of kvs ''action'' = Some (JStr ''scroll'') \<Longrightarrow>
   issue_path ` set (issues_of (scrollSchema [] (Some (JObj kvs)))) = {q. offends ''scroll'' kvs q}"
  by (simp add: scrollSchema_def member_paths)

lemma select_paths:
  "map_of kvs ''action'' = Some (JStr ''select'') \<Longrightarrow>
   issue_path ` set (issues_of (selectSchema [] (Some (JObj kvs)))) = {q. offends ''select'' kvs q}"
  by (simp add: selectSchema_def member_paths)

lemma hover_paths:
  "map_of kvs ''action'' = Some (JStr ''hover'') \<Longrightarrow>
   issue_path ` set (issues_of (hoverSchema [] (Some (JObj kvs)))) = {q. offends ''hover'' kvs q}"
  by (simp add: hoverSchema_def member_paths)

lemma content_paths:
  "map_of kvs ''action'' = Some (JStr ''content'') \<Longrightarrow>
   issue_path ` set (issues_of (contentSchema [] (Some (JObj kvs)))) = {q. offends ''content'' kvs q}"
  by (simp add: contentSchema_def member_paths)

lemma close_paths:
  "map_of kvs ''action'' = Some (JStr ''close'') \<Longrightarrow>
   issue_path ` set (issues_of (closeSchema [] (Some (JObj kvs)))) = {q. offends ''close'' kvs q}"
  by (simp add: closeSchema_def member_paths)

lemma tabNew_paths:
  "map_of kvs ''action'' = Some (JStr ''tab_new'') \<Longrightarrow>
   issue_path ` set (issues_of (tabNewSchema [] (Some (JObj kvs)))) = {q. offends ''tab_new'' kvs q}"
  by (simp add: tabNewSchema_def member_paths)

lemma tabList_paths:
  "map_of kvs ''action'' = Some (JStr ''tab_list'') \<Longrightarrow>
   issue_path ` set (issues_of (tabListSchema [] (Some (JObj kvs)))) = {q. offends ''tab_list'' kvs q}"
  by (simp add: tabListSchema_def member_paths)

lemma tabSwitch_paths:
  "map_of kvs ''action'' = Some (JStr ''tab_switch'') \<Longrightarrow>
   issue_path ` set (issues_of (tabSwitchSchema [] (Some (JObj kvs)))) = {q. offends ''tab_switch'' kvs q}"
  by (simp add: tabSwitchSchema_def member_paths)

lemma tabClose_paths:
  "map_of kvs ''action'' = Some (JStr ''tab_close'') \<Longrightarrow>
   issue_path ` set (issues_of (tabCloseSchema [] (Some (JObj kvs)))) = {q. offends ''tab_close'' kvs q}"
  by (simp add: tabCloseSchema_def member_paths)

lemma windowNew_paths:
  "map_of kvs ''action'' = Some (JStr ''window_new'') \<Longrightarrow>
   issue_path ` set (issues_of (windowNewSchema [] (Some (JObj kvs)))) = {q. offends ''window_new'' kvs q}"
  by (simp add: windowNewSchema_def member_paths)

lemmas schema_paths = launch_paths navigate_paths click_paths type_paths press_paths screenshot_paths snapshot_paths evaluate_paths wait_paths scroll_paths select_paths hover_paths content_paths close_paths tabNew_paths tabList_paths tabSwitch_paths tabClose_paths windowNew_paths

lemma catalogue_paths:
  assumes a: "map_of kvs ''action'' = Some (JStr tag)"
    and t: "tag \<in> set (map fst command_options)"
  shows "issue_path ` set (issues_of (commandSchema [] (Some (JObj kvs)))) = {q. offends tag kvs q}"
  using t a unfolding issues_of_commandSchema [OF a]
  apply (simp add: command_options_def)
  apply (elim disjE)
  apply (simp_all add: issues_of_as_command schema_paths)
  done

lemma outside_catalogue:
  "map_of kvs ''action'' = Some (JStr tag) \<Longrightarrow> tag \<notin> set (map fst command_options) \<Longrightarrow>
   commandSchema [] (Some (JObj kvs)) =
     Inl [Issue [''action''] (invalid_union_discriminator (map fst command_options))]"
proof -
  assume a: "map_of kvs ''action'' = Some (JStr tag)"
    and "tag \<notin> set (map fst command_options)"
  then have "map_of command_options tag = None"
    by (simp add: map_of_eq_None_iff)
  with a show ?thesis
    by (simp add: commandSchema_def discriminator_def)
qed

lemma catalogue_members: "map fst member_table = map fst command_options"
  by (simp add: member_table_def command_options_def)

lemma offends_catalogue: "offends tag kvs path \<Longrightarrow> tag \<in> set (map fst command_options)"
proof -
  assume "offends tag kvs path"
  then have "members_of tag \<noteq> []"
    by (auto simp: offends_def)
  then have "map_of member_table tag \<noteq> None"
    by (auto simp: members_of_def split: option.splits)
  then have "tag \<in> fst ` set member_table"
    by (simp add: map_of_eq_None_iff)
  then show ?thesis
    using catalogue_members by (metis list.set_map)
qed

lemma offending_issue:
  assumes "map_of kvs ''action'' = Some (JStr tag)" and "offends tag kvs path"
  shows "\<exists>code. Issue path code \<in> set (issues_of (commandSchema [] (Some (JObj kvs))))"
proof -
  from assms(2) have "tag \<in> set (map fst command_options)"
    by (rule offends_catalogue)
  from catalogue_paths [OF assms(1) this] assms(2)
  have "path \<in> issue_path ` set (issues_of (commandSchema [] (Some (JObj kvs))))"
    by simp
  then obtain e where e: "e \<in> set (issues_of (commandSchema [] (Some (JObj kvs))))"
    "issue_path e = path"
    by auto
  have "Issue (issue_path e) (issue_code e) = e" by simp
  with e show ?thesis by metis
qed

lemma sublist_join: "e \<in> set xs \<Longrightarrow> sublist e (join sep xs)"
proof (induction sep xs rule: join.induct)
  case (1 sep)
  then show ?case by simp
next
  case (2 sep x)
  then show ?case by simp
next
  case (3 sep x y ys)
  show ?case
  proof (cases "e = x")
    case True
    then show ?thesis
      unfolding sublist_def by (intro exI [of _ "[]"] exI [of _ "sep @ join sep (y # ys)"]) simp
  next
    case False
    with 3 have "sublist e (join sep (y # ys))" by simp
    then obtain ps ss where "join sep (y # ys) = ps @ e @ ss"
      unfolding sublist_def by blast
    then have "join sep (x # y # ys) = (x @ sep @ ps) @ e @ ss" by simp
    then show ?thesis unfolding sublist_def by blast
  qed
qed

lemma issue_is_named:
  assumes "e \<in> set es"
  shows "sublist (join ''.'' (issue_path e) @ '': '' @ zod_message rt (issue_code e))
           (validation_error rt es)"
proof -
  have "sublist (render_issue rt e) (join '', '' (map (render_issue rt) es))"
    using assms by (intro sublist_join) simp
  then obtain ps ss where "join '', '' (map (render_issue rt) es) = ps @ render_issue rt e @ ss"
    unfolding sublist_def by blast
  then have "validation_error rt es = (''Validation error: '' @ ps) @ render_issue rt e @ ss"
    by (simp add: validation_error_def)
  then have "sublist (render_issue rt e) (validation_error rt es)"
    unfolding sublist_def by blast
  then show ?thesis by (simp add: render_issue_def)
qed

text \<open>
  C3. For every input that parses to an object whose action tag is in the catalogue and
  that offends at a path (it omits a member its schema requires, or gives a member a
  value that is not what the schema asks of it), \<open>parseCommand\<close> never returns a
  command, so there is no run of \<open>executeCommand\<close> on a command decoded from that
  input, whatever the capability and its state. When the id of the object is absent or
  converts to a string, \<open>parseCommand\<close> returns a failure: its issues include one at
  that path, and its error message contains the path followed by that issue's message.
  When the conversion of the id throws (the id is an object with a member \<open>toString\<close>,
  say), \<open>parseCommand\<close> returns no failure: the exception leaves it, and no message
  names the member.
\<close>

theorem offending_field_is_named_unless_id_throws:
  assumes "JSON_parse rt input = Some (JObj kvs)"
    and "map_of kvs ''action'' = Some (JStr tag)"
    and "offends tag kvs path"
  shows "(\<forall>c. parseCommand rt input \<noteq> Inr (ParseSuccess c)) \<and>
         (case parseCommand rt input of
            Inr (ParseSuccess c) \<Rightarrow> Some (executeCommand pf c browser s)
          | _ \<Rightarrow> None) = None \<and>
         (\<forall>i. extract_id rt (JObj kvs) = Inr i \<longrightarrow>
            (\<exists>es code.
               parseCommand rt input = Inr (ParseFailure (validation_error rt es) i) \<and>
               Issue path code \<in> set es \<and>
               sublist (join ''.'' path @ '': '' @ zod_message rt code)
                 (validation_error rt es))) \<and>
         (\<forall>e. extract_id rt (JObj kvs) = Inl e \<longrightarrow> parseCommand rt input = Inl e)"
proof -
  let ?es = "issues_of (commandSchema [] (Some (JObj kvs)))"
  from assms(2,3) obtain code where code: "Issue path code \<in> set ?es"
    using offending_issue by blast
  then have "?es \<noteq> []" by auto
  then have "commandSchema [] (Some (JObj kvs)) = Inl ?es"
    by (rule failure_of_issues)
  then obtain es where f: "commandSchema [] (Some (JObj kvs)) = Inl es" and es: "?es = es"
    by simp
  have n: "sublist (join ''.'' path @ '': '' @ zod_message rt code) (validation_error rt ?es)"
    using issue_is_named [OF code, of rt] by simp
  have 1: "\<forall>c. parseCommand rt input \<noteq> Inr (ParseSuccess c)"
    using assms(1) f by (simp add: parseCommand_def split: sum.splits)
  have 2: "\<forall>i. extract_id rt (JObj kvs) = Inr i \<longrightarrow>
            (\<exists>es code.
               parseCommand rt input = Inr (ParseFailure (validation_error rt es) i) \<and>
               Issue path code \<in> set es \<and>
               sublist (join ''.'' path @ '': '' @ zod_message rt code)
                 (validation_error rt es))"
  proof (intro allI impI)
    fix i
    assume "extract_id rt (JObj kvs) = Inr i"
    with assms(1) f
    have "parseCommand rt input = Inr (ParseFailure (validation_error rt ?es) i)"
      by (simp add: parseCommand_def es)
    with code n show "\<exists>es code.
               parseCommand rt input = Inr (ParseFailure (validation_error rt es) i) \<and>
               Issue path code \<in> set es \<and>
               sublist (join ''.'' path @ '': '' @ zod_message rt code)
                 (validation_error rt es)"
      by blast
  qed
  have 3: "\<forall>e. extract_id rt (JObj kvs) = Inl e \<longrightarrow> parseCommand rt input = Inl e"
    using assms(1) by (simp add: parseCommand_def)
  from 1 have 4: "(case parseCommand rt input of
            Inr (ParseSuccess c) \<Rightarrow> Some (executeCommand pf c browser s)
          | _ \<Rightarrow> None) = None"
    by (auto split: sum.splits parse_result.splits)
  from 1 2 3 4 show ?thesis by blast
qed

lemmas run_offends = offends_def members_of_def member_table_def viewport_members_def
  offends_at_def

theorem offending_field_is_named_unless_id_throws_witness:
  \<open>offends ''navigate''
     [(''id'', JObj [(''toString'', JNum 1)]), (''action'', JStr ''navigate'')] [''url''] \<and>
   parseCommand
     (scripted_runtime
       [(''{"id":{"toString":1},"action":"navigate"}'',
         JObj [(''id'', JObj [(''toString'', JNum 1)]), (''action'', JStr ''navigate'')])])
     ''{"id":{"toString":1},"action":"navigate"}''
   = Inl TypeError \<and>
   offends ''navigate'' [(''id'', JStr ''r2''), (''action'', JStr ''navigate'')] [''url''] \<and>
   (\<exists>es code.
      parseCommand
        (scripted_runtime
          [(''{"id":"r2","action":"navigate"}'',
            JObj [(''id'', JStr ''r2''), (''action'', JStr ''navigate'')])])
        ''{"id":"r2","action":"navigate"}''
      = Inr (ParseFailure
          (validation_error
            (scripted_runtime
              [(''{"id":"r2","action":"navigate"}'',
                JObj [(''id'', JStr ''r2''), (''action'', JStr ''navigate'')])]) es)
          (Some ''r2'')) \<and>
      Issue [''url''] code \<in> set es) \<and>
   parseCommand
     (scripted_runtime
       [(''{"id":"r2","action":"navigate"}'',
         JObj [(''id'', JStr ''r2''), (''action'', JStr ''navigate'')])])
     ''{"id":"r2","action":"navigate"}''
   = Inr (ParseFailure ''Validation error: url: Required'' (Some ''r2'')) \<and>
   offends ''click''
     [(''id'', JStr ''r3''), (''action'', JStr ''click''), (''selector'', JStr [])]
     [''selector''] \<and>
   parseCommand
     (scripted_runtime
       [(''{"id":"r3","action":"click","selector":""}'',
         JObj [(''id'', JStr ''r3''), (''action'', JStr ''click''), (''selector'', JStr [])])])
     ''{"id":"r3","action":"click","selector":""}''
   = Inr (ParseFailure
       ''Validation error: selector: String must contain at least 1 character(s)''
       (Some ''r3''))\<close>
proof -
  let ?bad = "[(''id'', JObj [(''toString'', JNum 1)]), (''action'', JStr ''navigate'')]"
  let ?rt = \<open>scripted_runtime [(''{"id":{"toString":1},"action":"navigate"}'', JObj ?bad)]\<close>
  have o: "offends ''navigate'' ?bad [''url'']"
    by (simp add: run_offends)
  have p: \<open>JSON_parse ?rt ''{"id":{"toString":1},"action":"navigate"}'' = Some (JObj ?bad)\<close>
    by (simp add: scripted_runtime_def)
  have a: "map_of ?bad ''action'' = Some (JStr ''navigate'')" by simp
  have e: "extract_id ?rt (JObj ?bad) = Inl TypeError"
    by (simp add: extract_id_def)
  from offending_field_is_named_unless_id_throws
    [OF p a o, where pf = engine_platform and browser = "engine_manager RejectLast"
      and s = engine_start] e
  have 1: \<open>parseCommand ?rt ''{"id":{"toString":1},"action":"navigate"}'' = Inl TypeError\<close>
    by blast
  let ?kvs = "[(''id'', JStr ''r2''), (''action'', JStr ''navigate'')]"
  let ?rt2 = \<open>scripted_runtime [(''{"id":"r2","action":"navigate"}'', JObj ?kvs)]\<close>
  have o2: "offends ''navigate'' ?kvs [''url'']"
    by (simp add: run_offends)
  have p2: \<open>JSON_parse ?rt2 ''{"id":"r2","action":"navigate"}'' = Some (JObj ?kvs)\<close>
    by (simp add: scripted_runtime_def)
  have a2: "map_of ?kvs ''action'' = Some (JStr ''navigate'')" by simp
  have e2: "extract_id ?rt2 (JObj ?kvs) = Inr (Some ''r2'')"
    by (simp add: extract_id_def)
  from offending_field_is_named_unless_id_throws
    [OF p2 a2 o2, where pf = engine_platform and browser = "engine_manager RejectLast"
      and s = engine_start] e2
  have x: \<open>\<exists>es code. parseCommand ?rt2 ''{"id":"r2","action":"navigate"}''
      = Inr (ParseFailure (validation_error ?rt2 es) (Some ''r2'')) \<and>
      Issue [''url''] code \<in> set es\<close>
    by blast
  have 2: \<open>parseCommand
     (scripted_runtime
       [(''{"id":"r2","action":"navigate"}'',
         JObj [(''id'', JStr ''r2''), (''action'', JStr ''navigate'')])])
     ''{"id":"r2","action":"navigate"}''
     = Inr (ParseFailure ''Validation error: url: Required'' (Some ''r2''))\<close>
    by (simp add: run_parse)
  have o3: "offends ''click''
     [(''id'', JStr ''r3''), (''action'', JStr ''click''), (''selector'', JStr [])] [''selector'']"
    by (simp add: run_offends)
  have 3: \<open>parseCommand
     (scripted_runtime
       [(''{"id":"r3","action":"click","selector":""}'',
         JObj [(''id'', JStr ''r3''), (''action'', JStr ''click''), (''selector'', JStr [])])])
     ''{"id":"r3","action":"click","selector":""}''
   = Inr (ParseFailure
       ''Validation error: selector: String must contain at least 1 character(s)''
       (Some ''r3''))\<close>
    by (simp add: run_parse show_nat.simps digit_char_def)
  from o 1 o2 x 2 o3 3 show ?thesis by blast
qed

section \<open>The two classes of parse failures\<close>

lemma placed_at_Inr: "placed_at p (Inr x)"
  by (simp add: placed_at_def)

lemma placed_at_single: "placed_at p (Inl [Issue p c])"
  by (simp add: placed_at_def)

lemma placed_at_string: "placed_at p (z_string k p v)"
  by (simp add: z_string_def placed_at_def split: option.splits json.splits)

lemma check_number_path: "e \<in> set (check_number p n c) \<Longrightarrow> issue_path e = p"
  by (cases c) (auto split: if_splits)

lemma placed_at_checks: "\<forall>e \<in> set (concat (map (check_number p n) cs)). issue_path e = p"
  by (auto dest: check_number_path)

lemma placed_at_number: "placed_at p (z_number cs p v)"
  using placed_at_checks [of p _ cs]
  by (auto simp: z_number_def placed_at_def Let_def split: option.splits json.splits)

lemma placed_at_boolean: "placed_at p (z_boolean p v)"
  by (simp add: z_boolean_def placed_at_def split: option.splits json.splits)

lemma placed_at_enum: "placed_at p (z_enum options p v)"
  by (simp add: z_enum_def placed_at_def split: option.splits json.splits)

lemma placed_at_literal: "placed_at p (z_literal lit p v)"
  by (simp add: z_literal_def placed_at_def split: option.splits json.splits)

lemma placed_at_array_unknown: "placed_at p (z_array_unknown p v)"
  by (simp add: z_array_unknown_def placed_at_def split: option.splits json.splits)

lemma placed_at_union: "placed_at p (z_union a b p v)"
  by (simp add: z_union_def placed_at_def split: sum.splits)

lemma placed_at_optional: "placed_at p (s p v) \<Longrightarrow> placed_at p (z_optional s p v)"
  by (cases v) (auto simp: z_optional_def placed_at_def split: sum.splits)

lemma placed_below_and_field:
  "placed_below p f \<Longrightarrow> placed_below p x \<Longrightarrow> placed_below p (and_field f x)"
  by (auto simp: placed_below_def and_field_def split: sum.splits)

lemma placed_below_Inr: "placed_below p (Inr x)"
  by (simp add: placed_below_def)

lemma placed_below_field:
  "placed_at (p @ [k]) (s (p @ [k]) (map_of kvs k)) \<Longrightarrow> placed_below p (field s k p kvs)"
  by (auto simp: placed_at_def placed_below_def field_def strict_prefix_def prefix_def
      split: sum.splits)

lemma placed_below_at: "placed_below p r \<Longrightarrow> placed_at p r"
  by (auto simp: placed_at_def placed_below_def strict_prefix_def split: sum.splits)

lemma placed_at_object:
  assumes "\<And>kvs. placed_below p (members p kvs)"
  shows "placed_at p (z_object members p v)"
proof (cases v)
  case None
  then show ?thesis by (simp add: z_object_def placed_at_def)
next
  case (Some j)
  show ?thesis
  proof (cases j)
    case (JObj kvs)
    with Some assms [of kvs] show ?thesis
      by (simp add: z_object_def placed_below_at)
  qed (simp_all add: Some z_object_def placed_at_def)
qed

lemma placed_below_object:
  "placed_below p (members p kvs) \<Longrightarrow> placed_below p (z_object members p (Some (JObj kvs)))"
  by (simp add: z_object_def)

lemma placed_at_viewport: "placed_at p (viewportSchema p v)"
  unfolding viewportSchema_def
  by (intro placed_at_object placed_below_and_field placed_below_Inr placed_below_field
      placed_at_number)

lemma placed_below_base: "placed_below p (baseCommandSchema_extend lit mk p kvs)"
  unfolding baseCommandSchema_extend_def
  by (intro placed_below_and_field placed_below_Inr placed_below_field placed_at_string
      placed_at_literal)

lemmas placed_rules = placed_below_object placed_below_and_field placed_below_base
  placed_below_field placed_at_optional placed_at_string placed_at_number placed_at_boolean
  placed_at_enum placed_at_array_unknown placed_at_union placed_at_viewport

lemma placed_below_as_command:
  "placed_below p (s p v) \<Longrightarrow> placed_below p (as_command tag s p v)"
  by (simp add: as_command_def placed_below_def split: sum.splits)

lemma placed_below_options:
  "map_of command_options tag = Some s \<Longrightarrow> placed_below p (s p (Some (JObj kvs)))"
  unfolding command_options_def
  by (auto simp: schema_defs split: if_splits intro!: placed_below_as_command placed_rules)

lemma placed_below_commandSchema: "placed_below p (commandSchema p (Some (JObj kvs)))"
proof (cases "Option.bind (discriminator kvs) (map_of command_options)")
  case None
  then show ?thesis
    by (simp add: commandSchema_def placed_below_def strict_prefix_def)
next
  case (Some s)
  then obtain tag where "map_of command_options tag = Some s"
    by (auto simp: bind_eq_Some_conv)
  then have "placed_below p (s p (Some (JObj kvs)))"
    by (rule placed_below_options)
  with Some show ?thesis
    by (simp add: commandSchema_def)
qed

lemma issue_at_iff: "(\<exists>code. Issue q code \<in> set es) \<longleftrightarrow> q \<in> issue_path ` set es"
proof
  assume "\<exists>code. Issue q code \<in> set es"
  then obtain code where "Issue q code \<in> set es" by blast
  then have "issue_path (Issue q code) \<in> issue_path ` set es" by (rule imageI)
  then show "q \<in> issue_path ` set es" by simp
next
  assume "q \<in> issue_path ` set es"
  then obtain e where e: "e \<in> set es" "issue_path e = q" by auto
  have "Issue (issue_path e) (issue_code e) = e" by simp
  with e show "\<exists>code. Issue q code \<in> set es" by metis
qed

text \<open>
  C4. \<open>parseCommand\<close> has two classes of failure, and a third outcome. An input that
  does not parse as JSON gives the error \<open>Invalid JSON\<close> and no id. An input that
  parses to an object with a member \<open>id\<close> and fails the schema gives, when the id
  converts to a string, a failure that carries the converted id (a string id is kept as
  it is); the failure has at least one issue, every issue has a non-empty path, the
  error message contains each path followed by a colon and the message of the issue,
  and, when the action is in the catalogue, the paths of the issues are exactly the
  paths at which the object offends. When the conversion of the id throws (the id is an
  object with a member \<open>toString\<close>, say), \<open>parseCommand\<close> returns no error result:
  the exception leaves it, and no id is carried.
\<close>

theorem parseCommand_failure_classes_unless_id_throws:
  "(JSON_parse rt input = None \<longrightarrow>
      parseCommand rt input = Inr (ParseFailure ''Invalid JSON'' None)) \<and>
   (\<forall>kvs v es.
      JSON_parse rt input = Some (JObj kvs) \<and> map_of kvs ''id'' = Some v \<and>
      commandSchema [] (Some (JObj kvs)) = Inl es \<longrightarrow>
        (\<forall>i. js_String (Number_toString rt) v = Inr i \<longrightarrow>
           parseCommand rt input = Inr (ParseFailure (validation_error rt es) (Some i))) \<and>
        (\<forall>s. v = JStr s \<longrightarrow>
           parseCommand rt input = Inr (ParseFailure (validation_error rt es) (Some s))) \<and>
        (\<forall>e. js_String (Number_toString rt) v = Inl e \<longrightarrow> parseCommand rt input = Inl e) \<and>
        es \<noteq> [] \<and>
        (\<forall>e \<in> set es.
           issue_path e \<noteq> [] \<and>
           sublist (join ''.'' (issue_path e) @ '': '' @ zod_message rt (issue_code e))
             (validation_error rt es)) \<and>
        (\<forall>tag. map_of kvs ''action'' = Some (JStr tag) \<and>
               tag \<in> set (map fst command_options) \<longrightarrow>
           (\<forall>q. (\<exists>code. Issue q code \<in> set es) \<longleftrightarrow> offends tag kvs q)))"
proof (intro conjI allI impI)
  assume "JSON_parse rt input = None"
  then show "parseCommand rt input = Inr (ParseFailure ''Invalid JSON'' None)"
    by (simp add: parseCommand_def)
next
  fix kvs v es
  assume a: "JSON_parse rt input = Some (JObj kvs) \<and> map_of kvs ''id'' = Some v \<and>
      commandSchema [] (Some (JObj kvs)) = Inl es"
  from a placed_below_commandSchema [of "[]" kvs]
  have b: "es \<noteq> [] \<and> (\<forall>e \<in> set es. strict_prefix [] (issue_path e))"
    by (simp add: placed_below_def)
  show "es \<noteq> []" using b by simp
  show "\<forall>e \<in> set es.
           issue_path e \<noteq> [] \<and>
           sublist (join ''.'' (issue_path e) @ '': '' @ zod_message rt (issue_code e))
             (validation_error rt es)"
    using b issue_is_named by auto
  {
    fix i
    assume "js_String (Number_toString rt) v = Inr i"
    with a show "parseCommand rt input = Inr (ParseFailure (validation_error rt es) (Some i))"
      by (simp add: parseCommand_def extract_id_def)
  }
  {
    fix s
    assume "v = JStr s"
    with a show "parseCommand rt input = Inr (ParseFailure (validation_error rt es) (Some s))"
      by (simp add: parseCommand_def extract_id_def)
  }
  {
    fix e
    assume "js_String (Number_toString rt) v = Inl e"
    with a show "parseCommand rt input = Inl e"
      by (simp add: parseCommand_def extract_id_def)
  }
  {
    fix tag q
    assume t: "map_of kvs ''action'' = Some (JStr tag) \<and> tag \<in> set (map fst command_options)"
    from a have "issues_of (commandSchema [] (Some (JObj kvs))) = es" by simp
    with t catalogue_paths [of kvs tag] have "issue_path ` set es = {q. offends tag kvs q}"
      by simp
    then show "(\<exists>code. Issue q code \<in> set es) \<longleftrightarrow> offends tag kvs q"
      by (simp add: issue_at_iff)
  }
qed

theorem parseCommand_failure_classes_unless_id_throws_witness:
  \<open>JSON_parse (scripted_runtime []) ''{"id":"r4",'' = None \<and>
   parseCommand (scripted_runtime []) ''{"id":"r4",'' = Inr (ParseFailure ''Invalid JSON'' None) \<and>
   commandSchema []
     (Some (JObj [(''id'', JObj [(''toString'', JNum 1)]), (''action'', JStr ''click''),
                  (''selector'', JStr [])]))
     = Inl [Issue [''id''] (invalid_type ''string'' ZT_object),
            Issue [''selector''] (too_small_string 1)] \<and>
   js_String integer_text (JObj [(''toString'', JNum 1)]) = Inl TypeError \<and>
   parseCommand
     (scripted_runtime
        [(''{"id":{"toString":1},"action":"click","selector":""}'',
          JObj [(''id'', JObj [(''toString'', JNum 1)]), (''action'', JStr ''click''),
                (''selector'', JStr [])])])
     ''{"id":{"toString":1},"action":"click","selector":""}''
     = Inl TypeError \<and>
   commandSchema [] (Some (JObj [(''id'', JNum 7), (''action'', JStr ''click'')]))
     = Inl [Issue [''id''] (invalid_type ''string'' ZT_number),
            Issue [''selector''] (invalid_type ''string'' ZT_undefined)] \<and>
   parseCommand
     (scripted_runtime
        [(''{"id":7,"action":"click"}'', JObj [(''id'', JNum 7), (''action'', JStr ''click'')])])
     ''{"id":7,"action":"click"}''
     = Inr (ParseFailure
         ''Validation error: id: Expected string, received number, selector: Required''
         (Some ''7'')) \<and>
   offends ''click'' [(''id'', JNum 7), (''action'', JStr ''click'')] [''selector''] \<and>
   \<not> offends ''click'' [(''id'', JNum 7), (''action'', JStr ''click'')] [''button''] \<and>
   parseCommand
     (scripted_runtime
        [(''{"id":"r4","action":"click"}'',
          JObj [(''id'', JStr ''r4''), (''action'', JStr ''click'')])])
     ''{"id":"r4","action":"click"}''
     = Inr (ParseFailure ''Validation error: selector: Required'' (Some ''r4''))\<close>
proof -
  let ?bad = "[(''id'', JObj [(''toString'', JNum 1)]), (''action'', JStr ''click''),
               (''selector'', JStr [])]"
  let ?rtb = \<open>scripted_runtime
    [(''{"id":{"toString":1},"action":"click","selector":""}'', JObj ?bad)]\<close>
  let ?kvs = "[(''id'', JNum 7), (''action'', JStr ''click'')]"
  let ?rt = \<open>scripted_runtime [(''{"id":7,"action":"click"}'', JObj ?kvs)]\<close>
  let ?es = "[Issue [''id''] (invalid_type ''string'' ZT_number),
              Issue [''selector''] (invalid_type ''string'' ZT_undefined)]"
  have n: \<open>JSON_parse (scripted_runtime []) ''{"id":"r4",'' = None\<close>
    by (simp add: scripted_runtime_def)
  from parseCommand_failure_classes_unless_id_throws
    [of "scripted_runtime []" \<open>''{"id":"r4",''\<close>] n
  have 1: \<open>parseCommand (scripted_runtime []) ''{"id":"r4",''
             = Inr (ParseFailure ''Invalid JSON'' None)\<close>
    by blast
  have pb: \<open>JSON_parse ?rtb ''{"id":{"toString":1},"action":"click","selector":""}''
      = Some (JObj ?bad)\<close>
    by (simp add: scripted_runtime_def)
  have ib: "map_of ?bad ''id'' = Some (JObj [(''toString'', JNum 1)])" by simp
  have cb: "commandSchema [] (Some (JObj ?bad))
     = Inl [Issue [''id''] (invalid_type ''string'' ZT_object),
            Issue [''selector''] (too_small_string 1)]"
    by (simp add: run_parse)
  have sb: "js_String (Number_toString ?rtb) (JObj [(''toString'', JNum 1)]) = Inl TypeError"
    by simp
  from parseCommand_failure_classes_unless_id_throws
    [of ?rtb \<open>''{"id":{"toString":1},"action":"click","selector":""}''\<close>] pb ib cb sb
  have 2: \<open>parseCommand ?rtb ''{"id":{"toString":1},"action":"click","selector":""}''
             = Inl TypeError\<close>
    by blast
  have p: \<open>JSON_parse ?rt ''{"id":7,"action":"click"}'' = Some (JObj ?kvs)\<close>
    by (simp add: scripted_runtime_def)
  have i: "map_of ?kvs ''id'' = Some (JNum 7)" by simp
  have c: "commandSchema [] (Some (JObj ?kvs)) = Inl ?es"
    by (simp add: run_parse)
  have s: "js_String (Number_toString ?rt) (JNum 7) = Inr ''7''"
    by (simp add: scripted_runtime_def integer_text_def show_nat.simps digit_char_def)
  have v: "validation_error ?rt ?es
     = ''Validation error: id: Expected string, received number, selector: Required''"
    by (simp add: validation_error_def render_issue_def scripted_runtime_def)
  have t: "map_of ?kvs ''action'' = Some (JStr ''click'') \<and>
           ''click'' \<in> set (map fst command_options)"
    by (simp add: command_options_def)
  from parseCommand_failure_classes_unless_id_throws
    [of ?rt \<open>''{"id":7,"action":"click"}''\<close>] p i c s
  have 3: \<open>parseCommand ?rt ''{"id":7,"action":"click"}''
             = Inr (ParseFailure (validation_error ?rt ?es) (Some ''7''))\<close>
    by blast
  from parseCommand_failure_classes_unless_id_throws
    [of ?rt \<open>''{"id":7,"action":"click"}''\<close>] p i c t
  have 4: "\<forall>q. (\<exists>code. Issue q code \<in> set ?es) \<longleftrightarrow> offends ''click'' ?kvs q"
    by blast
  have 5: "offends ''click'' ?kvs [''selector'']"
    using spec [OF 4, of "[''selector'']"] by simp
  have 6: "\<not> offends ''click'' ?kvs [''button'']"
    using spec [OF 4, of "[''button'']"] by simp
  have 7: "js_String integer_text (JObj [(''toString'', JNum 1)]) = Inl TypeError"
    by simp
  from 3 have 8: \<open>parseCommand ?rt ''{"id":7,"action":"click"}''
     = Inr (ParseFailure
         ''Validation error: id: Expected string, received number, selector: Required''
         (Some ''7''))\<close>
    by (simp only: v)
  let ?ks = "[(''id'', JStr ''r4''), (''action'', JStr ''click'')]"
  let ?rs = \<open>scripted_runtime [(''{"id":"r4","action":"click"}'', JObj ?ks)]\<close>
  let ?ss = "[Issue [''selector''] (invalid_type ''string'' ZT_undefined)]"
  have ps: \<open>JSON_parse ?rs ''{"id":"r4","action":"click"}'' = Some (JObj ?ks)\<close>
    by (simp add: scripted_runtime_def)
  have ids: "map_of ?ks ''id'' = Some (JStr ''r4'')" by simp
  have cs: "commandSchema [] (Some (JObj ?ks)) = Inl ?ss"
    by (simp add: run_parse)
  have vs: "validation_error ?rs ?ss = ''Validation error: selector: Required''"
    by (simp add: validation_error_def render_issue_def scripted_runtime_def)
  from parseCommand_failure_classes_unless_id_throws
    [of ?rs \<open>''{"id":"r4","action":"click"}''\<close>] ps ids cs
  have \<open>parseCommand ?rs ''{"id":"r4","action":"click"}''
             = Inr (ParseFailure (validation_error ?rs ?ss) (Some ''r4''))\<close>
    by blast
  then have 9: \<open>parseCommand ?rs ''{"id":"r4","action":"click"}''
             = Inr (ParseFailure ''Validation error: selector: Required'' (Some ''r4''))\<close>
    by (simp only: vs)
  from n 1 cb 7 2 c 8 5 6 9 show ?thesis by blast
qed

section \<open>Running the handlers\<close>

lemmas run_engine = executeCommand_def and_then_def returns_def engine_manager_def
  engine_page_def engine_platform_def recorded_def engine_running_def successResponse_def
  errorResponse_def

section \<open>Closing the active tab\<close>

lemma closePage_active:
  "activeIndex s < length (pages s) \<Longrightarrow> 2 \<le> length (pages s) \<or> policy = CloseDaemon \<Longrightarrow>
   closePage policy None s =
     (Inr (activeIndex s, length (pages s) - 1),
      s\<lparr>pages := remove_at (activeIndex s) (pages s), activeIndex := 0\<rparr>)"
  by (auto simp: closePage_def)

lemma closePage_result:
  "closePage policy None s = (Inr (gone, remaining), s') \<Longrightarrow>
   gone = activeIndex s \<and> Suc remaining = length (pages s) \<and>
   pages s' = remove_at (activeIndex s) (pages s) \<and> activeIndex s' = 0"
  by (auto simp: closePage_def split: if_splits)

text \<open>
  C5. For every \<open>tab_close\<close> command with no index, run against a browser manager
  whose \<open>closeTab\<close> is the specified \<open>closePage\<close>: when the command succeeds, the
  closed index is the active index, the remaining count is the count before minus one,
  the page at the active index is the one removed, and the new active index is 0, the
  lowest remaining index. It does succeed whenever the active index is valid and either
  two or more pages are open or closing the last page is allowed.
\<close>

theorem tab_close_without_index:
  assumes "closeTab browser = closePage policy"
  shows "(activeIndex s < length (pages s) \<and> (2 \<le> length (pages s) \<or> policy = CloseDaemon) \<longrightarrow>
            executeCommand pf (TabClose (TabCloseCommand i None)) browser s =
              (Inr (SuccessResponse i (TabCloseData (activeIndex s) (length (pages s) - 1))),
               s\<lparr>pages := remove_at (activeIndex s) (pages s), activeIndex := 0\<rparr>)) \<and>
         (\<forall>r s'. executeCommand pf (TabClose (TabCloseCommand i None)) browser s = (Inr r, s') \<and>
                 response_success r \<longrightarrow>
            (\<exists>remaining. r = SuccessResponse i (TabCloseData (activeIndex s) remaining) \<and>
                          Suc remaining = length (pages s)) \<and>
            pages s' = remove_at (activeIndex s) (pages s) \<and> activeIndex s' = 0)"
proof (rule conjI)
  show "activeIndex s < length (pages s) \<and> (2 \<le> length (pages s) \<or> policy = CloseDaemon) \<longrightarrow>
            executeCommand pf (TabClose (TabCloseCommand i None)) browser s =
              (Inr (SuccessResponse i (TabCloseData (activeIndex s) (length (pages s) - 1))),
               s\<lparr>pages := remove_at (activeIndex s) (pages s), activeIndex := 0\<rparr>)"
    by (simp add: executeCommand_def and_then_def returns_def successResponse_def assms
        closePage_active)
next
  show "\<forall>r s'. executeCommand pf (TabClose (TabCloseCommand i None)) browser s = (Inr r, s') \<and>
                 response_success r \<longrightarrow>
            (\<exists>remaining. r = SuccessResponse i (TabCloseData (activeIndex s) remaining) \<and>
                          Suc remaining = length (pages s)) \<and>
            pages s' = remove_at (activeIndex s) (pages s) \<and> activeIndex s' = 0"
  proof (intro allI impI)
    fix r s'
    assume a: "executeCommand pf (TabClose (TabCloseCommand i None)) browser s = (Inr r, s') \<and>
               response_success r"
    obtain res s1 where c: "closePage policy None s = (res, s1)"
      by (cases "closePage policy None s")
    show "(\<exists>remaining. r = SuccessResponse i (TabCloseData (activeIndex s) remaining) \<and>
                            Suc remaining = length (pages s)) \<and>
          pages s' = remove_at (activeIndex s) (pages s) \<and> activeIndex s' = 0"
    proof (cases res)
      case (Inl e)
      with a c show ?thesis
        by (auto simp: executeCommand_def and_then_def errorResponse_def assms
            split: sum.splits)
    next
      case (Inr result)
      obtain gone remaining where "result = (gone, remaining)" by (cases result)
      with Inr c have c': "closePage policy None s = (Inr (gone, remaining), s1)" by simp
      from a c' have "r = SuccessResponse i (TabCloseData gone remaining)" "s' = s1"
        by (simp_all add: executeCommand_def and_then_def returns_def successResponse_def assms)
      with closePage_result [OF c'] show ?thesis by simp
    qed
  qed
qed

theorem tab_close_without_index_witness:
  "closeTab (engine_manager RejectLast) = closePage RejectLast \<and>
   executeCommand engine_platform (TabClose (TabCloseCommand ''r5'' None))
     (engine_manager RejectLast)
     (engine_running [(''https://a.test/'', ''A''), (''https://b.test/'', ''B''),
                      (''https://c.test/'', ''C'')] 1)
   = (Inr (SuccessResponse ''r5'' (TabCloseData 1 2)),
      engine_running [(''https://a.test/'', ''A''), (''https://c.test/'', ''C'')] 0)"
proof -
  let ?s = "engine_running [(''https://a.test/'', ''A''), (''https://b.test/'', ''B''),
                      (''https://c.test/'', ''C'')] 1"
  have e: "closeTab (engine_manager RejectLast) = closePage RejectLast"
    by (simp add: engine_manager_def)
  have "activeIndex ?s < length (pages ?s) \<and> (2 \<le> length (pages ?s) \<or> RejectLast = CloseDaemon)"
    by (simp add: engine_running_def)
  with tab_close_without_index [OF e, of ?s engine_platform "''r5''"]
  have "executeCommand engine_platform (TabClose (TabCloseCommand ''r5'' None))
     (engine_manager RejectLast) ?s =
     (Inr (SuccessResponse ''r5'' (TabCloseData (activeIndex ?s) (length (pages ?s) - 1))),
      ?s\<lparr>pages := remove_at (activeIndex ?s) (pages ?s), activeIndex := 0\<rparr>)"
    by blast
  then show ?thesis using e
    by (simp add: engine_running_def remove_at_def)
qed

section \<open>Scrolling\<close>

lemma scroll_page_by_direction:
  assumes "\<not> truthy_string sel"
    and "getPage browser s = (Inr pg, s1)"
    and "page_evaluate (page pf) pg
           (scrollBy_script (number_text pf) (scroll_deltas x y dir amt)) s1 = (Inr result, s2)"
  shows "executeCommand pf (Scroll (ScrollCommand i sel x y dir amt)) browser s
           = (Inr (SuccessResponse i ScrolledData), s2)"
  using assms by (simp add: run_engine)

text \<open>
  C6. What the code does with a scroll command that has a selector and a direction but
  no explicit \<open>x\<close> or \<open>y\<close>: the element is scrolled into view and the command
  succeeds in the state that operation leaves; no delta is applied within the element,
  whatever the direction and the amount. (Without a selector the direction is
  translated and the page scrolled: \<open>scroll_page_by_direction\<close>, \<open>scroll_deltas\<close>.)
\<close>

theorem scroll_in_element_drops_direction:
  assumes "truthy_string sel"
    and "getPage browser s = (Inr pg, s1)"
    and "locator_scrollIntoViewIfNeeded (page pf) pg (or_else sel []) s1 = (Inr (), s2)"
  shows "executeCommand pf (Scroll (ScrollCommand i sel None None dir amt)) browser s
           = (Inr (SuccessResponse i ScrolledData), s2)"
  using assms by (simp add: run_engine)

theorem scroll_in_element_drops_direction_witness:
  "truthy_string (Some ''#container'') \<and>
   getPage (engine_manager RejectLast) (engine_running [(''https://example.com/'', ''Example'')] 0)
     = (Inr 0, engine_running [(''https://example.com/'', ''Example'')] 0) \<and>
   locator_scrollIntoViewIfNeeded (page engine_platform) 0 ''#container''
     (engine_running [(''https://example.com/'', ''Example'')] 0)
     = (Inr (), engine_running [(''https://example.com/'', ''Example'')] 0
          \<lparr>calls := [ScrollIntoViewIfNeeded ''#container'']\<rparr>) \<and>
   executeCommand engine_platform
     (Scroll (ScrollCommand ''r6'' (Some ''#container'') None None (Some Down) (Some 300)))
     (engine_manager RejectLast) (engine_running [(''https://example.com/'', ''Example'')] 0)
   = (Inr (SuccessResponse ''r6'' ScrolledData),
      engine_running [(''https://example.com/'', ''Example'')] 0
        \<lparr>calls := [ScrollIntoViewIfNeeded ''#container'']\<rparr>)"
proof -
  let ?s = "engine_running [(''https://example.com/'', ''Example'')] 0"
  have t: "truthy_string (Some ''#container'')" by simp
  have g: "getPage (engine_manager RejectLast) ?s = (Inr 0, ?s)"
    by (simp add: engine_manager_def engine_running_def)
  have v: "locator_scrollIntoViewIfNeeded (page engine_platform) 0 (or_else (Some ''#container'') [])
             ?s = (Inr (), ?s\<lparr>calls := [ScrollIntoViewIfNeeded ''#container'']\<rparr>)"
    by (simp add: engine_platform_def engine_page_def recorded_def engine_running_def)
  from scroll_in_element_drops_direction [OF t g v, of "''r6''" "Some Down" "Some 300"] t g v
  show ?thesis by simp
qed

lemma scroll_deltas_direction:
  "scroll_deltas x y (Some Down) amt = (or_else x 0, or_else amt 100)"
  "scroll_deltas x y (Some Up) amt = (or_else x 0, - or_else amt 100)"
  "scroll_deltas x y (Some DirRight) amt = (or_else amt 100, or_else y 0)"
  "scroll_deltas x y (Some DirLeft) amt = (- or_else amt 100, or_else y 0)"
  by simp_all

section \<open>Screenshots\<close>

text \<open>
  C7, amended. For every screenshot command, the shape of the answer follows the
  truthiness of \<open>path\<close>: when \<open>path\<close> is a non-empty string, the capability is asked
  for the screenshot with that path among its options and the success response's data
  is the path; when \<open>path\<close> is absent or the empty string, the capability is asked
  without a path and the data is the base64 text of the bytes it returns. Exactly one
  of the two shapes is produced.
\<close>

theorem screenshot_shape_follows_truthy_path:
  assumes "getPage browser s = (Inr pg, s1)"
    and "target_screenshot (page pf)
           (if truthy_string sel then LocatorTarget pg (or_else sel []) else PageTarget pg)
           \<lparr>opt_fullPage = full, opt_type = or_else fmt Png,
            opt_quality = (if fmt = Some Jpeg \<and> q \<noteq> None then q else None),
            opt_path = (if truthy_string pth then pth else None)\<rparr> s1 = (Inr buf, s2)"
  shows "executeCommand pf (Screenshot (ScreenshotCommand i pth full sel fmt q)) browser s
           = (Inr (SuccessResponse i
                (if truthy_string pth then ScreenshotPath (or_else pth [])
                 else ScreenshotBase64 (base64 pf buf))), s2)"
  using assms
  by (cases "truthy_string sel"; cases "truthy_string pth"; cases "fmt = Some Jpeg \<and> q \<noteq> None")
    (simp_all add: run_engine Let_def)

theorem screenshot_shape_follows_truthy_path_witness:
  "getPage (engine_manager RejectLast) (engine_running [(''https://example.com/'', ''Example'')] 0)
     = (Inr 0, engine_running [(''https://example.com/'', ''Example'')] 0) \<and>
   target_screenshot (page engine_platform) (PageTarget 0)
     \<lparr>opt_fullPage = Some True, opt_type = Png, opt_quality = None,
      opt_path = Some ''page.png''\<rparr>
     (engine_running [(''https://example.com/'', ''Example'')] 0)
     = (Inr [77, 97, 110],
        engine_running [(''https://example.com/'', ''Example'')] 0
          \<lparr>calls := [PageScreenshot \<lparr>opt_fullPage = Some True, opt_type = Png,
                       opt_quality = None, opt_path = Some ''page.png''\<rparr>]\<rparr>) \<and>
   executeCommand engine_platform
     (Screenshot (ScreenshotCommand ''r7'' (Some ''page.png'') (Some True) None None None))
     (engine_manager RejectLast) (engine_running [(''https://example.com/'', ''Example'')] 0)
     = (Inr (SuccessResponse ''r7'' (ScreenshotPath ''page.png'')),
        engine_running [(''https://example.com/'', ''Example'')] 0
          \<lparr>calls := [PageScreenshot \<lparr>opt_fullPage = Some True, opt_type = Png,
                       opt_quality = None, opt_path = Some ''page.png''\<rparr>]\<rparr>)"
proof -
  let ?s = "engine_running [(''https://example.com/'', ''Example'')] 0"
  let ?o = "\<lparr>opt_fullPage = Some True, opt_type = Png, opt_quality = None,
             opt_path = Some ''page.png''\<rparr>"
  have g: "getPage (engine_manager RejectLast) ?s = (Inr 0, ?s)"
    by (simp add: engine_manager_def engine_running_def)
  have t: "target_screenshot (page engine_platform) (PageTarget 0) ?o ?s
             = (Inr [77, 97, 110], ?s\<lparr>calls := [PageScreenshot ?o]\<rparr>)"
    by (simp add: engine_platform_def engine_page_def recorded_def engine_running_def)
  have "executeCommand engine_platform
     (Screenshot (ScreenshotCommand ''r7'' (Some ''page.png'') (Some True) None None None))
     (engine_manager RejectLast) ?s
     = (Inr (SuccessResponse ''r7'' (ScreenshotPath ''page.png'')), ?s\<lparr>calls := [PageScreenshot ?o]\<rparr>)"
    using screenshot_shape_follows_truthy_path
      [where browser = "engine_manager RejectLast" and s = ?s and pg = 0 and ?s1.0 = ?s
        and pf = engine_platform and sel = None and full = "Some True" and fmt = None
        and q = None and pth = "Some ''page.png''" and buf = "[77, 97, 110]"
        and ?s2.0 = "?s\<lparr>calls := [PageScreenshot ?o]\<rparr>" and i = "''r7''"]
      g t
    by simp
  with g t show ?thesis by simp
qed

text \<open>
  C7 as stated fails: a schema-valid screenshot command whose \<open>path\<close> is present and
  empty is answered with the base64 shape, not with the path.
\<close>

theorem screenshot_empty_path_counterexample:
  "valid_command (Screenshot (ScreenshotCommand ''r7'' (Some []) None None None None)) \<and>
   executeCommand engine_platform
     (Screenshot (ScreenshotCommand ''r7'' (Some []) None None None None))
     (engine_manager RejectLast) (engine_running [(''https://example.com/'', ''Example'')] 0)
   = (Inr (SuccessResponse ''r7'' (ScreenshotBase64 ''TWFu'')),
      engine_running [(''https://example.com/'', ''Example'')] 0
        \<lparr>calls := [PageScreenshot \<lparr>opt_fullPage = None, opt_type = Png,
                     opt_quality = None, opt_path = None\<rparr>]\<rparr>)"
  by (simp add: run_engine Let_def holds_if_set_def base64_digit_def)

section \<open>The open command of the CLI\<close>

lemma main_open_prefixes_other_arguments:
  assumes "arg_at cleanArgs 1 = Some u" and "u \<noteq> []" and "\<not> startsWith u ''http''"
  shows "main_open i cleanArgs =
           Inr (JObj [(''id'', JStr i), (''action'', JStr ''navigate''),
                      (''url'', JStr (''https://'' @ u))])"
  using assms by (simp add: main_open_def)

text \<open>
  C8. What the CLI's open command does with a URL argument that starts with the four
  characters \<open>http\<close>: the navigate command it builds carries the argument unchanged,
  whether or not the argument has a scheme. The test is \<open>url.startsWith('http')\<close>,
  under the comment \<open>Auto-add https if missing\<close>: an argument that lacks a scheme and
  starts with \<open>http\<close>, such as \<open>httpbin.org\<close>, gets no \<open>https://\<close> in front.
  (Every other non-empty argument gets it: \<open>main_open_prefixes_other_arguments\<close>.)
\<close>

theorem main_open_keeps_argument_starting_with_http:
  assumes "arg_at cleanArgs 1 = Some u" and "startsWith u ''http''"
  shows "main_open i cleanArgs =
           Inr (JObj [(''id'', JStr i), (''action'', JStr ''navigate''), (''url'', JStr u)])"
proof -
  from assms(2) have "u \<noteq> []" by (auto simp: startsWith_def)
  with assms show ?thesis by (simp add: main_open_def)
qed

theorem main_open_keeps_argument_starting_with_http_witness:
  "scheme_of ''httpbin.org'' = None \<and>
   arg_at [''open'', ''httpbin.org''] 1 = Some ''httpbin.org'' \<and>
   startsWith ''httpbin.org'' ''http'' \<and>
   main_open ''r8'' [''open'', ''httpbin.org'']
     = Inr (JObj [(''id'', JStr ''r8''), (''action'', JStr ''navigate''),
                  (''url'', JStr ''httpbin.org'')]) \<and>
   main_open ''r8'' [''open'', ''httpbin.org'']
     \<noteq> Inr (JObj [(''id'', JStr ''r8''), (''action'', JStr ''navigate''),
                  (''url'', JStr ''https://httpbin.org'')])"
proof -
  have s: "scheme_of ''httpbin.org'' = None"
    by (simp add: scheme_of_def)
  have a: "arg_at [''open'', ''httpbin.org''] 1 = Some ''httpbin.org''"
    by (simp add: arg_at_def)
  have h: "startsWith ''httpbin.org'' ''http''"
    by (simp add: startsWith_def)
  from main_open_keeps_argument_starting_with_http [OF a h, of "''r8''"] s a h
  show ?thesis by simp
qed

section \<open>Select\<close>

text \<open>
  C9. For every select command, the capability's \<open>selectOption\<close> is called with the
  array \<open>values_array values\<close> (a scalar string wrapped into a one-element array, an
  array as it is), and when it succeeds the success response's \<open>selected\<close> is that
  array, not the scalar.
\<close>

theorem select_values_are_normalized:
  assumes "getPage browser s = (Inr pg, s1)"
    and "page_selectOption (page pf) pg sel (values_array vs) s1 = (Inr (), s2)"
  shows "executeCommand pf (Select (SelectCommand i sel vs)) browser s
           = (Inr (SuccessResponse i (SelectedData (values_array vs))), s2) \<and>
         (\<forall>v. vs = Inl v \<longrightarrow> values_array vs = [v]) \<and>
         (\<forall>xs. vs = Inr xs \<longrightarrow> values_array vs = xs)"
  using assms by (auto simp: run_engine Let_def)

theorem select_values_are_normalized_witness:
  "getPage (engine_manager RejectLast) (engine_running [(''https://example.com/'', ''Example'')] 0)
     = (Inr 0, engine_running [(''https://example.com/'', ''Example'')] 0) \<and>
   page_selectOption (page engine_platform) 0 ''#country'' (values_array (Inl ''US''))
     (engine_running [(''https://example.com/'', ''Example'')] 0)
     = (Inr (), engine_running [(''https://example.com/'', ''Example'')] 0
          \<lparr>calls := [SelectOption ''#country'' [''US'']]\<rparr>) \<and>
   executeCommand engine_platform (Select (SelectCommand ''r9'' ''#country'' (Inl ''US'')))
     (engine_manager RejectLast) (engine_running [(''https://example.com/'', ''Example'')] 0)
     = (Inr (SuccessResponse ''r9'' (SelectedData [''US''])),
        engine_running [(''https://example.com/'', ''Example'')] 0
          \<lparr>calls := [SelectOption ''#country'' [''US'']]\<rparr>)"
proof -
  let ?s = "engine_running [(''https://example.com/'', ''Example'')] 0"
  have g: "getPage (engine_manager RejectLast) ?s = (Inr 0, ?s)"
    by (simp add: engine_manager_def engine_running_def)
  have t: "page_selectOption (page engine_platform) 0 ''#country'' (values_array (Inl ''US'')) ?s
             = (Inr (), ?s\<lparr>calls := [SelectOption ''#country'' [''US'']]\<rparr>)"
    by (simp add: engine_platform_def engine_page_def recorded_def engine_running_def)
  from select_values_are_normalized [OF g t, of "''r9''"] g t
  show ?thesis by simp
qed

section \<open>Wait\<close>

text \<open>
  C10. A wait command with neither selector nor timeout is valid (the schema accepts
  it) and is handled by waiting for the load state of the page, answering
  \<open>waited\<close>. A valid wait command with both a selector and a timeout waits for the
  selector with the timeout as its bound (the state defaults to visible), and answers
  in the state that wait leaves: no fixed sleep.
\<close>

theorem wait_default_and_bounded:
  "(valid_command (Wait (WaitCommand i None None st)) \<and>
    commandSchema [] (Some (toJSON (Wait (WaitCommand i None None st))))
      = Inr (Wait (WaitCommand i None None st)) \<and>
    (\<forall>pg s1 s2.
       getPage browser s = (Inr pg, s1) \<and>
       page_waitForLoadState (page pf) pg Load s1 = (Inr (), s2) \<longrightarrow>
         executeCommand pf (Wait (WaitCommand i None None st)) browser s
           = (Inr (SuccessResponse i WaitedData), s2))) \<and>
   (\<forall>sel t pg s1 s2.
      valid_command (Wait (WaitCommand i (Some sel) (Some t) st)) \<and>
      getPage browser s = (Inr pg, s1) \<and>
      page_waitForSelector (page pf) pg sel (or_else st Visible) (Some t) s1 = (Inr (), s2) \<longrightarrow>
        executeCommand pf (Wait (WaitCommand i (Some sel) (Some t) st)) browser s
          = (Inr (SuccessResponse i WaitedData), s2))"
proof -
  have v: "valid_command (Wait (WaitCommand i None None st))"
    by (simp add: holds_if_set_def)
  then have "commandSchema [] (Some (toJSON (sent (Wait (WaitCommand i None None st)))))
      = Inr (Wait (WaitCommand i None None st))"
    by (rule commandSchema_toJSON)
  then have p: "commandSchema [] (Some (toJSON (Wait (WaitCommand i None None st))))
      = Inr (Wait (WaitCommand i None None st))"
    by (simp add: sent_def)
  have d: "\<forall>pg s1 s2.
       getPage browser s = (Inr pg, s1) \<and>
       page_waitForLoadState (page pf) pg Load s1 = (Inr (), s2) \<longrightarrow>
         executeCommand pf (Wait (WaitCommand i None None st)) browser s
           = (Inr (SuccessResponse i WaitedData), s2)"
    by (auto simp: run_engine)
  have b: "\<forall>sel t pg s1 s2.
      valid_command (Wait (WaitCommand i (Some sel) (Some t) st)) \<and>
      getPage browser s = (Inr pg, s1) \<and>
      page_waitForSelector (page pf) pg sel (or_else st Visible) (Some t) s1 = (Inr (), s2) \<longrightarrow>
        executeCommand pf (Wait (WaitCommand i (Some sel) (Some t) st)) browser s
          = (Inr (SuccessResponse i WaitedData), s2)"
    by (auto simp: run_engine holds_if_set_def)
  from v p d b show ?thesis by blast
qed

theorem wait_default_and_bounded_witness:
  "executeCommand engine_platform (Wait (WaitCommand ''r10'' None None None))
     (engine_manager RejectLast) (engine_running [(''https://example.com/'', ''Example'')] 0)
     = (Inr (SuccessResponse ''r10'' WaitedData),
        engine_running [(''https://example.com/'', ''Example'')] 0
          \<lparr>calls := [WaitForLoadState Load]\<rparr>) \<and>
   valid_command (Wait (WaitCommand ''r11'' (Some ''#loading'') (Some 2000) None)) \<and>
   executeCommand engine_platform
     (Wait (WaitCommand ''r11'' (Some ''#loading'') (Some 2000) None))
     (engine_manager RejectLast) (engine_running [(''https://example.com/'', ''Example'')] 0)
     = (Inr (SuccessResponse ''r11'' WaitedData),
        engine_running [(''https://example.com/'', ''Example'')] 0
          \<lparr>calls := [WaitForSelector ''#loading'' Visible (Some 2000)]\<rparr>)"
proof -
  let ?s = "engine_running [(''https://example.com/'', ''Example'')] 0"
  have g: "getPage (engine_manager RejectLast) ?s = (Inr 0, ?s)"
    by (simp add: engine_manager_def engine_running_def)
  have l: "page_waitForLoadState (page engine_platform) 0 Load ?s
             = (Inr (), ?s\<lparr>calls := [WaitForLoadState Load]\<rparr>)"
    by (simp add: engine_platform_def engine_page_def recorded_def engine_running_def)
  have w: "page_waitForSelector (page engine_platform) 0 ''#loading'' (or_else None Visible)
             (Some 2000) ?s
             = (Inr (), ?s\<lparr>calls := [WaitForSelector ''#loading'' Visible (Some 2000)]\<rparr>)"
    by (simp add: engine_platform_def engine_page_def recorded_def engine_running_def)
  have v: "valid_command (Wait (WaitCommand ''r11'' (Some ''#loading'') (Some 2000) None))"
    by (simp add: holds_if_set_def)
  from wait_default_and_bounded
    [of "''r10''" None "engine_manager RejectLast" ?s engine_platform] g l
  have 1: "executeCommand engine_platform (Wait (WaitCommand ''r10'' None None None))
     (engine_manager RejectLast) ?s
     = (Inr (SuccessResponse ''r10'' WaitedData), ?s\<lparr>calls := [WaitForLoadState Load]\<rparr>)"
    by blast
  from wait_default_and_bounded
    [of "''r11''" None "engine_manager RejectLast" ?s engine_platform] g w v
  have 2: "executeCommand engine_platform
     (Wait (WaitCommand ''r11'' (Some ''#loading'') (Some 2000) None))
     (engine_manager RejectLast) ?s
     = (Inr (SuccessResponse ''r11'' WaitedData),
        ?s\<lparr>calls := [WaitForSelector ''#loading'' Visible (Some 2000)]\<rparr>)"
    by blast
  from 1 2 v show ?thesis by simp
qed

end
